theory Spec2Isabelle
  imports Complex_Main "HOL-Library.Sublist"
begin

section \<open>JavaScript values and string primitives used by the connection code\<close>

text \<open>
  The module under verification is the nREPL connection manager (the second module of
  \<^verbatim>\<open>src/src/lsp.ts\<close>, from \<^verbatim>\<open>getProjectRoot\<close> on): \<^verbatim>\<open>initProjectDir\<close>,
  \<^verbatim>\<open>connectToHost\<close>, \<^verbatim>\<open>setUpCljsRepl\<close>, \<^verbatim>\<open>evalConnectCode\<close>, the registry
  \<^verbatim>\<open>cljsReplTypes\<close> with its routines and predicates, the custom REPL type,
  \<^verbatim>\<open>makeCljsSessionClone\<close>, \<^verbatim>\<open>promptForNreplUrlAndConnect\<close>, \<^verbatim>\<open>disconnect\<close> and
  \<^verbatim>\<open>toggleCLJCSession\<close>. It is TypeScript running on a JavaScript engine, so a
  predicate declared to return \<^verbatim>\<open>boolean\<close> may hand back any value; what the callers
  test is its truthiness.
\<close>

datatype jsval = JBool bool | JStr string | JUndefined

fun truthy :: "jsval \<Rightarrow> bool" where
  "truthy (JBool b) = b"
| "truthy (JStr s) = (s \<noteq> [])"
| "truthy JUndefined = False"

fun startsWith :: "string \<Rightarrow> string \<Rightarrow> bool" where
  "startsWith [] s = True"
| "startsWith (p # ps) [] = False"
| "startsWith (p # ps) (c # cs) = (p = c \<and> startsWith ps cs)"

text \<open>
  \<^verbatim>\<open>x.search(pat)\<close> for a pattern without regular-expression metacharacters: the index
  of the first occurrence of \<open>pat\<close> in \<open>x\<close>, or \<open>-1\<close>.
\<close>

fun search_from :: "nat \<Rightarrow> string \<Rightarrow> string \<Rightarrow> int" where
  "search_from i pat [] = (if pat = [] then int i else - 1)"
| "search_from i pat (c # cs) =
     (if startsWith pat (c # cs) then int i else search_from (Suc i) pat cs)"

definition search :: "string \<Rightarrow> string \<Rightarrow> int" where
  "search x pat = search_from 0 pat x"

text \<open>\<^verbatim>\<open>checkConnectedFn = (value: string, out: any[], err: any[]) => boolean\<close>; the value
  is \<^verbatim>\<open>undefined\<close> (\<open>None\<close>) when the evaluation was rejected. A predicate may throw.\<close>

datatype exn = Thrown string | TypeError string

type_synonym checkConnectedFn = "string option \<Rightarrow> string list \<Rightarrow> string list \<Rightarrow> exn + jsval"

section \<open>The built-in success predicates of \<^verbatim>\<open>cljsReplTypes\<close>\<close>

text \<open>
  \<^verbatim>\<open>started: (result, out, err) =>
      out.find(x => x.search("Prompt will show") >= 0) != undefined ||
      err != undefined && err.find(x => x.search("already running") >= 0)\<close>

  \<^verbatim>\<open>err\<close> is always an array, so the right operand of \<^verbatim>\<open>||\<close> is the value of
  \<^verbatim>\<open>err.find\<close>: the first matching line, or \<^verbatim>\<open>undefined\<close>.
\<close>

definition figwheelMain_started :: checkConnectedFn where
  "figwheelMain_started result out err =
     Inr (if find (\<lambda>x. search x ''Prompt will show'' \<ge> 0) out \<noteq> None then JBool True
          else (case find (\<lambda>x. search x ''already running'' \<ge> 0) err of
                  None \<Rightarrow> JUndefined
                | Some x \<Rightarrow> JStr x))"

definition figwheelMain_connected :: checkConnectedFn where
  "figwheelMain_connected result out err =
     Inr (JBool (find (\<lambda>x. search x ''To quit, type: :cljs/quit'' \<ge> 0) out \<noteq> None))"

definition figwheel_connected :: checkConnectedFn where
  "figwheel_connected result out err =
     Inr (JBool (find (\<lambda>x. search x ''Prompt will show'' \<ge> 0) out \<noteq> None))"

text \<open>\<^verbatim>\<open>connected: (result, _out, _err) => result.search(/:selected/) >= 0\<close>: calling
  \<^verbatim>\<open>search\<close> on \<^verbatim>\<open>undefined\<close> throws a TypeError.\<close>

definition shadow_connected :: checkConnectedFn where
  "shadow_connected result out err =
     (case result of
        None \<Rightarrow> Inl (TypeError ''Cannot read property 'search' of undefined'')
      | Some r \<Rightarrow> Inr (JBool (search r '':selected'' \<ge> 0)))"

section \<open>Sessions, connections and the shared connection state\<close>

text \<open>An \<^verbatim>\<open>NReplSession\<close> object, by identity.\<close>

datatype session = Session nat

text \<open>
  An \<^verbatim>\<open>NReplClient\<close> object: its identity, its base session (\<^verbatim>\<open>nClient.session\<close>), the ad hoc
  \<^verbatim>\<open>silent\<close> property the connection code sets on it, and whether its socket is open.
\<close>

record connection =
  conn_id :: nat
  conn_session :: session
  silent :: bool
  live :: bool

text \<open>
  A JavaScript number as far as the port check reads it: not-a-number, an infinity, or
  a finite value (every finite double is a rational).
\<close>

datatype jsnum = NaN | Num rat | PosInfinity | NegInfinity

text \<open>Absolute, normalised file-system paths as their components; \<open>[]\<close> is the root.\<close>

type_synonym path = "string list"

text \<open>What the code does to its collaborators, in the order it does it.\<close>

datatype effect =
    OutputLine string
  | ConnLog string
  | ConsoleError string exn
  | Analytics string string "string option"
  | StatusUpdate
  | ChanShow
  | ShowErrorMessage string
  | OpenReplWindow string
  | ReconnectReplWindow string
  | OpenBrowser string

text \<open>
  The keys of \<^verbatim>\<open>state.cursor\<close> the module reads and writes, the module variables
  \<^verbatim>\<open>nClient\<close>, \<^verbatim>\<open>cljSession\<close> and \<^verbatim>\<open>cljsSession\<close>, the keys of
  \<^verbatim>\<open>extensionContext.workspaceState\<close>, the effects so far, and the number of answers the
  outside world has given so far. A slot holding \<^verbatim>\<open>null\<close> or \<^verbatim>\<open>undefined\<close> is \<open>None\<close>
  (the code compares slots with \<^verbatim>\<open>==\<close>, which does not tell the two apart).
\<close>

record app_state =
  connected :: bool
  connecting :: bool
  clj :: "session option"
  cljs :: "session option"
  cljc :: "session option"
  cljsBuild :: "string option"
  hostname :: "string option"
  port :: "jsnum option"
  projectDir :: "path option"
  projectWsFolder :: "path option"
  nClient :: "connection option"
  cljSession :: "session option"
  cljsSession :: "session option"
  ws_cljsReplType :: "string option"
  ws_cljsReplTypeHasBuilds :: "bool option"
  effects :: "effect list"
  tick :: nat

text \<open>Output of one evaluation: the chunks in arrival order, then the fate of
  \<^verbatim>\<open>result.value\<close> (rejected with a reason, or resolved with the printed value).\<close>

datatype chunk = Stdout string | Stderr string

record eval_script =
  chunks :: "chunk list"
  outcome :: "exn + string"

text \<open>\<^verbatim>\<open>customCLJSREPLType\<close>\<close>

record customCLJSREPLType =
  custom_name :: string
  startCode :: string
  tellUserToStartRegExp :: "string option"
  printThisLineRegExp :: "string option"
  connectedRegExp :: string

text \<open>
  Everything the module awaits or calls that is not its own code: the JavaScript
  runtime (\<^verbatim>\<open>parseFloat\<close>, the regular-expression engine for user-supplied patterns),
  \<^verbatim>\<open>util.stripAnsi\<close>, the nREPL client, the REPL windows, the pickers and input box, the
  file system and the configuration. An answer may depend on the arguments and on how
  many answers were given before (\<open>tick\<close>).
\<close>

record environment =
  stripAnsi :: "string \<Rightarrow> string"
  parseFloat :: "string option \<Rightarrow> jsnum"
  regexMatch :: "string \<Rightarrow> string \<Rightarrow> string option"
  regexError :: "string \<Rightarrow> exn option"
  nrepl_create :: "string \<Rightarrow> jsnum \<Rightarrow> nat \<Rightarrow> exn + nat \<times> session"
  session_clone :: "session \<Rightarrow> nat \<Rightarrow> exn + session option"
  session_eval :: "session \<Rightarrow> string option \<Rightarrow> nat \<Rightarrow> exn + eval_script"
  openReplWindow :: "string \<Rightarrow> nat \<Rightarrow> exn option"
  reconnectReplWindow :: "string \<Rightarrow> nat \<Rightarrow> exn option"
  quickPickSingle :: "string list \<Rightarrow> string \<Rightarrow> string \<Rightarrow> nat \<Rightarrow> string option"
  quickPickMulti :: "string list \<Rightarrow> string \<Rightarrow> string \<Rightarrow> nat \<Rightarrow> string list option"
  showInputBox :: "string \<Rightarrow> nat \<Rightarrow> string option"
  readdirSync :: "path option \<Rightarrow> nat \<Rightarrow> exn + string list"
  existsSync :: "path \<Rightarrow> bool"
  shadowBuildKeys :: "path option \<Rightarrow> nat \<Rightarrow> exn + string list"
  activeDocument :: "path option"
  getWorkspaceFolder :: "path \<Rightarrow> path option"
  openBrowserWhenFigwheelStarted :: bool
  customCljsRepl :: "customCLJSREPLType option"

subsection \<open>Asynchronous code that may throw, over the shared state\<close>

text \<open>
  An \<^verbatim>\<open>async\<close> function is a function from the state to a result (a thrown value or a
  returned one) and the state it leaves. The module runs on one thread; an operation is
  followed from its call to its return, every \<^verbatim>\<open>await\<close> taking the next answer of the
  environment, and nothing else touches the state in between. What happens to the
  connection from outside (its loss) is a step of its own, \<open>closeClient\<close> below.
\<close>

type_synonym 'a io = "app_state \<Rightarrow> (exn + 'a) \<times> app_state"

definition resolve :: "'a \<Rightarrow> 'a io" where
  "resolve x = (\<lambda>s. (Inr x, s))"

definition throw :: "exn \<Rightarrow> 'a io" where
  "throw e = (\<lambda>s. (Inl e, s))"

definition andThen :: "'a io \<Rightarrow> ('a \<Rightarrow> 'b io) \<Rightarrow> 'b io" where
  "andThen m f = (\<lambda>s. case m s of (Inl e, s') \<Rightarrow> (Inl e, s') | (Inr x, s') \<Rightarrow> f x s')"

definition tryCatch :: "'a io \<Rightarrow> (exn \<Rightarrow> 'a io) \<Rightarrow> 'a io" where
  "tryCatch m h = (\<lambda>s. case m s of (Inl e, s') \<Rightarrow> h e s' | (Inr x, s') \<Rightarrow> (Inr x, s'))"

definition update :: "(app_state \<Rightarrow> app_state) \<Rightarrow> unit io" where
  "update f = (\<lambda>s. (Inr (), f s))"

definition emit :: "effect \<Rightarrow> app_state \<Rightarrow> app_state" where
  "emit e s = s\<lparr>effects := effects s @ [e]\<rparr>"

definition emits :: "effect list \<Rightarrow> app_state \<Rightarrow> app_state" where
  "emits es s = s\<lparr>effects := effects s @ es\<rparr>"

definition await :: "(nat \<Rightarrow> exn + 'a) \<Rightarrow> 'a io" where
  "await answer = (\<lambda>s. (answer (tick s), s\<lparr>tick := Suc (tick s)\<rparr>))"

definition ask :: "(nat \<Rightarrow> 'a) \<Rightarrow> 'a io" where
  "ask answer = (\<lambda>s. (Inr (answer (tick s)), s\<lparr>tick := Suc (tick s)\<rparr>))"

definition show_exn :: "exn \<Rightarrow> string" where
  "show_exn e = (case e of Thrown m \<Rightarrow> m | TypeError m \<Rightarrow> ''TypeError: '' @ m)"


section \<open>Project root resolution\<close>

definition projectFileNames :: "string list" where
  "projectFileNames = [''project.clj'', ''shadow-cljs.edn'', ''deps.edn'']"

text \<open>The inner \<^verbatim>\<open>for\<close> loop of \<^verbatim>\<open>initProjectDir\<close>: is one of the marker files in
  directory \<open>d\<close>? (\<^verbatim>\<open>path.resolve(d, name)\<close> is \<open>d @ [name]\<close>.)\<close>

definition hasProjectFile :: "environment \<Rightarrow> path \<Rightarrow> bool" where
  "hasProjectFile env d = list_ex (\<lambda>f. existsSync env (d @ [f])) projectFileNames"

text \<open>
  The \<^verbatim>\<open>while (d != prev)\<close> loop of \<^verbatim>\<open>initProjectDir\<close>, with its three variables;
  \<^verbatim>\<open>path.resolve(d, "..")\<close> is \<open>butlast d\<close>, and the parent of the root is the root.
  The paths the editor hands over (\<^verbatim>\<open>uri.fsPath\<close>) are absolute and normalised, so
  \<^verbatim>\<open>path.resolve\<close> of the workspace folder is the folder itself, \<^verbatim>\<open>path.dirname\<close> of
  the document drops its last component, and comparing two paths as strings is comparing
  their components.
\<close>

function findProjectRoot :: "environment \<Rightarrow> path \<Rightarrow> path \<Rightarrow> path option \<Rightarrow> path" where
  "findProjectRoot env rootPath d prev =
     (if prev = Some d then rootPath
      else (let rootPath' = (if hasProjectFile env d then d else rootPath) in
            if d = rootPath' then rootPath'
            else findProjectRoot env rootPath' (butlast d) (Some d)))"
  by pat_completeness auto
termination
proof (relation "measure (\<lambda>(env, rootPath, d, prev).
        2 * length d + (if prev = Some d then 0 else 1))")
  fix env :: environment and rootPath d :: path and prev :: "path option" and x
  assume "prev \<noteq> Some d"
    and x: "x = (if hasProjectFile env d then d else rootPath)" and "d \<noteq> x"
  moreover have "d \<noteq> butlast d \<Longrightarrow> length (butlast d) < length d"
    by (cases d) auto
  ultimately show "((env, x, butlast d, Some d), env, rootPath, d, prev)
       \<in> measure (\<lambda>(env, rootPath, d, prev). 2 * length d + (if prev = Some d then 0 else 1))"
    by (cases "d = butlast d") auto
qed simp

declare findProjectRoot.simps [simp del]

definition initProjectDir :: "environment \<Rightarrow> unit io" where
  "initProjectDir env =
     (case (case activeDocument env of None \<Rightarrow> None
            | Some doc \<Rightarrow> map_option (Pair doc) (getWorkspaceFolder env doc)) of
        None \<Rightarrow> (\<lambda>s.
          (Inl (Thrown ''There is no document opened in the workspace. Aborting.''),
           emits [ShowErrorMessage ''There is no document opened in the workspace. Aborting. Please open a file in your Clojure project and try again.'',
                  Analytics ''REPL'' ''JackinOrConnectInterrupted'' (Some ''NoCurrentDocument'')] s))
      | Some (doc, workspaceFolder) \<Rightarrow>
          update (\<lambda>s. s\<lparr>projectWsFolder := Some workspaceFolder,
                         projectDir := Some (findProjectRoot env workspaceFolder (butlast doc) None)\<rparr>))"

definition pathString :: "path \<Rightarrow> string" where
  "pathString p = (if p = [] then ''/'' else concat (map (\<lambda>c. ''/'' @ c) p))"

text \<open>\<^verbatim>\<open>getProjectRoot()\<close> inside a template string.\<close>

definition projectRootString :: "app_state \<Rightarrow> string" where
  "projectRootString s = (case projectDir s of None \<Rightarrow> ''undefined'' | Some p \<Rightarrow> pathString p)"

section \<open>The Evaluation Connect Protocol: \<^verbatim>\<open>evalConnectCode\<close>\<close>

type_synonym processOutputFn = "string \<Rightarrow> app_state \<Rightarrow> app_state"

text \<open>The two handlers passed to \<^verbatim>\<open>newCljsSession.eval\<close>, on the local arrays \<^verbatim>\<open>out\<close>
  and \<^verbatim>\<open>err\<close> and the shared state.\<close>

definition onStdout ::
  "environment \<Rightarrow> processOutputFn list option \<Rightarrow> string \<Rightarrow>
   string list \<times> string list \<times> app_state \<Rightarrow> string list \<times> string list \<times> app_state" where
  "onStdout env outputProcessors x = (\<lambda>(out, err, s).
     (out @ [stripAnsi env x], err,
      emit (ConnLog (stripAnsi env x))
        (case outputProcessors of None \<Rightarrow> s | Some ps \<Rightarrow> fold (\<lambda>p. p x) ps s)))"

definition onStderr ::
  "environment \<Rightarrow> string \<Rightarrow>
   string list \<times> string list \<times> app_state \<Rightarrow> string list \<times> string list \<times> app_state" where
  "onStderr env x = (\<lambda>(out, err, s).
     (out, err @ [stripAnsi env x], emit (ConnLog (stripAnsi env x)) s))"

fun handleChunk ::
  "environment \<Rightarrow> processOutputFn list option \<Rightarrow> chunk \<Rightarrow>
   string list \<times> string list \<times> app_state \<Rightarrow> string list \<times> string list \<times> app_state" where
  "handleChunk env outputProcessors (Stdout x) = onStdout env outputProcessors x"
| "handleChunk env outputProcessors (Stderr x) = onStderr env x"

definition evalConnectCode ::
  "environment \<Rightarrow> session option \<Rightarrow> string option \<Rightarrow> string \<Rightarrow> checkConnectedFn \<Rightarrow>
   processOutputFn list option \<Rightarrow> bool io" where
  "evalConnectCode env newCljsSession code name checkSuccess outputProcessors =
     (case newCljsSession of
        None \<Rightarrow> throw (TypeError ''Cannot read property 'eval' of null'')
      | Some sess \<Rightarrow>
          andThen (await (session_eval env sess code)) (\<lambda>script s1.
            let (out, err, s2) =
                  fold (handleChunk env outputProcessors) (chunks script) ([], [], s1);
                (valueResult, s3) =
                  (case outcome script of
                     Inl reason \<Rightarrow>
                       (None, emit (ConsoleError ''Error evaluating connect form: '' reason) s2)
                   | Inr v \<Rightarrow> (Some v, s2))
            in case checkSuccess valueResult out err of
                 Inl e \<Rightarrow> (Inl e, s3)
               | Inr r \<Rightarrow>
                   if truthy r
                   then (Inr True,
                         (emit (Analytics ''REPL'' ''ConnectedCLJS'' (Some name)) s3)
                           \<lparr>cljs := newCljsSession, cljsSession := newCljsSession\<rparr>)
                   else (Inr False, s3)))"

section \<open>The REPL type registry\<close>

type_synonym connectFn = "session option \<Rightarrow> string \<Rightarrow> checkConnectedFn \<Rightarrow> bool io"

record ReplType =
  repl_name :: string
  repl_start :: "connectFn option"
  repl_started :: "checkConnectedFn option"
  repl_connect :: "connectFn option"
  repl_connected :: checkConnectedFn

definition endsWith :: "string \<Rightarrow> string \<Rightarrow> bool" where
  "endsWith x suf = startsWith (rev suf) (rev x)"

definition getFigwheelMainProjects :: "environment \<Rightarrow> string list io" where
  "getFigwheelMainProjects env = (\<lambda>s0.
     andThen (await (readdirSync env (projectDir s0))) (\<lambda>res.
       let projects =
             map (\<lambda>x. if endsWith x ''.cljs.edn'' then take (length x - 9) x else x)
               (filter (\<lambda>x. search x ''.cljs.edn'' \<ge> 0) res)
       in if length projects = 0
          then (\<lambda>s. (Inl (Thrown ''Aborted''),
                  emits [ShowErrorMessage ''There are no figwheel project files (.cljs.edn) in the project directory.'',
                         OutputLine ''There are no figwheel project files (.cljs.edn) in the project directory.'',
                         OutputLine ''Connection to Figwheel Main aborted.''] s))
          else resolve projects) s0)"

fun joinWith :: "string \<Rightarrow> string list \<Rightarrow> string" where
  "joinWith sep [] = []"
| "joinWith sep [x] = x"
| "joinWith sep (x # y # ys) = x @ sep @ joinWith sep (y # ys)"

definition quoted :: "string \<Rightarrow> string" where
  "quoted x = [CHR 0x22] @ x @ [CHR 0x22]"

definition figwheelMain_start :: "environment \<Rightarrow> connectFn" where
  "figwheelMain_start env session name checkFn =
     andThen (getFigwheelMainProjects env) (\<lambda>projects.
     andThen (if length projects \<le> 1 then resolve (Some projects)
              else (\<lambda>s. ask (quickPickMulti env projects ''Please select which builds to start''
                               (projectRootString s @ ''/figwheel-main-projects'')) s)) (\<lambda>builds.
       case builds of
         Some bs \<Rightarrow>
           andThen (update (\<lambda>s. s\<lparr>ws_cljsReplTypeHasBuilds := Some True,
                                    cljsBuild := (case bs of [] \<Rightarrow> None | b # _ \<Rightarrow> Some b)\<rparr>)) (\<lambda>_.
             evalConnectCode env session
               (Some (''(do (require 'figwheel.main.api) (figwheel.main.api/start ''
                      @ joinWith '' '' (map quoted bs) @ ''))''))
               name checkFn None)
       | None \<Rightarrow> (\<lambda>s. (Inl (Thrown ''Aborted''),
                        emit (OutputLine ''Connection to Figwheel Main aborted.'') s))))"

definition figwheelMain_connect :: "environment \<Rightarrow> connectFn" where
  "figwheelMain_connect env session name checkFn =
     andThen (getFigwheelMainProjects env) (\<lambda>projects.
     andThen (\<lambda>s. ask (quickPickSingle env projects ''Select which build to connect to''
                        (projectRootString s @ ''/figwheel-main-build'')) s) (\<lambda>build.
       if build \<noteq> None \<and> build \<noteq> Some []
       then andThen (update (\<lambda>s. s\<lparr>ws_cljsReplTypeHasBuilds := Some True, cljsBuild := build\<rparr>)) (\<lambda>_.
              evalConnectCode env session
                (Some (''(do (use 'figwheel.main.api) (figwheel.main.api/cljs-repl ''
                       @ quoted (case build of Some b \<Rightarrow> b | None \<Rightarrow> []) @ ''))''))
                name checkFn None)
       else (\<lambda>s. (Inl (Thrown ''Aborted''), emit (OutputLine ''Connection aborted.'') s))))"


text \<open>\<^verbatim>\<open>output.match(/Figwheel: Starting server at (.*)/)\<close>: the first occurrence of the
  literal text, then the rest of that line; the result is (\<^verbatim>\<open>matched[0]\<close>, \<^verbatim>\<open>matched[1]\<close>).
  A line ends at a line feed or a carriage return, the two line terminators that text of
  8-bit characters can hold (JavaScript's \<^verbatim>\<open>.\<close> also stops at U+2028 and U+2029).\<close>

fun textAfter :: "string \<Rightarrow> string \<Rightarrow> string option" where
  "textAfter pat [] = (if pat = [] then Some [] else None)"
| "textAfter pat (c # cs) =
     (if startsWith pat (c # cs) then Some (drop (length pat) (c # cs)) else textAfter pat cs)"

definition matchStartingServer :: "string \<Rightarrow> (string \<times> string) option" where
  "matchStartingServer output =
     (case textAfter ''Figwheel: Starting server at '' output of
        None \<Rightarrow> None
      | Some rest \<Rightarrow>
          (let g = takeWhile (\<lambda>c. c \<noteq> CHR 0x0A \<and> c \<noteq> CHR 0x0D) rest
           in Some (''Figwheel: Starting server at '' @ g, g)))"

definition figwheelServerProcessor :: "environment \<Rightarrow> processOutputFn" where
  "figwheelServerProcessor env output s =
     (case matchStartingServer output of
        None \<Rightarrow> s
      | Some (m0, m1) \<Rightarrow>
          emits ([OutputLine m0]
                 @ (if openBrowserWhenFigwheelStarted env
                    then [OutputLine ''Opening Figwheel app in the browser (this automatic behaviour can be disabled using Settings) ...'',
                          OpenBrowser m1]
                    else [OutputLine ''Not automaticaly opening Figwheel app in the browser (this can be disabled using Settings).''])
                 @ [OutputLine ''The CLJS REPL session will be connected when the Figwheel app has been started in the browser.'']) s)"

definition figwheel_connect :: "environment \<Rightarrow> connectFn" where
  "figwheel_connect env session name checkFn =
     andThen (update (\<lambda>s. s\<lparr>ws_cljsReplTypeHasBuilds := Some False, cljsBuild := None\<rparr>)) (\<lambda>_.
       evalConnectCode env session
         (Some ''(do (use 'figwheel-sidecar.repl-api) (if (not (figwheel-sidecar.repl-api/figwheel-running?)) (figwheel-sidecar.repl-api/start-figwheel!)) (figwheel-sidecar.repl-api/cljs-repl))'')
         name checkFn (Some [figwheelServerProcessor env]))"

definition shadowCljsReplStart :: "string \<Rightarrow> string option" where
  "shadowCljsReplStart buildOrRepl =
     (if buildOrRepl = [] then None
      else if take 1 buildOrRepl = '':''
      then Some (''(shadow.cljs.devtools.api/nrepl-select '' @ buildOrRepl @ '')'')
      else Some (''(shadow.cljs.devtools.api/'' @ buildOrRepl @ '')''))"

text \<open>\<^verbatim>\<open>shadowBuilds\<close>: the keys of the manifest's build map (read and parsed by the
  environment), each prefixed with a colon, then the two synthetic entries.\<close>

definition shadowBuilds :: "environment \<Rightarrow> string list io" where
  "shadowBuilds env = (\<lambda>s0.
     andThen (await (shadowBuildKeys env (projectDir s0))) (\<lambda>keys.
       resolve (map (\<lambda>key. '':'' @ key) keys @ [''node-repl'', ''browser-repl''])) s0)"

definition shadow_connect :: "environment \<Rightarrow> connectFn" where
  "shadow_connect env session name checkFn =
     andThen (shadowBuilds env) (\<lambda>builds.
     andThen (\<lambda>s. ask (quickPickSingle env builds ''Select which build to connect to''
                        (projectRootString s @ ''/shadow-cljs-build'')) s) (\<lambda>build.
       case build of
         None \<Rightarrow> (\<lambda>s. (Inl (Thrown ''Aborted''), emit (OutputLine ''Connection aborted.'') s))
       | Some b \<Rightarrow>
           if b \<noteq> []
           then andThen (update (\<lambda>s. s\<lparr>ws_cljsReplTypeHasBuilds := Some True, cljsBuild := Some b\<rparr>)) (\<lambda>_.
                  evalConnectCode env session (shadowCljsReplStart b) name checkFn None)
           else (\<lambda>s. (Inl (Thrown ''Aborted''), emit (OutputLine ''Connection aborted.'') s))))"

definition cljsReplTypes :: "environment \<Rightarrow> ReplType list" where
  "cljsReplTypes env =
     [\<lparr>repl_name = ''Figwheel Main'',
       repl_start = Some (figwheelMain_start env),
       repl_started = Some figwheelMain_started,
       repl_connect = Some (figwheelMain_connect env),
       repl_connected = figwheelMain_connected\<rparr>,
      \<lparr>repl_name = ''Figwheel'',
       repl_start = None,
       repl_started = None,
       repl_connect = Some (figwheel_connect env),
       repl_connected = figwheel_connected\<rparr>,
      \<lparr>repl_name = ''shadow-cljs'',
       repl_start = None,
       repl_started = None,
       repl_connect = Some (shadow_connect env),
       repl_connected = shadow_connected\<rparr>]"

text \<open>The two optional output processors of a custom REPL type. The user's patterns
  are run by the environment's regular-expression engine: \<open>regexMatch env p x\<close> is
  \<^verbatim>\<open>matched[0]\<close> of \<^verbatim>\<open>x.match(p)\<close>, if there is a match, and \<open>regexError env p\<close> is
  the SyntaxError that \<^verbatim>\<open>match\<close> and \<^verbatim>\<open>search\<close> throw when \<open>p\<close> is ill-formed. In the
  two processors the pattern is taken to be well-formed: they run inside the handler that
  the nREPL client calls, and what becomes of an exception there is decided in that
  client.\<close>

definition tellUserToStartProcessor :: "environment \<Rightarrow> string \<Rightarrow> processOutputFn" where
  "tellUserToStartProcessor env pat output s =
     (case regexMatch env pat output of
        None \<Rightarrow> s
      | Some m \<Rightarrow>
          emits [OutputLine ''CLJS REPL ready to connect. Please, start your ClojureScript app.'',
                 OutputLine ''  The CLJS REPL will connect when your app is running.''] s)"

definition printThisLineProcessor :: "environment \<Rightarrow> string \<Rightarrow> processOutputFn" where
  "printThisLineProcessor env pat output s =
     (case regexMatch env (''.*('' @ pat @ '').*'') output of
        None \<Rightarrow> s
      | Some m \<Rightarrow> emit (OutputLine (stripAnsi env m)) s)"

definition createCustomCLJSReplType :: "environment \<Rightarrow> customCLJSREPLType \<Rightarrow> ReplType" where
  "createCustomCLJSReplType env custom =
     \<lparr>repl_name = custom_name custom,
      repl_start = None,
      repl_started = None,
      repl_connect = Some (\<lambda>session name checkFn.
        andThen (update (\<lambda>s. s\<lparr>ws_cljsReplTypeHasBuilds := Some False, cljsBuild := None\<rparr>)) (\<lambda>_.
          evalConnectCode env session (Some (startCode custom)) name checkFn
            (Some ((case tellUserToStartRegExp custom of
                      None \<Rightarrow> []
                    | Some pat \<Rightarrow> if pat \<noteq> [] then [tellUserToStartProcessor env pat] else [])
                   @ (case printThisLineRegExp custom of
                        None \<Rightarrow> []
                      | Some pat \<Rightarrow> if pat \<noteq> [] then [printThisLineProcessor env pat] else []))))),
      repl_connected = (\<lambda>result out err.
        case out of
          [] \<Rightarrow> Inr (JBool False)
        | x # xs \<Rightarrow>
            (case regexError env (connectedRegExp custom) of
               Some e \<Rightarrow> Inl e
             | None \<Rightarrow>
                 Inr (JBool (find (\<lambda>x. regexMatch env (connectedRegExp custom) x \<noteq> None) out
                             \<noteq> None))))\<rparr>"

definition getCustomCLJSRepl :: "environment \<Rightarrow> ReplType option" where
  "getCustomCLJSRepl env = map_option (createCustomCLJSReplType env) (customCljsRepl env)"

definition getCLJSReplTypes :: "environment \<Rightarrow> ReplType list" where
  "getCLJSReplTypes env =
     cljsReplTypes env @ (case getCustomCLJSRepl env of None \<Rightarrow> [] | Some customType \<Rightarrow> [customType])"


section \<open>Bringing up the ClojureScript session: \<^verbatim>\<open>makeCljsSessionClone\<close>\<close>

text \<open>\<^verbatim>\<open>await session.clone()\<close>; the clone is whatever the nREPL client answers.\<close>

definition cloneSession :: "environment \<Rightarrow> session option \<Rightarrow> session option io" where
  "cloneSession env session =
     (case session of
        None \<Rightarrow> throw (TypeError ''Cannot read property 'clone' of null'')
      | Some sess \<Rightarrow> await (session_clone env sess))"

text \<open>Calling an optional member that is absent throws a TypeError.\<close>

definition startedOf :: "ReplType \<Rightarrow> checkConnectedFn" where
  "startedOf repl =
     (case repl_started repl of
        Some f \<Rightarrow> f
      | None \<Rightarrow> (\<lambda>v out err. Inl (TypeError ''checkSuccess is not a function'')))"

definition connectOf :: "ReplType \<Rightarrow> connectFn" where
  "connectOf repl =
     (case repl_connect repl of
        Some f \<Rightarrow> f
      | None \<Rightarrow> (\<lambda>session name checkFn. throw (TypeError ''repl.connect is not a function'')))"

definition failedConnectingMessage :: "string option \<Rightarrow> string" where
  "failedConnectingMessage build =
     ''Failed starting cljs repl''
     @ (case build of None \<Rightarrow> [] | Some b \<Rightarrow> '' for build: '' @ b)
     @ ''. Is the build running and connected?'' @ [CHR 0x0A]
     @ ''   See the Output channel '' @ quoted ''Calva Connection Log''
     @ '' for any hints on what went wrong.''"

text \<open>The start step: \<open>Some n\<close> when the connect step is to go ahead on session \<open>n\<close>,
  \<open>None\<close> for the early \<^verbatim>\<open>return [null, null]\<close>.\<close>

definition startStep ::
  "environment \<Rightarrow> session option \<Rightarrow> ReplType \<Rightarrow> session option \<Rightarrow> session option option io" where
  "startStep env session repl newCljsSession =
     (case repl_start repl of
        None \<Rightarrow> resolve (Some newCljsSession)
      | Some start \<Rightarrow>
          andThen (update (emit (OutputLine (''Starting repl for: '' @ repl_name repl @ ''...'')))) (\<lambda>_.
          andThen (start newCljsSession (repl_name repl) (startedOf repl)) (\<lambda>ok.
            if ok
            then andThen (update (emits [Analytics ''REPL'' ''StartedCLJS'' (Some (repl_name repl)),
                                         OutputLine ''Started cljs builds''])) (\<lambda>_.
                 andThen (cloneSession env session) (\<lambda>n. resolve (Some n)))
            else andThen (update (\<lambda>s.
                   (emits [Analytics ''REPL'' ''FailedStartingCLJS'' (Some (repl_name repl)),
                           OutputLine ''Failed starting cljs repl''] s)\<lparr>cljsBuild := None\<rparr>)) (\<lambda>_.
                 resolve None))))"

definition connectStep ::
  "ReplType \<Rightarrow> session option \<Rightarrow> (session option \<times> string option) io" where
  "connectStep repl newCljsSession =
     andThen (update (emits [OutputLine (''Connecting CLJS repl: '' @ repl_name repl @ ''...''),
                             OutputLine ''  Compiling and stuff. This can take a minute or two.'',
                             OutputLine ''  See Calva Connection Log for detailed progress updates.''])) (\<lambda>_.
     andThen (connectOf repl newCljsSession (repl_name repl) (repl_connected repl)) (\<lambda>ok.
       if ok
       then andThen (update (\<lambda>s.
              (emit (Analytics ''REPL'' ''ConnectedCLJS'' (Some (repl_name repl))) s)
                \<lparr>cljs := newCljsSession, cljsSession := newCljsSession\<rparr>)) (\<lambda>_.
            resolve (newCljsSession, None))
       else andThen (update (\<lambda>s.
              (emits [Analytics ''REPL'' ''FailedConnectingCLJS'' (Some (repl_name repl)),
                      OutputLine (failedConnectingMessage (cljsBuild s))] s)\<lparr>cljsBuild := None\<rparr>)) (\<lambda>_.
            resolve (None, None))))"

definition makeCljsSessionClone ::
  "environment \<Rightarrow> session option \<Rightarrow> string \<Rightarrow> ReplType list \<Rightarrow>
   (session option \<times> string option) io" where
  "makeCljsSessionClone env session replType replTypes =
     andThen (update (emit (OutputLine ''Creating cljs repl session...''))) (\<lambda>_.
     andThen (cloneSession env session) (\<lambda>newCljsSession.
       if newCljsSession \<noteq> None
       then andThen (update (\<lambda>s.
              emits [ChanShow, Analytics ''REPL'' ''ConnectingCLJS'' (Some replType)]
                (s\<lparr>ws_cljsReplType := Some replType\<rparr>))) (\<lambda>_.
            case find (\<lambda>x. repl_name x = replType) replTypes of
              None \<Rightarrow> throw (TypeError ''Cannot read property 'start' of undefined'')
            | Some repl \<Rightarrow>
                andThen (startStep env session repl newCljsSession) (\<lambda>go.
                  case go of
                    None \<Rightarrow> resolve (None, None)
                  | Some n \<Rightarrow> connectStep repl n))
       else resolve (None, None)))"

text \<open>The state in which \<^verbatim>\<open>makeCljsSessionClone\<close>, entered in state \<open>s\<close> for the REPL
  type \<open>replType\<close>, calls that type's start routine: the first clone has been made.\<close>

definition beforeStart :: "string \<Rightarrow> app_state \<Rightarrow> app_state" where
  "beforeStart replType s =
     emit (OutputLine (''Starting repl for: '' @ replType @ ''...''))
       (emits [ChanShow, Analytics ''REPL'' ''ConnectingCLJS'' (Some replType)]
          ((emit (OutputLine ''Creating cljs repl session...'') s)
             \<lparr>tick := Suc (tick s), ws_cljsReplType := Some replType\<rparr>))"

section \<open>The connection orchestrator\<close>

text \<open>The handler \<^verbatim>\<open>connectToHost\<close> registers with \<^verbatim>\<open>nClient.addOnCloseHandler\<close>.\<close>

definition onCloseHandler :: "connection \<Rightarrow> app_state \<Rightarrow> app_state" where
  "onCloseHandler c s =
     emit StatusUpdate
       ((if \<not> silent c then emit (OutputLine ''nREPL Connection was closed'') else id)
          (s\<lparr>connected := False, connecting := False\<rparr>))"

text \<open>
  Modelled from the spec: \<^verbatim>\<open>NReplClient.close\<close> (module \<^verbatim>\<open>./nrepl\<close> is not among the
  sources). "Connection.close(): idempotent; terminates the socket and invokes all
  registered close handlers exactly once". The only handler ever registered on a client
  held in \<^verbatim>\<open>nClient\<close> is \<open>onCloseHandler\<close>. The same happens, without any call of the
  module's, when the connection drops: "A Connection's unexpected close always routes
  through the same handler path as deliberate close".
\<close>

definition closeClient :: "app_state \<Rightarrow> app_state" where
  "closeClient s =
     (case nClient s of
        None \<Rightarrow> s
      | Some c \<Rightarrow>
          if live c then onCloseHandler c (s\<lparr>nClient := Some (c\<lparr>live := False\<rparr>)\<rparr>) else s)"

definition awaitOpenReplWindow :: "environment \<Rightarrow> string \<Rightarrow> unit io" where
  "awaitOpenReplWindow env nm = (\<lambda>s.
     (case openReplWindow env nm (tick s) of None \<Rightarrow> Inr () | Some e \<Rightarrow> Inl e,
      emit (OpenReplWindow nm) (s\<lparr>tick := Suc (tick s)\<rparr>)))"

definition awaitReconnectReplWindow :: "environment \<Rightarrow> string \<Rightarrow> unit io" where
  "awaitReconnectReplWindow env nm = (\<lambda>s.
     (case reconnectReplWindow env nm (tick s) of None \<Rightarrow> Inr () | Some e \<Rightarrow> Inl e,
      emit (ReconnectReplWindow nm) (s\<lparr>tick := Suc (tick s)\<rparr>)))"

definition setUpCljsRepl :: "environment \<Rightarrow> session option \<Rightarrow> unit io" where
  "setUpCljsRepl env cljsSession' =
     andThen (update (\<lambda>s. emit (OutputLine ''Connected session: cljs'') (s\<lparr>cljs := cljsSession'\<rparr>))) (\<lambda>_.
     andThen (awaitOpenReplWindow env ''cljs'') (\<lambda>_.
     andThen (awaitReconnectReplWindow env ''cljs'') (\<lambda>_.
     update (emit StatusUpdate))))"

text \<open>
  \<^verbatim>\<open>connectToHost\<close>, in the order of its body: what precedes the outer \<^verbatim>\<open>try\<close>
  (\<open>beginConnect\<close>: any previous client is closed silently, the module's session
  variables are reset, the connecting flag is raised); inside the \<^verbatim>\<open>try\<close>, the Clojure
  bring-up (\<open>clojureBringUp\<close>, up to the first \<^verbatim>\<open>status.update()\<close>) and the
  ClojureScript bring-up with its own \<^verbatim>\<open>try\<close> (\<open>cljsBringUp\<close>); and the outer
  \<^verbatim>\<open>catch\<close>.
\<close>

definition beginConnect :: "app_state \<Rightarrow> app_state" where
  "beginConnect s =
     (let s0 = emit (Analytics ''REPL'' ''Connecting'' None) s;
          s1 = (case nClient s0 of
                  None \<Rightarrow> s0
                | Some c \<Rightarrow> closeClient (s0\<lparr>nClient := Some (c\<lparr>silent := True\<rparr>)\<rparr>))
      in emit StatusUpdate (s1\<lparr>cljsSession := None, cljSession := None, connecting := True\<rparr>))"

definition clojureBringUp :: "environment \<Rightarrow> string \<Rightarrow> jsnum \<Rightarrow> unit io" where
  "clojureBringUp env hostname' port' =
     andThen (update (emit (OutputLine ''Hooking up nREPL sessions...''))) (\<lambda>_.
     andThen (await (nrepl_create env hostname' port')) (\<lambda>(cid, sess).
     andThen (update (\<lambda>s. emit (OutputLine ''Connected session: clj'')
                (s\<lparr>nClient := Some \<lparr>conn_id = cid, conn_session = sess, silent = False, live = True\<rparr>,
                   cljSession := Some sess\<rparr>))) (\<lambda>_.
     andThen (awaitOpenReplWindow env ''clj'') (\<lambda>_.
     andThen (tryCatch (awaitReconnectReplWindow env ''clj'')
                (\<lambda>reason. update (emit (ConsoleError ''Failed reconnecting REPL window: '' reason)))) (\<lambda>_.
     update (\<lambda>s. emit StatusUpdate
                ((emit (Analytics ''REPL'' ''ConnectedCLJ'' None) (s\<lparr>connected := True\<rparr>))
                   \<lparr>connecting := False, clj := cljSession s, cljc := cljSession s\<rparr>)))))))"

definition cljsBringUp :: "environment \<Rightarrow> string \<Rightarrow> ReplType list \<Rightarrow> unit io" where
  "cljsBringUp env cljsTypeName replTypes =
     andThen (tryCatch
                (if cljsTypeName \<noteq> []
                 then (\<lambda>s. makeCljsSessionClone env (cljSession s) cljsTypeName replTypes s)
                 else resolve (None, None))
                (\<lambda>e. andThen (update (emit (OutputLine (''Error while connecting cljs REPL: '' @ show_exn e))))
                        (\<lambda>_. resolve (None, None)))) (\<lambda>(cljsSession', shadowBuild).
     andThen (if cljsSession' \<noteq> None then setUpCljsRepl env cljsSession' else resolve ()) (\<lambda>_.
     update (emits [OutputLine (''cljc files will use the clj REPL.''
                      @ (if cljsSession' \<noteq> None then '' (You can toggle this at will.)'' else [])),
                    StatusUpdate])))"

definition connectToHost ::
  "environment \<Rightarrow> string \<Rightarrow> jsnum \<Rightarrow> string \<Rightarrow> ReplType list \<Rightarrow> bool io" where
  "connectToHost env hostname' port' cljsTypeName replTypes =
     andThen (update beginConnect) (\<lambda>_.
     tryCatch
       (andThen (clojureBringUp env hostname' port') (\<lambda>_.
        andThen (cljsBringUp env cljsTypeName replTypes) (\<lambda>_.
        resolve True)))
       (\<lambda>e. andThen (update (\<lambda>s.
                emits [OutputLine ''Failed connecting.'', Analytics ''REPL'' ''FailedConnectingCLJ'' None]
                  (s\<lparr>connected := False, connecting := False\<rparr>))) (\<lambda>_.
             resolve False)))"

text \<open>\<^verbatim>\<open>let [hostname, port] = url.split(':')\<close>: the text before the first colon, and
  the text between the first and the second colon (\<^verbatim>\<open>undefined\<close> without a colon).\<close>

definition splitUrl :: "string \<Rightarrow> string \<times> string option" where
  "splitUrl url =
     (takeWhile (\<lambda>c. c \<noteq> CHR '':'') url,
      case dropWhile (\<lambda>c. c \<noteq> CHR '':'') url of
        [] \<Rightarrow> None
      | colon # rest \<Rightarrow> Some (takeWhile (\<lambda>c. c \<noteq> CHR '':'') rest))"

text \<open>\<^verbatim>\<open>parsedPort && parsedPort > 0 && parsedPort < 65536\<close>\<close>

fun numTruthy :: "jsnum \<Rightarrow> bool" where
  "numTruthy NaN = False"
| "numTruthy (Num x) = (x \<noteq> 0)"
| "numTruthy PosInfinity = True"
| "numTruthy NegInfinity = True"

fun numLess :: "jsnum \<Rightarrow> jsnum \<Rightarrow> bool" where
  "numLess (Num x) (Num y) = (x < y)"
| "numLess NaN b = False"
| "numLess a NaN = False"
| "numLess NegInfinity b = (b \<noteq> NegInfinity)"
| "numLess a PosInfinity = (a \<noteq> PosInfinity)"
| "numLess a b = False"

definition portAccepted :: "jsnum \<Rightarrow> bool" where
  "portAccepted parsedPort =
     (numTruthy parsedPort \<and> numLess (Num 0) parsedPort \<and> numLess parsedPort (Num 65536))"

definition promptForNreplUrlAndConnect ::
  "environment \<Rightarrow> string option \<Rightarrow> string \<Rightarrow> ReplType list \<Rightarrow> bool io" where
  "promptForNreplUrlAndConnect env port0 cljsTypeName replTypes =
     andThen (ask (showInputBox env (''localhost:'' @ (case port0 of None \<Rightarrow> [] | Some p \<Rightarrow> p)))) (\<lambda>url.
     andThen
       (case url of
          Some u \<Rightarrow>
            (case splitUrl u of (hostname', port') \<Rightarrow>
               (let parsedPort = parseFloat env port' in
                if portAccepted parsedPort
                then andThen (update (\<lambda>s. s\<lparr>hostname := Some hostname', port := Some parsedPort\<rparr>)) (\<lambda>_.
                     andThen (connectToHost env hostname' parsedPort cljsTypeName replTypes) (\<lambda>_.
                       resolve ()))
                else update (\<lambda>s. emits [OutputLine (''Bad url: '' @ u), StatusUpdate]
                                     (s\<lparr>connecting := False\<rparr>))))
        | None \<Rightarrow> update (\<lambda>s. emit StatusUpdate (s\<lparr>connecting := False\<rparr>))) (\<lambda>_.
     resolve True))"

section \<open>Disconnecting and toggling the cljc session\<close>

definition disconnect :: "unit io \<Rightarrow> unit io" where
  "disconnect callback =
     andThen (update (\<lambda>s. emit StatusUpdate
                (s\<lparr>clj := None, cljs := None, connected := False, cljc := None\<rparr>))) (\<lambda>_.
     andThen (\<lambda>s. case nClient s of
                     None \<Rightarrow> (Inl (TypeError ''Cannot read property 'close' of undefined''), s)
                   | Some c \<Rightarrow> (Inr (), closeClient s)) (\<lambda>_.
     callback))"

text \<open>
  Modelled from the spec: \<^verbatim>\<open>util.getSession\<close> (module \<^verbatim>\<open>./utilities\<close> is not among the
  sources). "the Shared State holds three named slots - clj, cljs, cljc - each either
  unset or referencing a Session": \<^verbatim>\<open>getSession(k)\<close> reads slot \<open>k\<close>.
\<close>

definition getSession :: "string \<Rightarrow> app_state \<Rightarrow> session option" where
  "getSession k s = (if k = ''cljs'' then cljs s else if k = ''cljc'' then cljc s else clj s)"

definition toggleCLJCSession :: "app_state \<Rightarrow> app_state" where
  "toggleCLJCSession s =
     (if connected s
      then emit StatusUpdate
             (if getSession ''cljc'' s = getSession ''cljs'' s
              then s\<lparr>cljc := getSession ''clj'' s\<rparr>
              else if getSession ''cljc'' s = getSession ''clj'' s
              then s\<lparr>cljc := getSession ''cljs'' s\<rparr>
              else s)
      else s)"

section \<open>Concrete collaborators for running the model\<close>

text \<open>
  JavaScript's \<^verbatim>\<open>parseFloat\<close> on ASCII text: leading white space is skipped, then the
  longest prefix that is a signed decimal literal (digits, fraction, exponent) or
  \<^verbatim>\<open>Infinity\<close> is read; without one the result is \<^verbatim>\<open>NaN\<close>. The number returned is
  the double nearest to the literal's value (IEEE 754 binary64, ties to even): a value
  below half the smallest subnormal becomes 0, one beyond the largest double becomes
  \<^verbatim>\<open>Infinity\<close>.
\<close>

definition isDigit :: "char \<Rightarrow> bool" where
  "isDigit c = (48 \<le> (of_char c :: nat) \<and> (of_char c :: nat) \<le> 57)"

definition digitsValue :: "string \<Rightarrow> int" where
  "digitsValue ds = foldl (\<lambda>n c. 10 * n + ((of_char c :: int) - 48)) 0 ds"

definition isWhiteSpace :: "char \<Rightarrow> bool" where
  "isWhiteSpace c = ((of_char c :: nat) \<in> {9, 10, 11, 12, 13, 32})"

definition splitSign :: "string \<Rightarrow> bool \<times> string" where
  "splitSign s =
     (case s of
        [] \<Rightarrow> (False, s)
      | c # cs \<Rightarrow> if c = CHR ''-'' then (True, cs) else if c = CHR ''+'' then (False, cs)
                  else (False, s))"

definition exponentPart :: "string \<Rightarrow> int" where
  "exponentPart s =
     (case s of
        [] \<Rightarrow> 0
      | c # cs \<Rightarrow>
          if c = CHR ''e'' \<or> c = CHR ''E''
          then (case splitSign cs of (neg, ds) \<Rightarrow>
                  (let n = digitsValue (takeWhile isDigit ds) in if neg then - n else n))
          else 0)"

text \<open>The number of binary digits of a positive integer.\<close>

function bitLength :: "int \<Rightarrow> nat" where
  "bitLength n = (if n \<le> 0 then 0 else Suc (bitLength (n div 2)))"
  by pat_completeness auto
termination
  by (relation "measure nat") auto

declare bitLength.simps [simp del]

text \<open>
  The double nearest to \<open>num / den\<close>, for \<open>num \<ge> 0\<close> and \<open>den > 0\<close>: \<open>e\<close> is the binary
  exponent of the quotient, \<open>2 ^ x\<close> the spacing of the doubles around it (53 significant
  bits, and no finer than \<open>2 ^ - 1074\<close>), \<open>r\<close> the quotient in units of that spacing,
  rounded to the nearest integer and to the even one in a tie.
\<close>

definition roundToDouble :: "int \<Rightarrow> int \<Rightarrow> jsnum" where
  "roundToDouble num den =
     (if num = 0 then Num 0
      else
        (let l = int (bitLength num) - int (bitLength den);
             e = (if den * 2 ^ nat l \<le> num * 2 ^ nat (- l) then l else l - 1);
             x = max e (- 1022) - 52;
             a = num * 2 ^ nat (- x);
             b = den * 2 ^ nat x;
             f = a div b;
             r = (if 2 * (a mod b) < b then f
                  else if b < 2 * (a mod b) then f + 1
                  else if even f then f else f + 1)
         in if 0 \<le> x
            then (if 2 ^ 1024 \<le> r * 2 ^ nat x then PosInfinity else Num (of_int (r * 2 ^ nat x)))
            else Num (of_int r / 2 ^ nat (- x))))"

definition jsParseFloat :: "string option \<Rightarrow> jsnum" where
  "jsParseFloat arg =
     (case arg of
        None \<Rightarrow> NaN
      | Some str \<Rightarrow>
          (case splitSign (dropWhile isWhiteSpace str) of (neg, s) \<Rightarrow>
             if startsWith ''Infinity'' s then (if neg then NegInfinity else PosInfinity)
             else
               (let ip = takeWhile isDigit s;
                    r1 = dropWhile isDigit s;
                    fp = (case r1 of [] \<Rightarrow> [] | c # cs \<Rightarrow>
                            if c = CHR ''.'' then takeWhile isDigit cs else []);
                    r2 = (case r1 of [] \<Rightarrow> [] | c # cs \<Rightarrow>
                            if c = CHR ''.'' then dropWhile isDigit cs else r1);
                    k = exponentPart r2 - int (length fp);
                    v = roundToDouble (digitsValue (ip @ fp) * 10 ^ nat k) (10 ^ nat (- k))
                in if ip = [] \<and> fp = [] then NaN
                   else if neg
                   then (case v of Num x \<Rightarrow> Num (- x) | PosInfinity \<Rightarrow> NegInfinity
                         | other \<Rightarrow> other)
                   else v)))"

text \<open>
  Modelled from the spec: \<^verbatim>\<open>util.stripAnsi\<close> (module \<^verbatim>\<open>./utilities\<close> is not among the
  sources). "ANSI escape sequences must be stripped"; "the stripped text ... contains no
  escape bytes". An escape byte is dropped together with the control sequence it
  introduces (\<^verbatim>\<open>ESC [\<close>, parameter bytes, one final byte).
\<close>

definition ESC :: char where
  "ESC = CHR 0x1B"

datatype strip_mode = InText | AfterEsc | InSequence

fun stripFrom :: "strip_mode \<Rightarrow> string \<Rightarrow> string" where
  "stripFrom m [] = []"
| "stripFrom InText (c # cs) =
     (if c = ESC then stripFrom AfterEsc cs else c # stripFrom InText cs)"
| "stripFrom AfterEsc (c # cs) =
     (if c = ESC then stripFrom AfterEsc cs
      else if c = CHR ''['' then stripFrom InSequence cs
      else c # stripFrom InText cs)"
| "stripFrom InSequence (c # cs) =
     (if c = ESC then stripFrom AfterEsc cs
      else if isDigit c \<or> c = CHR '';'' \<or> c = CHR ''?'' then stripFrom InSequence cs
      else stripFrom InText cs)"

definition stripAnsiModel :: "string \<Rightarrow> string" where
  "stripAnsiModel x = stripFrom InText x"

text \<open>An output processor that echoes what it is handed to the output channel, after a
  tag that tells the processors apart.\<close>

definition probe :: "string \<Rightarrow> processOutputFn" where
  "probe tag output s = emit (OutputLine (tag @ output)) s"

section \<open>Views of an evaluation and of the effects\<close>

fun stdoutTexts :: "chunk list \<Rightarrow> string list" where
  "stdoutTexts [] = []"
| "stdoutTexts (Stdout x # cs) = x # stdoutTexts cs"
| "stdoutTexts (Stderr x # cs) = stdoutTexts cs"

fun stderrTexts :: "chunk list \<Rightarrow> string list" where
  "stderrTexts [] = []"
| "stderrTexts (Stdout x # cs) = stderrTexts cs"
| "stderrTexts (Stderr x # cs) = x # stderrTexts cs"

fun chunkText :: "chunk \<Rightarrow> string" where
  "chunkText (Stdout x) = x"
| "chunkText (Stderr x) = x"

text \<open>What the Clojure bring-up establishes: the connected flag and the \<^verbatim>\<open>clj\<close> and
  \<^verbatim>\<open>cljc\<close> slots.\<close>

definition clojureSide :: "app_state \<Rightarrow> bool \<times> session option \<times> session option" where
  "clojureSide s = (connected s, clj s, cljc s)"

text \<open>The value handed to the success predicate: \<^verbatim>\<open>undefined\<close> after a rejection.\<close>

definition valueOf :: "eval_script \<Rightarrow> string option" where
  "valueOf script = (case outcome script of Inl reason \<Rightarrow> None | Inr v \<Rightarrow> Some v)"

fun outputLines :: "effect list \<Rightarrow> string list" where
  "outputLines [] = []"
| "outputLines (OutputLine l # es) = l # outputLines es"
| "outputLines (e # es) = outputLines es"

fun connLogs :: "effect list \<Rightarrow> string list" where
  "connLogs [] = []"
| "connLogs (ConnLog l # es) = l # connLogs es"
| "connLogs (e # es) = connLogs es"

text \<open>An environment in which nothing is there and every request is declined, and the
  state of a freshly started extension; the scenarios below override what they need.\<close>

definition quietEnv :: environment where
  "quietEnv =
     \<lparr>stripAnsi = stripAnsiModel,
      parseFloat = jsParseFloat,
      regexMatch = (\<lambda>pat x. None),
      regexError = (\<lambda>pat. None),
      nrepl_create = (\<lambda>host p t. Inl (Thrown ''ECONNREFUSED'')),
      session_clone = (\<lambda>sess t. Inr None),
      session_eval = (\<lambda>sess code t. Inr \<lparr>chunks = [], outcome = Inr ''nil''\<rparr>),
      openReplWindow = (\<lambda>nm t. None),
      reconnectReplWindow = (\<lambda>nm t. None),
      quickPickSingle = (\<lambda>vs placeHolder saveAs t. None),
      quickPickMulti = (\<lambda>vs placeHolder saveAs t. None),
      showInputBox = (\<lambda>v t. None),
      readdirSync = (\<lambda>dir t. Inr []),
      existsSync = (\<lambda>p. False),
      shadowBuildKeys = (\<lambda>dir t. Inr []),
      activeDocument = None,
      getWorkspaceFolder = (\<lambda>doc. None),
      openBrowserWhenFigwheelStarted = False,
      customCljsRepl = None\<rparr>"

definition idleState :: app_state where
  "idleState =
     \<lparr>connected = False, connecting = False, clj = None, cljs = None, cljc = None,
      cljsBuild = None, hostname = None, port = None, projectDir = None,
      projectWsFolder = None, nClient = None, cljSession = None, cljsSession = None,
      ws_cljsReplType = None, ws_cljsReplTypeHasBuilds = None, effects = [], tick = 0\<rparr>"


text \<open>An environment in which every evaluation yields the given chunks and outcome, and
  a chunk of coloured text as a terminal would receive it.\<close>

definition evalEnv :: "chunk list \<Rightarrow> exn + string \<Rightarrow> environment" where
  "evalEnv cs oc = quietEnv\<lparr>session_eval := (\<lambda>sess code t. Inr \<lparr>chunks = cs, outcome = oc\<rparr>)\<rparr>"

definition redReady :: string where
  "redReady = [ESC] @ ''[31mREADY'' @ [ESC] @ ''[0m''"


text \<open>A server that accepts the connection and clones sessions, and a Figwheel Main
  project whose start form prints no ready marker.\<close>

definition failingStartEnv :: environment where
  "failingStartEnv =
     quietEnv\<lparr>nrepl_create := (\<lambda>host p t. Inr (7, Session 1)),
              session_clone := (\<lambda>sess t. Inr (Some (Session (10 + t)))),
              readdirSync := (\<lambda>dir t. Inr [''dev.cljs.edn'']),
              session_eval := (\<lambda>sess code t.
                Inr \<lparr>chunks = [Stdout ''Compiling...'', Stderr ''Could not start''],
                     outcome = Inr ''nil''\<rparr>)\<rparr>"


text \<open>A Figwheel Main project \<^verbatim>\<open>dev\<close> whose build is already running: the start form,
  evaluated on the first clone, says so on stderr, and the attach form prints the quit
  hint.\<close>

definition figwheelMainEnv :: environment where
  "figwheelMainEnv =
     quietEnv\<lparr>session_clone := (\<lambda>sess t. Inr (Some (Session (10 + t)))),
              readdirSync := (\<lambda>dir t. Inr [''dev.cljs.edn'', ''README.md'']),
              quickPickSingle := (\<lambda>vs placeHolder saveAs t. Some ''dev''),
              session_eval := (\<lambda>sess code t.
                Inr (if sess = Session 10
                     then \<lparr>chunks = [Stderr ''Build dev already running''], outcome = Inr ''nil''\<rparr>
                     else \<lparr>chunks = [Stdout ''To quit, type: :cljs/quit''], outcome = Inr ''nil''\<rparr>))\<rparr>"

text \<open>A server that accepts the connection, and a Figwheel Main project \<^verbatim>\<open>dev\<close> whose
  start form and attach form both print their markers; the ClojureScript REPL window,
  once opened, cannot be reconnected.\<close>

definition cljsWindowFailsEnv :: environment where
  "cljsWindowFailsEnv =
     quietEnv\<lparr>nrepl_create := (\<lambda>host p t. Inr (7, Session 1)),
              session_clone := (\<lambda>sess t. Inr (Some (Session (10 + t)))),
              readdirSync := (\<lambda>dir t. Inr [''dev.cljs.edn'']),
              quickPickSingle := (\<lambda>vs placeHolder saveAs t. Some ''dev''),
              session_eval := (\<lambda>sess code t.
                Inr \<lparr>chunks = [Stdout ''Prompt will show when REPL connects'',
                               Stdout ''To quit, type: :cljs/quit''],
                     outcome = Inr ''nil''\<rparr>),
              reconnectReplWindow := (\<lambda>nm t.
                if nm = ''cljs'' then Some (Thrown ''no REPL window'') else None)\<rparr>"

text \<open>A server that accepts the connection and clones sessions, in a project directory
  without any \<^verbatim>\<open>.cljs.edn\<close> file.\<close>

definition noProjectFilesEnv :: environment where
  "noProjectFilesEnv =
     quietEnv\<lparr>nrepl_create := (\<lambda>host p t. Inr (7, Session 1)),
              session_clone := (\<lambda>sess t. Inr (Some (Session (10 + t))))\<rparr>"

text \<open>The Figwheel Main entry of the registry.\<close>

definition figwheelMainType :: "environment \<Rightarrow> ReplType" where
  "figwheelMainType env =
     \<lparr>repl_name = ''Figwheel Main'',
      repl_start = Some (figwheelMain_start env),
      repl_started = Some figwheelMain_started,
      repl_connect = Some (figwheelMain_connect env),
      repl_connected = figwheelMain_connected\<rparr>"


text \<open>The user answers the prompt with the given text; no server listens. And a state in
  which a connection, made earlier, is live and a new attempt has been announced.\<close>

definition promptEnv :: "string \<Rightarrow> environment" where
  "promptEnv answer = quietEnv\<lparr>showInputBox := (\<lambda>v t. Some answer)\<rparr>"

definition connectedState :: app_state where
  "connectedState =
     idleState\<lparr>connected := True, connecting := True,
               clj := Some (Session 1), cljc := Some (Session 1),
               cljSession := Some (Session 1),
               nClient := Some \<lparr>conn_id = 3, conn_session = Session 1, silent = False, live = True\<rparr>\<rparr>"


section \<open>Facts about the string primitives\<close>

lemma search_from_nonneg_nonempty:
  "pat \<noteq> [] \<Longrightarrow> search_from i pat x \<ge> 0 \<Longrightarrow> x \<noteq> []"
  by (cases x) auto

lemma search_nonneg_nonempty: "pat \<noteq> [] \<Longrightarrow> search x pat \<ge> 0 \<Longrightarrow> x \<noteq> []"
  unfolding search_def by (rule search_from_nonneg_nonempty)

lemma find_Some_holds: "find P xs = Some x \<Longrightarrow> P x"
  by (induction xs) (auto split: if_splits)

lemma find_None_none: "find P xs = None \<Longrightarrow> x \<in> set xs \<Longrightarrow> \<not> P x"
  by (induction xs) (auto split: if_splits)

section \<open>The walk towards the workspace root\<close>

lemma findProjectRoot_spec:
  assumes "prefix w d" and "prev \<noteq> Some d"
  shows "prefix w (findProjectRoot env w d prev) \<and> prefix (findProjectRoot env w d prev) d
       \<and> (hasProjectFile env (findProjectRoot env w d prev) \<or> findProjectRoot env w d prev = w)
       \<and> (\<forall>d'. prefix (findProjectRoot env w d prev) d' \<and> prefix d' d \<and> d' \<noteq> findProjectRoot env w d prev
              \<longrightarrow> \<not> hasProjectFile env d')"
  using assms
proof (induction env w d prev rule: findProjectRoot.induct)
  case (1 env rootPath d prev)
  show ?case
  proof (cases "hasProjectFile env d")
    case True
    with "1.prems" have "findProjectRoot env rootPath d prev = d"
      by (subst findProjectRoot.simps) (simp add: Let_def)
    with True "1.prems" show ?thesis by auto
  next
    case False
    note noMarker = False
    show ?thesis
    proof (cases "d = rootPath")
      case True
      with noMarker "1.prems" have "findProjectRoot env rootPath d prev = rootPath"
        by (subst findProjectRoot.simps) (simp add: Let_def)
      with True show ?thesis by auto
    next
      case False
      note neq = False
      from "1.prems"(1) neq have sp: "strict_prefix rootPath d" by (simp add: strict_prefix_def)
      then have dne: "d \<noteq> []" by auto
      have pb: "prefix rootPath (butlast d)" using sp
        by (metis append_butlast_last_id dne prefix_snoc strict_prefix_def)
      have nb: "Some d \<noteq> Some (butlast d)" using dne
        by (metis append_butlast_last_id option.inject self_append_conv snoc_eq_iff_butlast)
      have eq: "findProjectRoot env rootPath d prev = findProjectRoot env rootPath (butlast d) (Some d)"
        using noMarker neq "1.prems"(2) by (subst findProjectRoot.simps) (simp add: Let_def)
      have IH: "prefix rootPath (findProjectRoot env rootPath (butlast d) (Some d)) \<and>
        prefix (findProjectRoot env rootPath (butlast d) (Some d)) (butlast d) \<and>
        (hasProjectFile env (findProjectRoot env rootPath (butlast d) (Some d)) \<or>
           findProjectRoot env rootPath (butlast d) (Some d) = rootPath) \<and>
        (\<forall>d'. prefix (findProjectRoot env rootPath (butlast d) (Some d)) d' \<and> prefix d' (butlast d)
             \<and> d' \<noteq> findProjectRoot env rootPath (butlast d) (Some d) \<longrightarrow> \<not> hasProjectFile env d')"
        using "1.IH"[of rootPath] "1.prems"(2) noMarker neq pb nb by simp
      have pbd: "prefix (butlast d) d" by (simp add: prefixeq_butlast)
      have step: "prefix d' (butlast d)" if "prefix d' d" "d' \<noteq> d" for d'
        using that by (metis append_butlast_last_id dne prefix_snoc)
      let ?r = "findProjectRoot env rootPath (butlast d) (Some d)"
      from IH have r1: "prefix rootPath ?r" and r2: "prefix ?r (butlast d)"
        and r3: "hasProjectFile env ?r \<or> ?r = rootPath"
        and r4: "\<And>d'. prefix ?r d' \<Longrightarrow> prefix d' (butlast d) \<Longrightarrow> d' \<noteq> ?r
                  \<Longrightarrow> \<not> hasProjectFile env d'"
        by blast+
      from r2 pbd have r2': "prefix ?r d" by (rule prefix_order.order_trans)
      have r4': "\<not> hasProjectFile env d'" if "prefix ?r d'" "prefix d' d" "d' \<noteq> ?r" for d'
      proof (cases "d' = d")
        case True
        with noMarker show ?thesis by simp
      next
        case False
        with that(2) have "prefix d' (butlast d)" by (rule step)
        with that(1,3) show ?thesis using r4 by blast
      qed
      show ?thesis unfolding eq using r1 r2' r3 r4' by blast
    qed
  qed
qed

section \<open>What one evaluation does\<close>

lemma outputLines_append [simp]: "outputLines (xs @ ys) = outputLines xs @ outputLines ys"
  by (induction xs rule: outputLines.induct) auto

lemma connLogs_append [simp]: "connLogs (xs @ ys) = connLogs xs @ connLogs ys"
  by (induction xs rule: connLogs.induct) auto

lemma fold_handleChunk_lines:
  "fold (handleChunk env ps) cs (out, err, s) = (out', err', s') \<Longrightarrow>
     out' = out @ map (stripAnsi env) (stdoutTexts cs)
     \<and> err' = err @ map (stripAnsi env) (stderrTexts cs)"
proof (induction cs arbitrary: out err s)
  case Nil
  then show ?case by simp
next
  case (Cons c cs)
  show ?case
  proof (cases c)
    case (Stdout x)
    with Cons.prems have
      "fold (handleChunk env ps) cs
         (out @ [stripAnsi env x], err,
          emit (ConnLog (stripAnsi env x))
            (case ps of None \<Rightarrow> s | Some ps \<Rightarrow> fold (\<lambda>p. p x) ps s)) = (out', err', s')"
      by (simp add: onStdout_def)
    from Cons.IH[OF this] Stdout show ?thesis by simp
  next
    case (Stderr x)
    with Cons.prems have
      "fold (handleChunk env ps) cs
         (out, err @ [stripAnsi env x], emit (ConnLog (stripAnsi env x)) s) = (out', err', s')"
      by (simp add: onStderr_def)
    from Cons.IH[OF this] Stderr show ?thesis by simp
  qed
qed

lemma fold_probe_effects:
  "outputLines (effects (fold (\<lambda>p. p x) (map probe tags) s))
     = outputLines (effects s) @ map (\<lambda>tag. tag @ x) tags
   \<and> connLogs (effects (fold (\<lambda>p. p x) (map probe tags) s)) = connLogs (effects s)"
  by (induction tags arbitrary: s) (auto simp: probe_def emit_def)

lemma fold_handleChunk_probes:
  "fold (handleChunk env (Some (map probe tags))) cs (out, err, s) = (out', err', s') \<Longrightarrow>
     outputLines (effects s')
       = outputLines (effects s) @ concat (map (\<lambda>x. map (\<lambda>tag. tag @ x) tags) (stdoutTexts cs))
     \<and> connLogs (effects s') = connLogs (effects s) @ map (stripAnsi env) (map chunkText cs)"
proof (induction cs arbitrary: out err s)
  case Nil
  then show ?case by simp
next
  case (Cons c cs)
  show ?case
  proof (cases c)
    case (Stdout x)
    with Cons.prems have
      "fold (handleChunk env (Some (map probe tags))) cs
         (out @ [stripAnsi env x], err,
          emit (ConnLog (stripAnsi env x)) (fold (\<lambda>p. p x) (map probe tags) s)) = (out', err', s')"
      by (simp add: onStdout_def)
    from Cons.IH[OF this] fold_probe_effects[of x tags s] Stdout show ?thesis
      by (simp add: emit_def)
  next
    case (Stderr x)
    with Cons.prems have
      "fold (handleChunk env (Some (map probe tags))) cs
         (out, err @ [stripAnsi env x], emit (ConnLog (stripAnsi env x)) s) = (out', err', s')"
      by (simp add: onStderr_def)
    from Cons.IH[OF this] Stderr show ?thesis
      by (simp add: emit_def)
  qed
qed

text \<open>What one call of evalConnectCode does, given the evaluation's script.\<close>

lemma evalConnectCode_run:
  assumes "session_eval env sess code (tick s) = Inr script"
    and "fold (handleChunk env ps) (chunks script) ([], [], s\<lparr>tick := Suc (tick s)\<rparr>) = (out, err, s2)"
  shows "evalConnectCode env (Some sess) code name chk ps s =
     (let s3 = (case outcome script of
                  Inl reason \<Rightarrow> emit (ConsoleError ''Error evaluating connect form: '' reason) s2
                | Inr v \<Rightarrow> s2)
      in case chk (valueOf script) out err of
           Inl e \<Rightarrow> (Inl e, s3)
         | Inr r \<Rightarrow>
             if truthy r
             then (Inr True, (emit (Analytics ''REPL'' ''ConnectedCLJS'' (Some name)) s3)
                               \<lparr>cljs := Some sess, cljsSession := Some sess\<rparr>)
             else (Inr False, s3))"
  using assms
  by (cases "outcome script")
     (simp_all add: evalConnectCode_def andThen_def await_def valueOf_def Let_def)

lemma evalConnectCode_fst:
  assumes "session_eval env sess code (tick s) = Inr script"
  shows "fst (evalConnectCode env (Some sess) code name chk ps s)
     = map_sum id truthy
         (chk (valueOf script) (map (stripAnsi env) (stdoutTexts (chunks script)))
            (map (stripAnsi env) (stderrTexts (chunks script))))"
proof -
  obtain out err s2 where f:
    "fold (handleChunk env ps) (chunks script) ([], [], s\<lparr>tick := Suc (tick s)\<rparr>) = (out, err, s2)"
    by (metis prod_cases3)
  from fold_handleChunk_lines[OF f]
  have "out = map (stripAnsi env) (stdoutTexts (chunks script))"
    and "err = map (stripAnsi env) (stderrTexts (chunks script))" by simp_all
  with evalConnectCode_run[OF assms f, of name chk] show ?thesis
    by (auto simp: Let_def split: sum.splits)
qed

lemma evalConnectCode_lines:
  assumes "session_eval env sess code (tick s) = Inr script"
    and "fold (handleChunk env ps) (chunks script) ([], [], s\<lparr>tick := Suc (tick s)\<rparr>) = (out, err, s2)"
  shows "outputLines (effects (snd (evalConnectCode env (Some sess) code name chk ps s)))
           = outputLines (effects s2)
       \<and> connLogs (effects (snd (evalConnectCode env (Some sess) code name chk ps s)))
           = connLogs (effects s2)"
  using evalConnectCode_run[OF assms, of name chk]
  by (auto simp: Let_def emit_def split: sum.splits)

lemma evalConnectCode_probes:
  assumes "session_eval env sess code (tick s) = Inr script"
  shows "outputLines (effects (snd (evalConnectCode env (Some sess) code name chk (Some (map probe tags)) s)))
           = outputLines (effects s)
             @ concat (map (\<lambda>x. map (\<lambda>tag. tag @ x) tags) (stdoutTexts (chunks script)))
       \<and> connLogs (effects (snd (evalConnectCode env (Some sess) code name chk (Some (map probe tags)) s)))
           = connLogs (effects s) @ map (stripAnsi env) (map chunkText (chunks script))"
proof -
  obtain out err s2 where f:
    "fold (handleChunk env (Some (map probe tags))) (chunks script)
       ([], [], s\<lparr>tick := Suc (tick s)\<rparr>) = (out, err, s2)"
    by (metis prod_cases3)
  from fold_handleChunk_probes[OF f] evalConnectCode_lines[OF assms f, of name chk]
  show ?thesis by simp
qed

lemma stripFrom_no_ESC: "ESC \<notin> set (stripFrom m x)"
  by (induction m x rule: stripFrom.induct) auto

lemma stripAnsiModel_no_ESC: "ESC \<notin> set (stripAnsiModel x)"
  by (simp add: stripAnsiModel_def stripFrom_no_ESC)

lemma stripAnsiModel_redReady: "stripAnsiModel redReady = ''READY''"
  by (simp add: stripAnsiModel_def redReady_def ESC_def isDigit_def)

lemma evalEnv_simps [simp]:
  "session_eval (evalEnv cs oc) sess code t = Inr \<lparr>chunks = cs, outcome = oc\<rparr>"
  "stripAnsi (evalEnv cs oc) = stripAnsiModel"
  by (simp_all add: evalEnv_def quietEnv_def)

lemma idleState_simps [simp]:
  "effects idleState = []" "tick idleState = 0"
  by (simp_all add: idleState_def)

lemma fold_handleChunk_state:
  "snd (snd (fold (handleChunk env (Some ps)) cs (out, err, s)))
     = fold (\<lambda>c st. emit (ConnLog (stripAnsi env (chunkText c)))
                      (case c of Stdout x \<Rightarrow> fold (\<lambda>p. p x) ps st | Stderr x \<Rightarrow> st)) cs s"
proof (induction cs arbitrary: out err s)
  case Nil
  show ?case by simp
next
  case (Cons c cs)
  show ?case by (cases c) (simp_all add: onStdout_def onStderr_def Cons.IH)
qed

lemma evalConnectCode_rejected_logged:
  assumes "session_eval env sess code (tick s) = Inr script" and "outcome script = Inl reason"
  shows "ConsoleError ''Error evaluating connect form: '' reason
           \<in> set (effects (snd (evalConnectCode env (Some sess) code name chk ps s)))"
proof -
  obtain out err s2 where f:
    "fold (handleChunk env ps) (chunks script) ([], [], s\<lparr>tick := Suc (tick s)\<rparr>) = (out, err, s2)"
    by (metis prod_cases3)
  from evalConnectCode_run[OF assms(1) f, of name chk] assms(2) show ?thesis
    by (auto simp: Let_def emit_def split: sum.splits)
qed

lemma started_truthy:
  assumes "x \<in> set err" and "search x ''already running'' \<ge> 0"
  shows "\<exists>v. figwheelMain_started result out err = Inr v \<and> truthy v"
proof (cases "find (\<lambda>x. search x ''Prompt will show'' \<ge> 0) out")
  case (Some y)
  then show ?thesis by (simp add: figwheelMain_started_def)
next
  case None
  note out_none = None
  show ?thesis
  proof (cases "find (\<lambda>x. search x ''already running'' \<ge> 0) err")
    case None
    from find_None_none[OF None assms(1)] assms(2) show ?thesis by simp
  next
    case (Some y)
    from find_Some_holds[OF Some] have "search y ''already running'' \<ge> 0" .
    then have "y \<noteq> []" by (auto dest: search_nonneg_nonempty[rotated])
    with Some out_none show ?thesis by (simp add: figwheelMain_started_def)
  qed
qed

section \<open>Toggling\<close>

lemma toggle_once:
  "(connected s \<and> cljc s = cljs s \<longrightarrow> cljc (toggleCLJCSession s) = clj s)
   \<and> (connected s \<and> cljc s = clj s \<longrightarrow> cljc (toggleCLJCSession s) = cljs s)
   \<and> (\<not> connected s \<longrightarrow> toggleCLJCSession s = s)
   \<and> clj (toggleCLJCSession s) = clj s \<and> cljs (toggleCLJCSession s) = cljs s
   \<and> connected (toggleCLJCSession s) = connected s"
  by (simp add: toggleCLJCSession_def getSession_def emit_def)

lemma toggle_many:
  "cljc s = clj s \<or> cljc s = cljs s \<Longrightarrow>
     clj ((toggleCLJCSession ^^ n) s) = clj s \<and> cljs ((toggleCLJCSession ^^ n) s) = cljs s
     \<and> (cljc ((toggleCLJCSession ^^ n) s) = clj s \<or> cljc ((toggleCLJCSession ^^ n) s) = cljs s)"
proof (induction n)
  case 0
  then show ?case by simp
next
  case (Suc n)
  let ?t = "(toggleCLJCSession ^^ n) s"
  from Suc have ih: "clj ?t = clj s" "cljs ?t = cljs s" "cljc ?t = clj s \<or> cljc ?t = cljs s"
    by simp_all
  from toggle_once[of ?t] ih show ?case
    by (cases "connected ?t") auto
qed

section \<open>The ClojureScript bring-up inside the orchestrator\<close>

lemma evalConnectCode_true_adopts:
  "evalConnectCode env session code name chk ps s = (Inr True, s') \<Longrightarrow>
     cljs s' = session \<and> cljsSession s' = session"
  by (auto simp: evalConnectCode_def throw_def andThen_def await_def Let_def
      split: option.splits sum.splits prod.splits if_splits)

lemma fold_handleChunk_None_frame:
  "fold (handleChunk env None) cs (out, err, s) = (out', err', s') \<Longrightarrow>
     connected s' = connected s \<and> clj s' = clj s \<and> cljc s' = cljc s \<and> cljs s' = cljs s"
proof (induction cs arbitrary: out err s)
  case Nil
  then show ?case by simp
next
  case (Cons c cs)
  show ?case
  proof (cases c)
    case (Stdout x)
    with Cons.prems have
      "fold (handleChunk env None) cs
         (out @ [stripAnsi env x], err, emit (ConnLog (stripAnsi env x)) s) = (out', err', s')"
      by (simp add: onStdout_def)
    from Cons.IH[OF this] show ?thesis by (simp add: emit_def)
  next
    case (Stderr x)
    with Cons.prems have
      "fold (handleChunk env None) cs
         (out, err @ [stripAnsi env x], emit (ConnLog (stripAnsi env x)) s) = (out', err', s')"
      by (simp add: onStderr_def)
    from Cons.IH[OF this] show ?thesis by (simp add: emit_def)
  qed
qed

lemma evalConnectCode_None_frame:
  assumes run: "evalConnectCode env session code name chk None s = (r, s')"
  shows "connected s' = connected s \<and> clj s' = clj s \<and> cljc s' = cljc s"
proof (cases session)
  case None
  with run show ?thesis by (auto simp: evalConnectCode_def throw_def)
next
  case (Some sess)
  show ?thesis
  proof (cases "session_eval env sess code (tick s)")
    case (Inl e)
    with run Some show ?thesis by (auto simp: evalConnectCode_def andThen_def await_def)
  next
    case (Inr script)
    obtain out err s2 where f:
      "fold (handleChunk env None) (chunks script) ([], [], s\<lparr>tick := Suc (tick s)\<rparr>) = (out, err, s2)"
      by (metis prod_cases3)
    from fold_handleChunk_None_frame[OF f]
    have s2: "connected s2 = connected s \<and> clj s2 = clj s \<and> cljc s2 = cljc s" by simp
    from evalConnectCode_run[OF Inr f, of name chk] run Some s2 show ?thesis
      by (auto simp: Let_def emit_def split: sum.splits if_splits)
  qed
qed

lemma getFigwheelMainProjects_frame:
  "getFigwheelMainProjects env s = (r, s') \<Longrightarrow>
     connected s' = connected s \<and> clj s' = clj s \<and> cljc s' = cljc s"
  by (auto simp: getFigwheelMainProjects_def andThen_def await_def resolve_def emits_def Let_def
      split: sum.splits if_splits)

lemma figwheelMain_start_frame:
  assumes "figwheelMain_start env session name chk s = (r, s')"
  shows "connected s' = connected s \<and> clj s' = clj s \<and> cljc s' = cljc s"
proof -
  obtain r1 s1 where g: "getFigwheelMainProjects env s = (r1, s1)" by (cases "getFigwheelMainProjects env s")
  note f1 = getFigwheelMainProjects_frame[OF g]
  show ?thesis
  proof (cases r1)
    case (Inl e)
    with assms g f1 show ?thesis by (simp add: figwheelMain_start_def andThen_def)
  next
    case (Inr projects)
    show ?thesis
      using assms g f1 Inr
      by (auto simp: figwheelMain_start_def andThen_def resolve_def ask_def update_def emit_def
          split: if_splits option.splits dest!: evalConnectCode_None_frame)
  qed
qed

lemma figwheelMain_start_true:
  assumes "figwheelMain_start env session name chk s = (Inr True, s')"
  shows "cljs s' = session"
proof -
  obtain r1 s1 where g: "getFigwheelMainProjects env s = (r1, s1)" by (cases "getFigwheelMainProjects env s")
  show ?thesis
  proof (cases r1)
    case (Inl e)
    with assms g show ?thesis by (simp add: figwheelMain_start_def andThen_def)
  next
    case (Inr projects)
    show ?thesis
      using assms g Inr
      by (auto simp: figwheelMain_start_def andThen_def resolve_def ask_def update_def emit_def
          split: if_splits option.splits dest!: evalConnectCode_true_adopts)
  qed
qed

lemma makeCljsSessionClone_start_failed:
  assumes clone1: "session_clone env base (tick s) = Inr (Some c1)"
    and found: "find (\<lambda>x. repl_name x = nm) replTypes = Some repl"
    and hasStart: "repl_start repl = Some start"
    and fails: "start (Some c1) nm (startedOf repl) (beforeStart nm s) = (Inr False, s2)"
  shows "makeCljsSessionClone env (Some base) nm replTypes s
    = (Inr (None, None),
       (emits [Analytics ''REPL'' ''FailedStartingCLJS'' (Some nm),
               OutputLine ''Failed starting cljs repl''] s2)\<lparr>cljsBuild := None\<rparr>)"
proof -
  from find_Some_holds[OF found] have nm: "repl_name repl = nm" .
  have entry: "emit (OutputLine (''Starting repl for: '' @ nm @ ''...''))
        (emits [ChanShow, Analytics ''REPL'' ''ConnectingCLJS'' (Some nm)]
           ((emit (OutputLine ''Creating cljs repl session...'') s)
              \<lparr>tick := Suc (tick (emit (OutputLine ''Creating cljs repl session...'') s)),
                 ws_cljsReplType := Some nm\<rparr>)) = beforeStart nm s"
    by (simp add: beforeStart_def emit_def emits_def)
  have step: "startStep env (Some base) repl (Some c1)
      (emits [ChanShow, Analytics ''REPL'' ''ConnectingCLJS'' (Some nm)]
           ((emit (OutputLine ''Creating cljs repl session...'') s)
              \<lparr>tick := Suc (tick (emit (OutputLine ''Creating cljs repl session...'') s)),
                 ws_cljsReplType := Some nm\<rparr>))
     = (Inr None, (emits [Analytics ''REPL'' ''FailedStartingCLJS'' (Some nm),
               OutputLine ''Failed starting cljs repl''] s2)\<lparr>cljsBuild := None\<rparr>)"
    using hasStart fails
    by (simp add: startStep_def andThen_def update_def resolve_def nm beforeStart_def emit_def emits_def)
  have c: "tick (emit (OutputLine ''Creating cljs repl session...'') s) = tick s"
    by (simp add: emit_def)
  show ?thesis
    using clone1 found step
    by (simp add: makeCljsSessionClone_def andThen_def update_def cloneSession_def await_def
        resolve_def c)
qed

lemma makeCljsSessionClone_started:
  assumes clone1: "session_clone env base (tick s) = Inr (Some c1)"
    and found: "find (\<lambda>x. repl_name x = nm) replTypes = Some repl"
    and hasStart: "repl_start repl = Some start"
    and ok: "start (Some c1) nm (startedOf repl) (beforeStart nm s) = (Inr True, s2)"
    and clone2: "session_clone env base (tick s2) = Inr c2"
  shows "makeCljsSessionClone env (Some base) nm replTypes s
    = connectStep repl c2
        ((emits [Analytics ''REPL'' ''StartedCLJS'' (Some nm),
                 OutputLine ''Started cljs builds''] s2)\<lparr>tick := Suc (tick s2)\<rparr>)"
proof -
  from find_Some_holds[OF found] have nm: "repl_name repl = nm" .
  have entry: "emit (OutputLine (''Starting repl for: '' @ nm @ ''...''))
        (emits [ChanShow, Analytics ''REPL'' ''ConnectingCLJS'' (Some nm)]
           ((emit (OutputLine ''Creating cljs repl session...'') s)
              \<lparr>tick := Suc (tick (emit (OutputLine ''Creating cljs repl session...'') s)),
                 ws_cljsReplType := Some nm\<rparr>)) = beforeStart nm s"
    by (simp add: beforeStart_def emit_def emits_def)
  have t2: "tick (emits [Analytics ''REPL'' ''StartedCLJS'' (Some nm),
                 OutputLine ''Started cljs builds''] s2) = tick s2"
    by (simp add: emits_def)
  have step: "startStep env (Some base) repl (Some c1)
      (emits [ChanShow, Analytics ''REPL'' ''ConnectingCLJS'' (Some nm)]
           ((emit (OutputLine ''Creating cljs repl session...'') s)
              \<lparr>tick := Suc (tick (emit (OutputLine ''Creating cljs repl session...'') s)),
                 ws_cljsReplType := Some nm\<rparr>))
     = (Inr (Some c2), (emits [Analytics ''REPL'' ''StartedCLJS'' (Some nm),
                 OutputLine ''Started cljs builds''] s2)\<lparr>tick := Suc (tick s2)\<rparr>)"
    using hasStart ok clone2
    by (simp add: startStep_def andThen_def update_def resolve_def nm cloneSession_def
        await_def beforeStart_def emit_def emits_def)
  have c: "tick (emit (OutputLine ''Creating cljs repl session...'') s) = tick s"
    by (simp add: emit_def)
  show ?thesis
    using clone1 found step
    by (simp add: makeCljsSessionClone_def andThen_def update_def cloneSession_def await_def
        resolve_def c)
qed

lemma connectToHost_cases:
  "connectToHost env h p nm rts s =
     (case clojureBringUp env h p (beginConnect s) of
        (Inl e, s1) \<Rightarrow>
          (Inr False,
           emits [OutputLine ''Failed connecting.'', Analytics ''REPL'' ''FailedConnectingCLJ'' None]
             (s1\<lparr>connected := False, connecting := False\<rparr>))
      | (Inr u, sr) \<Rightarrow>
          (case cljsBringUp env nm rts sr of
             (Inl e, s2) \<Rightarrow>
               (Inr False,
                emits [OutputLine ''Failed connecting.'', Analytics ''REPL'' ''FailedConnectingCLJ'' None]
                  (s2\<lparr>connected := False, connecting := False\<rparr>))
           | (Inr u', s2) \<Rightarrow> (Inr True, s2)))"
  by (simp add: connectToHost_def andThen_def tryCatch_def update_def resolve_def
      split: prod.splits sum.splits)

lemma cljsBringUp_abandoned:
  assumes "nm \<noteq> []"
    and "makeCljsSessionClone env (cljSession sr) nm rts sr = (Inr (None, b), s3)"
  shows "cljsBringUp env nm rts sr
    = (Inr (), emits [OutputLine ''cljc files will use the clj REPL.'', StatusUpdate] s3)"
  using assms
  by (simp add: cljsBringUp_def andThen_def tryCatch_def update_def resolve_def)

lemma cljsBringUp_caught:
  assumes "nm \<noteq> []"
    and "makeCljsSessionClone env (cljSession sr) nm rts sr = (Inl e, s3)"
  shows "cljsBringUp env nm rts sr
    = (Inr (), emits [OutputLine ''cljc files will use the clj REPL.'', StatusUpdate]
                 (emit (OutputLine (''Error while connecting cljs REPL: '' @ show_exn e)) s3))"
  using assms
  by (simp add: cljsBringUp_def andThen_def tryCatch_def update_def resolve_def)

lemma clojureBringUp_ready:
  assumes run: "clojureBringUp env h p s0 = (Inr u, sr)"
  shows "connected sr \<and> \<not> connecting sr \<and> clj sr = cljSession sr \<and> cljc sr = cljSession sr
       \<and> (\<exists>c. nClient sr = Some c \<and> live c \<and> \<not> silent c \<and> cljSession sr = Some (conn_session c))
       \<and> tick sr = tick s0 + 3"
proof (cases "nrepl_create env h p (tick s0)")
  case (Inl e)
  with run show ?thesis
    by (simp add: clojureBringUp_def andThen_def update_def await_def emit_def)
next
  case (Inr client)
  obtain cid sess where client: "client = (cid, sess)" by (cases client)
  show ?thesis
  proof (cases "openReplWindow env ''clj'' (Suc (tick s0))")
    case (Some e)
    with run Inr client show ?thesis
      by (simp add: clojureBringUp_def andThen_def update_def await_def emit_def
          awaitOpenReplWindow_def)
  next
    case None
    show ?thesis
    proof (cases "reconnectReplWindow env ''clj'' (Suc (Suc (tick s0)))")
      case None
      with run Inr client \<open>openReplWindow env ''clj'' (Suc (tick s0)) = None\<close> show ?thesis
        by (auto simp: clojureBringUp_def andThen_def tryCatch_def update_def await_def emit_def
            awaitOpenReplWindow_def awaitReconnectReplWindow_def)
    next
      case (Some reason)
      with run Inr client \<open>openReplWindow env ''clj'' (Suc (tick s0)) = None\<close> show ?thesis
        by (auto simp: clojureBringUp_def andThen_def tryCatch_def update_def await_def emit_def
            awaitOpenReplWindow_def awaitReconnectReplWindow_def)
    qed
  qed
qed

lemma registered_start_is_figwheelMain:
  assumes "find (\<lambda>x. repl_name x = nm) (getCLJSReplTypes env) = Some repl"
    and "repl_start repl = Some start"
  shows "start = figwheelMain_start env"
  using assms
  by (auto simp: getCLJSReplTypes_def cljsReplTypes_def getCustomCLJSRepl_def
      createCustomCLJSReplType_def split: if_splits option.splits)

lemma failingStartEnv_start_fails:
  "fst (figwheelMain_start failingStartEnv (Some c) ''Figwheel Main'' figwheelMain_started st)
     = Inr False"
  by (simp add: figwheelMain_start_def getFigwheelMainProjects_def andThen_def await_def
      resolve_def update_def failingStartEnv_def quietEnv_def evalConnectCode_def Let_def
      onStdout_def onStderr_def figwheelMain_started_def search_def endsWith_def emit_def
      stripAnsiModel_def ESC_def)

lemma failingStartEnv_ready:
  "fst (clojureBringUp failingStartEnv ''localhost'' (Num 7888) (beginConnect idleState)) = Inr ()
   \<and> cljSession (snd (clojureBringUp failingStartEnv ''localhost'' (Num 7888) (beginConnect idleState)))
       = Some (Session 1)"
  by (simp add: clojureBringUp_def andThen_def await_def tryCatch_def
      resolve_def update_def failingStartEnv_def quietEnv_def Let_def emit_def
      awaitOpenReplWindow_def awaitReconnectReplWindow_def)

lemma find_figwheelMain:
  "find (\<lambda>x. repl_name x = ''Figwheel Main'') (getCLJSReplTypes env) = Some (figwheelMainType env)"
  by (simp add: getCLJSReplTypes_def cljsReplTypes_def figwheelMainType_def)

lemma evalConnectCode_truthy:
  assumes "session_eval env sess code (tick st) = Inr script"
    and "checkSuccess (valueOf script) (map (stripAnsi env) (stdoutTexts (chunks script)))
           (map (stripAnsi env) (stderrTexts (chunks script))) = Inr r"
    and "truthy r"
  shows "\<exists>st'. evalConnectCode env (Some sess) code name checkSuccess ps st = (Inr True, st')
           \<and> cljs st' = Some sess \<and> cljsSession st' = Some sess"
proof -
  obtain out err s2 where f:
    "fold (handleChunk env ps) (chunks script) ([], [], st\<lparr>tick := Suc (tick st)\<rparr>) = (out, err, s2)"
    by (metis prod_cases3)
  from fold_handleChunk_lines[OF f]
  have "out = map (stripAnsi env) (stdoutTexts (chunks script))"
    and "err = map (stripAnsi env) (stderrTexts (chunks script))" by simp_all
  with evalConnectCode_run[OF assms(1) f, of name checkSuccess] assms(2,3) show ?thesis
    by (simp add: Let_def)
qed

lemma connectStep_cases:
  "connectStep repl n s =
     (case connectOf repl n (repl_name repl) (repl_connected repl)
             (emits [OutputLine (''Connecting CLJS repl: '' @ repl_name repl @ ''...''),
                     OutputLine ''  Compiling and stuff. This can take a minute or two.'',
                     OutputLine ''  See Calva Connection Log for detailed progress updates.''] s) of
        (Inl e, s4) \<Rightarrow> (Inl e, s4)
      | (Inr ok, s4) \<Rightarrow>
          if ok
          then (Inr (n, None),
                (emit (Analytics ''REPL'' ''ConnectedCLJS'' (Some (repl_name repl))) s4)
                  \<lparr>cljs := n, cljsSession := n\<rparr>)
          else (Inr (None, None),
                (emits [Analytics ''REPL'' ''FailedConnectingCLJS'' (Some (repl_name repl)),
                        OutputLine (failedConnectingMessage (cljsBuild s4))] s4)\<lparr>cljsBuild := None\<rparr>))"
  by (simp add: connectStep_def andThen_def update_def resolve_def split: prod.splits sum.splits)

lemma figwheelMainEnv_start:
  "fst (figwheelMain_start figwheelMainEnv (Some (Session 10)) ''Figwheel Main''
          figwheelMain_started st) = Inr True
   \<and> tick (snd (figwheelMain_start figwheelMainEnv (Some (Session 10)) ''Figwheel Main''
          figwheelMain_started st)) = tick st + 2"
  by (simp add: figwheelMain_start_def getFigwheelMainProjects_def andThen_def await_def
      resolve_def update_def figwheelMainEnv_def quietEnv_def evalConnectCode_def Let_def
      onStdout_def onStderr_def figwheelMain_started_def search_def endsWith_def emit_def
      stripAnsiModel_def ESC_def)

lemma figwheelMainEnv_connect:
  "fst (figwheelMain_connect figwheelMainEnv (Some (Session 13)) ''Figwheel Main''
          figwheelMain_connected st) = Inr True"
  by (simp add: figwheelMain_connect_def getFigwheelMainProjects_def andThen_def await_def
      ask_def resolve_def update_def figwheelMainEnv_def quietEnv_def evalConnectCode_def Let_def
      onStdout_def onStderr_def figwheelMain_connected_def search_def endsWith_def emit_def
      stripAnsiModel_def ESC_def)

section \<open>The address prompt and the close handler\<close>

lemma connectToHost_returns: "\<exists>b. fst (connectToHost env h p nm rts s) = Inr b"
  by (auto simp: connectToHost_cases split: prod.splits sum.splits)

lemma portAccepted_iff: "portAccepted n \<longleftrightarrow> (\<exists>x. n = Num x \<and> 0 < x \<and> x < 65536)"
  by (cases n) (auto simp: portAccepted_def)

lemma jsParseFloat_80_5: "jsParseFloat (Some ''80.5'') = Num (161 / 2)"
  by (simp add: jsParseFloat_def splitSign_def isWhiteSpace_def isDigit_def digitsValue_def
      exponentPart_def Let_def roundToDouble_def bitLength.simps)

lemma jsParseFloat_port: "jsParseFloat (Some ''port'') = NaN"
  by (simp add: jsParseFloat_def splitSign_def isWhiteSpace_def isDigit_def digitsValue_def
      exponentPart_def Let_def)

lemma jsParseFloat_7888: "jsParseFloat (Some ''7888'') = Num 7888"
  by (simp add: jsParseFloat_def splitSign_def isWhiteSpace_def isDigit_def digitsValue_def
      exponentPart_def Let_def roundToDouble_def bitLength.simps)

text \<open>Literals that are no doubles are rounded: one below every positive double reads
  as 0, and one just below 65536 reads as 65536; the port check rejects both.\<close>

lemma jsParseFloat_rounds:
  "jsParseFloat (Some ''1e-324'') = Num 0"
  "jsParseFloat (Some ''65535.99999999999999999'') = Num 65536"
  "jsParseFloat (Some ''0.1'') = Num (3602879701896397 / 36028797018963968)"
  by (simp_all add: jsParseFloat_def splitSign_def isWhiteSpace_def isDigit_def digitsValue_def
      exponentPart_def Let_def roundToDouble_def bitLength.simps)

lemma rounded_ports_rejected:
  "\<not> portAccepted (jsParseFloat (Some ''1e-324''))"
  "\<not> portAccepted (jsParseFloat (Some ''65535.99999999999999999''))"
  by (simp_all add: jsParseFloat_rounds portAccepted_def)

lemma not_integer_80_5: "\<nexists>k::int. (161 / 2 :: rat) = of_int k"
proof
  assume "\<exists>k::int. (161 / 2 :: rat) = of_int k"
  then obtain k :: int where "(161 / 2 :: rat) = of_int k" ..
  then have "(of_int (2 * k) :: rat) = of_int 161" by simp
  then have "2 * k = 161" by (simp only: of_int_eq_iff)
  then show False by presburger
qed

lemma splitUrl_examples:
  "splitUrl ''localhost:80.5'' = (''localhost'', Some ''80.5'')"
  "splitUrl ''localhost:port'' = (''localhost'', Some ''port'')"
  "splitUrl ''localhost:7888'' = (''localhost'', Some ''7888'')"
  by (simp_all add: splitUrl_def)

lemma prompt_accepted:
  assumes "showInputBox env (''localhost:'' @ (case port0 of None \<Rightarrow> [] | Some p \<Rightarrow> p)) (tick s)
             = Some url"
    and "splitUrl url = (host, portText)"
    and ok: "portAccepted (parseFloat env portText)"
  shows "promptForNreplUrlAndConnect env port0 cljsTypeName replTypes s
            = (Inr True,
               snd (connectToHost env host (parseFloat env portText) cljsTypeName replTypes
                      (s\<lparr>tick := Suc (tick s), hostname := Some host,
                         port := Some (parseFloat env portText)\<rparr>)))"
proof -
  let ?c = "connectToHost env host (parseFloat env portText) cljsTypeName replTypes
                      (s\<lparr>tick := Suc (tick s), hostname := Some host,
                         port := Some (parseFloat env portText)\<rparr>)"
  obtain b where "fst ?c = Inr b" using connectToHost_returns by blast
  then have c: "?c = (Inr b, snd ?c)" by (simp add: prod_eq_iff)
  have "promptForNreplUrlAndConnect env port0 cljsTypeName replTypes s
           = (case ?c of (Inl e, s') \<Rightarrow> (Inl e, s') | (Inr x, s') \<Rightarrow> (Inr True, s'))"
    using assms
    by (simp add: promptForNreplUrlAndConnect_def andThen_def ask_def update_def resolve_def
        Let_def split: prod.splits sum.splits)
  also have "\<dots> = (Inr True, snd ?c)" by (subst c) simp
  finally show ?thesis .
qed

lemma prompt_rejected:
  assumes "showInputBox env (''localhost:'' @ (case port0 of None \<Rightarrow> [] | Some p \<Rightarrow> p)) (tick s)
             = Some url"
    and "splitUrl url = (host, portText)"
    and bad: "\<not> portAccepted (parseFloat env portText)"
  shows "promptForNreplUrlAndConnect env port0 cljsTypeName replTypes s
            = (Inr True,
               emits [OutputLine (''Bad url: '' @ url), StatusUpdate]
                 (s\<lparr>tick := Suc (tick s), connecting := False\<rparr>))"
  using assms
  by (simp add: promptForNreplUrlAndConnect_def andThen_def ask_def update_def resolve_def
      Let_def)

lemma promptEnv_simps [simp]:
  "showInputBox (promptEnv answer) v t = Some answer"
  "parseFloat (promptEnv answer) = jsParseFloat"
  "nrepl_create (promptEnv answer) h p t = Inl (Thrown ''ECONNREFUSED'')"
  by (simp_all add: promptEnv_def quietEnv_def)

lemma refused_connectToHost:
  "nrepl_create env h p (tick s) = Inl e \<Longrightarrow> nClient s = Some c \<Longrightarrow> live c \<Longrightarrow>
   connectToHost env h p nm rts s
     = (Inr False,
        emits [OutputLine ''Failed connecting.'', Analytics ''REPL'' ''FailedConnectingCLJ'' None]
          ((emit (OutputLine ''Hooking up nREPL sessions...'') (beginConnect s))
             \<lparr>tick := Suc (tick s), connected := False, connecting := False\<rparr>))
   \<and> nClient (beginConnect s) = Some (c\<lparr>silent := True, live := False\<rparr>)
   \<and> outputLines (effects (beginConnect s)) = outputLines (effects s)"
  by (simp add: connectToHost_cases clojureBringUp_def andThen_def update_def await_def
      beginConnect_def closeClient_def onCloseHandler_def emit_def emits_def Let_def)

lemma closeClient_live:
  assumes "nClient s = Some c" and "live c"
  shows "closeClient s
    = emit StatusUpdate
        ((if \<not> silent c then emit (OutputLine ''nREPL Connection was closed'') else id)
           (s\<lparr>nClient := Some (c\<lparr>live := False\<rparr>), connected := False, connecting := False\<rparr>))"
  using assms by (simp add: closeClient_def onCloseHandler_def)

lemma connectToHost_clj_only:
  "connected (snd (connectToHost failingStartEnv ''localhost'' (Num 7888) [] [] idleState))
   \<and> clj (snd (connectToHost failingStartEnv ''localhost'' (Num 7888) [] [] idleState))
       = Some (Session 1)
   \<and> cljs (snd (connectToHost failingStartEnv ''localhost'' (Num 7888) [] [] idleState)) = None
   \<and> cljc (snd (connectToHost failingStartEnv ''localhost'' (Num 7888) [] [] idleState))
       = Some (Session 1)
   \<and> nClient (snd (connectToHost failingStartEnv ''localhost'' (Num 7888) [] [] idleState))
       = Some \<lparr>conn_id = 7, conn_session = Session 1, silent = False, live = True\<rparr>"
  by (simp add: connectToHost_def clojureBringUp_def cljsBringUp_def andThen_def await_def
      tryCatch_def resolve_def update_def failingStartEnv_def quietEnv_def Let_def emit_def
      emits_def awaitOpenReplWindow_def awaitReconnectReplWindow_def beginConnect_def
      idleState_def)

section \<open>What the ClojureScript bring-up leaves alone\<close>

text \<open>
  No strategy of the registry, built in or custom, writes the connected flag or the
  \<^verbatim>\<open>clj\<close> and \<^verbatim>\<open>cljc\<close> slots, and neither does \<^verbatim>\<open>makeCljsSessionClone\<close> around them:
  whatever it returns or throws, these three are as the Clojure bring-up left them.
\<close>

lemma clojureSide_emit [simp]: "clojureSide (emit e s) = clojureSide s"
  by (simp add: clojureSide_def emit_def)

lemma clojureSide_emits [simp]: "clojureSide (emits es s) = clojureSide s"
  by (simp add: clojureSide_def emits_def)

lemma fold_processors_clojureSide:
  "\<forall>p\<in>set ps. \<forall>y st. clojureSide (p y st) = clojureSide st \<Longrightarrow>
     clojureSide (fold (\<lambda>p. p x) ps s) = clojureSide s"
  by (induction ps arbitrary: s) simp_all

lemma fold_handleChunk_clojureSide:
  assumes procs: "\<forall>p\<in>set (case ps of None \<Rightarrow> [] | Some l \<Rightarrow> l). \<forall>y st.
                     clojureSide (p y st) = clojureSide st"
  shows "fold (handleChunk env ps) cs (out, err, s) = (out', err', s') \<Longrightarrow>
           clojureSide s' = clojureSide s"
proof (induction cs arbitrary: out err s)
  case Nil
  then show ?case by simp
next
  case (Cons c cs)
  show ?case
  proof (cases c)
    case (Stdout x)
    let ?s1 = "emit (ConnLog (stripAnsi env x))
            (case ps of None \<Rightarrow> s | Some l \<Rightarrow> fold (\<lambda>p. p x) l s)"
    from Cons.prems Stdout have
      "fold (handleChunk env ps) cs (out @ [stripAnsi env x], err, ?s1) = (out', err', s')"
      by (simp add: onStdout_def)
    from Cons.IH[OF this] have a: "clojureSide s' = clojureSide ?s1" .
    have "clojureSide ?s1 = clojureSide s"
    proof (cases ps)
      case None
      then show ?thesis by simp
    next
      case (Some l)
      with procs have "\<forall>p\<in>set l. \<forall>y st. clojureSide (p y st) = clojureSide st" by simp
      from fold_processors_clojureSide[OF this, of x s] Some show ?thesis by simp
    qed
    with a show ?thesis by simp
  next
    case (Stderr x)
    with Cons.prems have
      "fold (handleChunk env ps) cs
         (out, err @ [stripAnsi env x], emit (ConnLog (stripAnsi env x)) s) = (out', err', s')"
      by (simp add: onStderr_def)
    from Cons.IH[OF this] show ?thesis by simp
  qed
qed

lemma evalConnectCode_clojureSide:
  assumes procs: "\<forall>p\<in>set (case ps of None \<Rightarrow> [] | Some l \<Rightarrow> l). \<forall>y st.
                     clojureSide (p y st) = clojureSide st"
    and run: "evalConnectCode env session code name chk ps s = (r, s')"
  shows "clojureSide s' = clojureSide s"
proof (cases session)
  case None
  with run show ?thesis by (auto simp: evalConnectCode_def throw_def)
next
  case (Some sess)
  show ?thesis
  proof (cases "session_eval env sess code (tick s)")
    case (Inl e)
    with run Some show ?thesis
      by (auto simp: evalConnectCode_def andThen_def await_def clojureSide_def)
  next
    case (Inr script)
    obtain out err s2 where f:
      "fold (handleChunk env ps) (chunks script) ([], [], s\<lparr>tick := Suc (tick s)\<rparr>) = (out, err, s2)"
      by (metis prod_cases3)
    from fold_handleChunk_clojureSide[OF procs f]
    have s2: "clojureSide s2 = clojureSide s" by (simp add: clojureSide_def)
    from evalConnectCode_run[OF Inr f, of name chk] run Some s2 show ?thesis
      by (auto simp: Let_def emit_def clojureSide_def split: sum.splits if_splits)
  qed
qed

lemma processors_clojureSide:
  "clojureSide (figwheelServerProcessor env y st) = clojureSide st"
  "clojureSide (tellUserToStartProcessor env pat y st) = clojureSide st"
  "clojureSide (printThisLineProcessor env pat y st) = clojureSide st"
  by (simp_all add: figwheelServerProcessor_def tellUserToStartProcessor_def
      printThisLineProcessor_def split: option.splits prod.splits)

lemma getFigwheelMainProjects_clojureSide:
  "getFigwheelMainProjects env s = (r, s') \<Longrightarrow> clojureSide s' = clojureSide s"
  by (auto simp: getFigwheelMainProjects_def andThen_def await_def resolve_def emits_def Let_def
      clojureSide_def split: sum.splits if_splits)

lemma figwheelMain_start_clojureSide:
  "figwheelMain_start env session name chk s = (r, s') \<Longrightarrow> clojureSide s' = clojureSide s"
  using figwheelMain_start_frame[of env session name chk s r s'] by (simp add: clojureSide_def)

lemma figwheelMain_connect_clojureSide:
  assumes "figwheelMain_connect env session name chk s = (r, s')"
  shows "clojureSide s' = clojureSide s"
proof -
  obtain r1 s1 where g: "getFigwheelMainProjects env s = (r1, s1)"
    by (cases "getFigwheelMainProjects env s")
  note f1 = getFigwheelMainProjects_clojureSide[OF g]
  have none: "\<forall>p\<in>set (case None :: processOutputFn list option of None \<Rightarrow> [] | Some l \<Rightarrow> l).
      \<forall>y st. clojureSide (p y st) = clojureSide st" by simp
  show ?thesis
  proof (cases r1)
    case (Inl e)
    with assms g f1 show ?thesis by (simp add: figwheelMain_connect_def andThen_def)
  next
    case (Inr projects)
    show ?thesis
      using assms g f1 Inr
      by (auto simp: figwheelMain_connect_def andThen_def resolve_def ask_def update_def emit_def
          clojureSide_def
          split: if_splits option.splits dest!: evalConnectCode_clojureSide[OF none])
  qed
qed

lemma figwheel_connect_clojureSide:
  assumes "figwheel_connect env session name chk s = (r, s')"
  shows "clojureSide s' = clojureSide s"
proof -
  have procs: "\<forall>p\<in>set (case Some [figwheelServerProcessor env] of None \<Rightarrow> [] | Some l \<Rightarrow> l).
      \<forall>y st. clojureSide (p y st) = clojureSide st"
    by (simp add: processors_clojureSide)
  from assms show ?thesis
    by (auto simp: figwheel_connect_def andThen_def update_def clojureSide_def
        dest!: evalConnectCode_clojureSide[OF procs])
qed

lemma shadow_connect_clojureSide:
  assumes "shadow_connect env session name chk s = (r, s')"
  shows "clojureSide s' = clojureSide s"
proof -
  have none: "\<forall>p\<in>set (case None :: processOutputFn list option of None \<Rightarrow> [] | Some l \<Rightarrow> l).
      \<forall>y st. clojureSide (p y st) = clojureSide st" by simp
  from assms show ?thesis
    by (auto simp: shadow_connect_def shadowBuilds_def andThen_def await_def ask_def update_def
        resolve_def emit_def clojureSide_def
        split: sum.splits option.splits if_splits dest!: evalConnectCode_clojureSide[OF none])
qed

lemma custom_connect_clojureSide:
  assumes "repl_connect (createCustomCLJSReplType env custom) = Some f"
    and "f session name chk s = (r, s')"
  shows "clojureSide s' = clojureSide s"
proof -
  let ?ps = "(case tellUserToStartRegExp custom of
                      None \<Rightarrow> []
                    | Some pat \<Rightarrow> if pat \<noteq> [] then [tellUserToStartProcessor env pat] else [])
                   @ (case printThisLineRegExp custom of
                        None \<Rightarrow> []
                      | Some pat \<Rightarrow> if pat \<noteq> [] then [printThisLineProcessor env pat] else [])"
  have procs: "\<forall>p\<in>set (case Some ?ps of None \<Rightarrow> [] | Some l \<Rightarrow> l).
      \<forall>y st. clojureSide (p y st) = clojureSide st"
    by (auto simp: processors_clojureSide split: option.splits)
  from assms show ?thesis
    by (auto simp: createCustomCLJSReplType_def andThen_def update_def clojureSide_def
        dest!: evalConnectCode_clojureSide[OF procs])
qed

lemma registry_connect_clojureSide:
  assumes "repl \<in> set (getCLJSReplTypes env)"
    and "connectOf repl session name chk s = (r, s')"
  shows "clojureSide s' = clojureSide s"
proof -
  from assms(1) consider
      "repl_connect repl = Some (figwheelMain_connect env)"
    | "repl_connect repl = Some (figwheel_connect env)"
    | "repl_connect repl = Some (shadow_connect env)"
    | custom where "repl = createCustomCLJSReplType env custom"
    by (auto simp: getCLJSReplTypes_def cljsReplTypes_def getCustomCLJSRepl_def
        split: option.splits)
  then show ?thesis
  proof cases
    case 1
    with assms(2) show ?thesis by (simp add: connectOf_def figwheelMain_connect_clojureSide)
  next
    case 2
    with assms(2) show ?thesis by (simp add: connectOf_def figwheel_connect_clojureSide)
  next
    case 3
    with assms(2) show ?thesis by (simp add: connectOf_def shadow_connect_clojureSide)
  next
    case 4
    obtain f where f: "repl_connect (createCustomCLJSReplType env custom) = Some f"
      by (simp add: createCustomCLJSReplType_def)
    with assms(2) 4 have "f session name chk s = (r, s')" by (simp add: connectOf_def)
    from custom_connect_clojureSide[OF f this] show ?thesis .
  qed
qed

lemma registry_start_clojureSide:
  assumes "repl \<in> set (getCLJSReplTypes env)"
    and "repl_start repl = Some start"
    and "start session name chk s = (r, s')"
  shows "clojureSide s' = clojureSide s"
proof -
  from assms(1,2) have "start = figwheelMain_start env"
    by (auto simp: getCLJSReplTypes_def cljsReplTypes_def getCustomCLJSRepl_def
        createCustomCLJSReplType_def split: if_splits option.splits)
  with assms(3) show ?thesis by (simp add: figwheelMain_start_clojureSide)
qed

lemma find_Some_member: "find P xs = Some x \<Longrightarrow> x \<in> set xs"
  by (induction xs) (auto split: if_splits)

lemma connectStep_clojureSide:
  assumes reg: "repl \<in> set (getCLJSReplTypes env)"
    and run: "connectStep repl n s = (r, s')"
  shows "clojureSide s' = clojureSide s"
proof -
  let ?s0 = "emits [OutputLine (''Connecting CLJS repl: '' @ repl_name repl @ ''...''),
                     OutputLine ''  Compiling and stuff. This can take a minute or two.'',
                     OutputLine ''  See Calva Connection Log for detailed progress updates.''] s"
  obtain r4 s4 where c: "connectOf repl n (repl_name repl) (repl_connected repl) ?s0 = (r4, s4)"
    by (cases "connectOf repl n (repl_name repl) (repl_connected repl) ?s0")
  from registry_connect_clojureSide[OF reg c] have k: "clojureSide s4 = clojureSide s" by simp
  from run c k show ?thesis
    unfolding connectStep_cases
    by (auto simp: clojureSide_def emit_def emits_def split: sum.splits if_splits)
qed

lemma startStep_clojureSide:
  assumes reg: "repl \<in> set (getCLJSReplTypes env)"
    and run: "startStep env session repl n s = (r, s')"
  shows "clojureSide s' = clojureSide s"
proof (cases "repl_start repl")
  case None
  with run show ?thesis by (simp add: startStep_def resolve_def)
next
  case (Some start)
  let ?s0 = "emit (OutputLine (''Starting repl for: '' @ repl_name repl @ ''...'')) s"
  obtain r2 s2 where st: "start n (repl_name repl) (startedOf repl) ?s0 = (r2, s2)"
    by (cases "start n (repl_name repl) (startedOf repl) ?s0")
  from registry_start_clojureSide[OF reg Some st] have k: "clojureSide s2 = clojureSide s" by simp
  from run Some st k show ?thesis
    by (auto simp: startStep_def andThen_def update_def resolve_def cloneSession_def throw_def
        await_def clojureSide_def emit_def emits_def
        split: sum.splits if_splits option.splits)
qed

lemma makeCljsSessionClone_clojureSide:
  assumes run: "makeCljsSessionClone env session nm (getCLJSReplTypes env) s = (r, s')"
  shows "clojureSide s' = clojureSide s"
proof -
  let ?s0 = "emit (OutputLine ''Creating cljs repl session...'') s"
  obtain rc sc where cl: "cloneSession env session ?s0 = (rc, sc)"
    by (cases "cloneSession env session ?s0")
  have kc: "clojureSide sc = clojureSide s"
    using cl by (auto simp: cloneSession_def throw_def await_def clojureSide_def emit_def
        split: option.splits)
  show ?thesis
  proof (cases rc)
    case (Inl e)
    with run cl kc show ?thesis
      by (simp add: makeCljsSessionClone_def andThen_def update_def)
  next
    case (Inr newCljsSession)
    show ?thesis
    proof (cases newCljsSession)
      case None
      with run cl kc Inr show ?thesis
        by (simp add: makeCljsSessionClone_def andThen_def update_def resolve_def)
    next
      case (Some c1)
      let ?s1 = "emits [ChanShow, Analytics ''REPL'' ''ConnectingCLJS'' (Some nm)]
                (sc\<lparr>ws_cljsReplType := Some nm\<rparr>)"
      have k1: "clojureSide ?s1 = clojureSide s" using kc by (simp add: clojureSide_def emits_def)
      show ?thesis
      proof (cases "find (\<lambda>x. repl_name x = nm) (getCLJSReplTypes env)")
        case None
        with run cl Inr Some k1 show ?thesis
          by (simp add: makeCljsSessionClone_def andThen_def update_def throw_def)
      next
        case found: (Some repl)
        from find_Some_member[OF found] have reg: "repl \<in> set (getCLJSReplTypes env)" .
        obtain r2 s2 where st: "startStep env session repl (Some c1) ?s1 = (r2, s2)"
          by (cases "startStep env session repl (Some c1) ?s1")
        from startStep_clojureSide[OF reg st] k1 have k2: "clojureSide s2 = clojureSide s" by simp
        show ?thesis
        proof (cases r2)
          case (Inl e)
          with run cl Inr Some found st k2 show ?thesis
            by (simp add: makeCljsSessionClone_def andThen_def update_def)
        next
          case go: (Inr g)
          show ?thesis
          proof (cases g)
            case None
            with run cl Inr Some found st k2 go show ?thesis
              by (simp add: makeCljsSessionClone_def andThen_def update_def resolve_def)
          next
            case (Some n)
            with run cl Inr \<open>newCljsSession = Some c1\<close> found st go
            have "connectStep repl n s2 = (r, s')"
              by (simp add: makeCljsSessionClone_def andThen_def update_def)
            from connectStep_clojureSide[OF reg this] k2 show ?thesis by simp
          qed
        qed
      qed
    qed
  qed
qed

lemma cljsBringUp_window_fails:
  assumes nm: "nm \<noteq> []"
    and mk: "makeCljsSessionClone env (cljSession sr) nm rts sr = (Inr (Some sess, b), s3)"
    and win: "openReplWindow env ''cljs'' (tick s3) = Some e
              \<or> openReplWindow env ''cljs'' (tick s3) = None
                \<and> reconnectReplWindow env ''cljs'' (Suc (tick s3)) = Some e"
  shows "\<exists>s4. cljsBringUp env nm rts sr = (Inl e, s4)
           \<and> clojureSide s4 = clojureSide s3 \<and> cljs s4 = Some sess
           \<and> outputLines (effects s4) = outputLines (effects s3) @ [''Connected session: cljs'']"
  using win
proof
  assume "openReplWindow env ''cljs'' (tick s3) = Some e"
  with nm mk show ?thesis
    by (simp add: cljsBringUp_def andThen_def tryCatch_def update_def resolve_def
        setUpCljsRepl_def awaitOpenReplWindow_def emit_def clojureSide_def)
next
  assume "openReplWindow env ''cljs'' (tick s3) = None
                \<and> reconnectReplWindow env ''cljs'' (Suc (tick s3)) = Some e"
  with nm mk show ?thesis
    by (simp add: cljsBringUp_def andThen_def tryCatch_def update_def resolve_def
        setUpCljsRepl_def awaitOpenReplWindow_def awaitReconnectReplWindow_def emit_def
        clojureSide_def)
qed


lemma makeCljsSessionClone_start_throws:
  assumes clone1: "session_clone env base (tick s) = Inr (Some c1)"
    and found: "find (\<lambda>x. repl_name x = nm) replTypes = Some repl"
    and hasStart: "repl_start repl = Some start"
    and throws: "start (Some c1) nm (startedOf repl) (beforeStart nm s) = (Inl e, s2)"
  shows "makeCljsSessionClone env (Some base) nm replTypes s = (Inl e, s2)"
proof -
  from find_Some_holds[OF found] have nm: "repl_name repl = nm" .
  have step: "startStep env (Some base) repl (Some c1)
      (emits [ChanShow, Analytics ''REPL'' ''ConnectingCLJS'' (Some nm)]
           ((emit (OutputLine ''Creating cljs repl session...'') s)
              \<lparr>tick := Suc (tick (emit (OutputLine ''Creating cljs repl session...'') s)),
                 ws_cljsReplType := Some nm\<rparr>))
     = (Inl e, s2)"
    using hasStart throws
    by (simp add: startStep_def andThen_def update_def resolve_def nm beforeStart_def emit_def emits_def)
  have c: "tick (emit (OutputLine ''Creating cljs repl session...'') s) = tick s"
    by (simp add: emit_def)
  show ?thesis
    using clone1 found step
    by (simp add: makeCljsSessionClone_def andThen_def update_def cloneSession_def await_def
        resolve_def c)
qed

lemma noProjectFilesEnv_ready:
  "fst (clojureBringUp noProjectFilesEnv ''localhost'' (Num 7888) (beginConnect idleState)) = Inr ()
   \<and> cljSession (snd (clojureBringUp noProjectFilesEnv ''localhost'' (Num 7888) (beginConnect idleState)))
       = Some (Session 1)"
  by (simp add: clojureBringUp_def andThen_def await_def tryCatch_def
      resolve_def update_def noProjectFilesEnv_def quietEnv_def Let_def emit_def
      awaitOpenReplWindow_def awaitReconnectReplWindow_def)

lemma noProjectFilesEnv_start_throws:
  "fst (figwheelMain_start noProjectFilesEnv sess ''Figwheel Main'' chk st) = Inl (Thrown ''Aborted'')"
  by (simp add: figwheelMain_start_def getFigwheelMainProjects_def andThen_def await_def
      noProjectFilesEnv_def quietEnv_def Let_def)

lemma cljsWindowFailsEnv_ready:
  "fst (clojureBringUp cljsWindowFailsEnv ''localhost'' (Num 7888) (beginConnect idleState)) = Inr ()
   \<and> cljSession (snd (clojureBringUp cljsWindowFailsEnv ''localhost'' (Num 7888) (beginConnect idleState)))
       = Some (Session 1)"
  by (simp add: clojureBringUp_def andThen_def await_def tryCatch_def
      resolve_def update_def cljsWindowFailsEnv_def quietEnv_def Let_def emit_def
      awaitOpenReplWindow_def awaitReconnectReplWindow_def)

lemma cljsWindowFailsEnv_start:
  "fst (figwheelMain_start cljsWindowFailsEnv (Some c) ''Figwheel Main''
          figwheelMain_started st) = Inr True
   \<and> tick (snd (figwheelMain_start cljsWindowFailsEnv (Some c) ''Figwheel Main''
          figwheelMain_started st)) = tick st + 2"
  by (simp add: figwheelMain_start_def getFigwheelMainProjects_def andThen_def await_def
      resolve_def update_def cljsWindowFailsEnv_def quietEnv_def evalConnectCode_def Let_def
      onStdout_def onStderr_def figwheelMain_started_def search_def endsWith_def emit_def
      stripAnsiModel_def ESC_def)

lemma cljsWindowFailsEnv_connect:
  "fst (figwheelMain_connect cljsWindowFailsEnv (Some c) ''Figwheel Main''
          figwheelMain_connected st) = Inr True
   \<and> tick (snd (figwheelMain_connect cljsWindowFailsEnv (Some c) ''Figwheel Main''
          figwheelMain_connected st)) = tick st + 3"
  by (simp add: figwheelMain_connect_def getFigwheelMainProjects_def andThen_def await_def
      ask_def resolve_def update_def cljsWindowFailsEnv_def quietEnv_def evalConnectCode_def Let_def
      onStdout_def onStderr_def figwheelMain_connected_def search_def endsWith_def emit_def
      stripAnsiModel_def ESC_def)

lemma tick_beginConnect_idleState: "tick (beginConnect idleState) = 0"
  by (simp add: beginConnect_def idleState_def emit_def Let_def)


section \<open>Further properties of the bring-up\<close>

text \<open>
  A connect step that answers false leaves the \<^verbatim>\<open>cljs\<close> slot as the start step left it:
  the start step's evaluation stored the first clone there, the connect step runs on a
  second clone, and only a truthy check stores that one.  The registry lists the built-in
  types before the custom one, so a built-in name is found first; and \<^verbatim>\<open>connectToHost\<close>
  closes a previous client silently.
\<close>

lemma evalConnectCode_None_false:
  assumes run: "evalConnectCode env session code name chk None s = (Inr False, s')"
  shows "cljs s' = cljs s"
proof (cases session)
  case None
  with run show ?thesis by (auto simp: evalConnectCode_def throw_def)
next
  case (Some sess)
  show ?thesis
  proof (cases "session_eval env sess code (tick s)")
    case (Inl e)
    with run Some show ?thesis by (auto simp: evalConnectCode_def andThen_def await_def)
  next
    case (Inr script)
    obtain out err s2 where f:
      "fold (handleChunk env None) (chunks script) ([], [], s\<lparr>tick := Suc (tick s)\<rparr>) = (out, err, s2)"
      by (metis prod_cases3)
    from fold_handleChunk_None_frame[OF f] have s2: "cljs s2 = cljs s" by simp
    from evalConnectCode_run[OF Inr f, of name chk] run Some s2 show ?thesis
      by (auto simp: Let_def emit_def split: sum.splits if_splits)
  qed
qed

lemma getFigwheelMainProjects_cljs:
  "getFigwheelMainProjects env s = (r, s') \<Longrightarrow> cljs s' = cljs s"
  by (auto simp: getFigwheelMainProjects_def andThen_def await_def resolve_def emits_def Let_def
      split: sum.splits if_splits)

lemma figwheelMain_connect_false:
  assumes "figwheelMain_connect env session name chk s = (Inr False, s')"
  shows "cljs s' = cljs s"
proof -
  obtain r1 s1 where g: "getFigwheelMainProjects env s = (r1, s1)"
    by (cases "getFigwheelMainProjects env s")
  note f1 = getFigwheelMainProjects_cljs[OF g]
  show ?thesis
  proof (cases r1)
    case (Inl e)
    with assms g show ?thesis by (simp add: figwheelMain_connect_def andThen_def)
  next
    case (Inr projects)
    show ?thesis
      using assms g f1 Inr
      by (auto simp: figwheelMain_connect_def andThen_def resolve_def ask_def update_def emit_def
          split: if_splits option.splits dest!: evalConnectCode_None_false)
  qed
qed

lemma failed_connect_leaves_cljs_at_first_clone:
  assumes clone1: "session_clone env base (tick s) = Inr (Some firstClone)"
    and ok: "figwheelMain_start env (Some firstClone) ''Figwheel Main'' figwheelMain_started
           (beforeStart ''Figwheel Main'' s) = (Inr True, afterStart)"
    and clone2: "session_clone env base (tick afterStart) = Inr freshClone"
    and failed: "figwheelMain_connect env freshClone ''Figwheel Main'' figwheelMain_connected
           (emits [OutputLine ''Connecting CLJS repl: Figwheel Main...'',
                   OutputLine ''  Compiling and stuff. This can take a minute or two.'',
                   OutputLine ''  See Calva Connection Log for detailed progress updates.'']
              ((emits [Analytics ''REPL'' ''StartedCLJS'' (Some ''Figwheel Main''),
                       OutputLine ''Started cljs builds''] afterStart)
                 \<lparr>tick := Suc (tick afterStart)\<rparr>)) = (Inr False, afterConnect)"
  shows "fst (makeCljsSessionClone env (Some base) ''Figwheel Main'' (getCLJSReplTypes env) s)
           = Inr (None, None)
       \<and> cljs (snd (makeCljsSessionClone env (Some base) ''Figwheel Main''
                      (getCLJSReplTypes env) s)) = Some firstClone
       \<and> cljsBuild (snd (makeCljsSessionClone env (Some base) ''Figwheel Main''
                      (getCLJSReplTypes env) s)) = None"
proof -
  have hasStart: "repl_start (figwheelMainType env) = Some (figwheelMain_start env)"
    by (simp add: figwheelMainType_def)
  have ok': "figwheelMain_start env (Some firstClone) ''Figwheel Main''
      (startedOf (figwheelMainType env)) (beforeStart ''Figwheel Main'' s) = (Inr True, afterStart)"
    using ok by (simp add: startedOf_def figwheelMainType_def)
  note mk = makeCljsSessionClone_started[OF clone1 find_figwheelMain hasStart ok' clone2]
  have c1: "cljs afterStart = Some firstClone" by (rule figwheelMain_start_true[OF ok])
  from figwheelMain_connect_false[OF failed] c1
  have c2: "cljs afterConnect = Some firstClone" by (simp add: emits_def)
  have "makeCljsSessionClone env (Some base) ''Figwheel Main'' (getCLJSReplTypes env) s
      = (Inr (None, None),
         (emits [Analytics ''REPL'' ''FailedConnectingCLJS'' (Some ''Figwheel Main''),
                 OutputLine (failedConnectingMessage (cljsBuild afterConnect))] afterConnect)
           \<lparr>cljsBuild := None\<rparr>)"
    unfolding mk connectStep_cases using failed
    by (simp add: figwheelMainType_def connectOf_def)
  with c2 show ?thesis by (simp add: emits_def)
qed

lemma registry_builtins_first:
  "getCLJSReplTypes env
     = cljsReplTypes env
       @ (case customCljsRepl env of None \<Rightarrow> [] | Some c \<Rightarrow> [createCustomCLJSReplType env c])
   \<and> map repl_name (cljsReplTypes env) = [''Figwheel Main'', ''Figwheel'', ''shadow-cljs'']
   \<and> (nm \<in> set (map repl_name (cljsReplTypes env)) \<longrightarrow>
        find (\<lambda>x. repl_name x = nm) (getCLJSReplTypes env)
          = find (\<lambda>x. repl_name x = nm) (cljsReplTypes env))"
  by (auto simp: getCLJSReplTypes_def getCustomCLJSRepl_def cljsReplTypes_def split: option.splits)

lemma beginConnect_closes_silently:
  "outputLines (effects (beginConnect s)) = outputLines (effects s)
   \<and> connecting (beginConnect s)
   \<and> cljSession (beginConnect s) = None \<and> cljsSession (beginConnect s) = None
   \<and> clj (beginConnect s) = clj s \<and> cljs (beginConnect s) = cljs s
   \<and> cljc (beginConnect s) = cljc s
   \<and> (nClient s = Some c \<and> live c \<longrightarrow>
        nClient (beginConnect s) = Some (c\<lparr>silent := True, live := False\<rparr>)
        \<and> \<not> connected (beginConnect s))"
  by (cases "nClient s")
     (auto simp: beginConnect_def closeClient_def onCloseHandler_def emit_def Let_def)


section \<open>Claims\<close>

text \<open>
  C7. For the Figwheel Main strategy (the build tool with multiple builds): whenever some
  accumulated stderr line contains the text "already running", the \<^verbatim>\<open>started\<close>
  predicate succeeds, whatever stdout holds, in particular when no stdout line contains
  the ready marker "Prompt will show". The predicate does not throw and the value it
  returns is truthy (it is \<^verbatim>\<open>true\<close> when stdout has the marker and otherwise the first
  matching stderr line, which is not empty); and \<^verbatim>\<open>evalConnectCode\<close>, run with this
  predicate on an evaluation whose stripped stderr lines are these, returns \<^verbatim>\<open>true\<close>:
  already running is success, not failure.
\<close>

theorem figwheelMain_started_already_running:
  assumes "x \<in> set err" and "search x ''already running'' \<ge> 0"
  shows "(\<exists>v. figwheelMain_started result out err = Inr v \<and> truthy v)
       \<and> (session_eval env sess code (tick s) = Inr script
            \<and> map (stripAnsi env) (stderrTexts (chunks script)) = err
            \<longrightarrow> fst (evalConnectCode env (Some sess) code name figwheelMain_started ps s) = Inr True)"
proof (intro conjI impI)
  show "\<exists>v. figwheelMain_started result out err = Inr v \<and> truthy v"
    by (rule started_truthy[OF assms])
next
  assume h: "session_eval env sess code (tick s) = Inr script
            \<and> map (stripAnsi env) (stderrTexts (chunks script)) = err"
  then have run: "session_eval env sess code (tick s) = Inr script"
    and err: "map (stripAnsi env) (stderrTexts (chunks script)) = err" by blast+
  from started_truthy[OF assms, of "valueOf script" "map (stripAnsi env) (stdoutTexts (chunks script))"]
  obtain v where v: "figwheelMain_started (valueOf script)
      (map (stripAnsi env) (stdoutTexts (chunks script))) err = Inr v" and t: "truthy v" by blast
  have "fst (evalConnectCode env (Some sess) code name figwheelMain_started ps s)
      = map_sum id truthy (figwheelMain_started (valueOf script)
          (map (stripAnsi env) (stdoutTexts (chunks script))) err)"
    unfolding err[symmetric] by (rule evalConnectCode_fst[OF run])
  also have "\<dots> = Inr True" unfolding v using t by simp
  finally show "fst (evalConnectCode env (Some sess) code name figwheelMain_started ps s) = Inr True" .
qed

text \<open>The scenario of the specification: stderr line \<^verbatim>\<open>Build already running\<close>,
  nothing on stdout.\<close>

theorem figwheelMain_started_already_running_witness:
  "''Build already running'' \<in> set [''Build already running'']
   \<and> search ''Build already running'' ''already running'' \<ge> 0
   \<and> find (\<lambda>x. search x ''Prompt will show'' \<ge> 0) [] = None
   \<and> (\<exists>v. figwheelMain_started None [] [''Build already running''] = Inr v \<and> truthy v)
   \<and> fst (evalConnectCode (evalEnv [Stderr ''Build already running''] (Inr ''nil''))
            (Some (Session 2)) None ''Figwheel Main'' figwheelMain_started None idleState)
       = Inr True"
proof -
  let ?env = "evalEnv [Stderr ''Build already running''] (Inr ''nil'')"
  let ?script = "\<lparr>chunks = [Stderr ''Build already running''], outcome = Inr ''nil''\<rparr>"
  have m: "''Build already running'' \<in> set [''Build already running'']" by simp
  have s: "search ''Build already running'' ''already running'' \<ge> 0"
    by (simp add: search_def)
  have st: "stripAnsiModel ''Build already running'' = ''Build already running''"
    by (simp add: stripAnsiModel_def ESC_def)
  have run: "session_eval ?env (Session 2) None (tick idleState) = Inr ?script
     \<and> map (stripAnsi ?env) (stderrTexts (chunks ?script)) = [''Build already running'']"
    by (simp add: st)
  note inst = figwheelMain_started_already_running[OF m s, of None "[]" ?env "Session 2" None
      idleState ?script "''Figwheel Main''" None]
  from inst have a: "\<exists>v. figwheelMain_started None [] [''Build already running''] = Inr v \<and> truthy v"
    by (rule conjunct1)
  from inst have "session_eval ?env (Session 2) None (tick idleState) = Inr ?script
     \<and> map (stripAnsi ?env) (stderrTexts (chunks ?script)) = [''Build already running'']
     \<longrightarrow> fst (evalConnectCode ?env (Some (Session 2)) None ''Figwheel Main''
               figwheelMain_started None idleState) = Inr True"
    by (rule conjunct2)
  from this run have b: "fst (evalConnectCode ?env (Some (Session 2)) None ''Figwheel Main''
               figwheelMain_started None idleState) = Inr True" by (rule mp)
  have f: "find (\<lambda>x. search x ''Prompt will show'' \<ge> 0) [] = None" by simp
  from m s f a b show ?thesis by (intro conjI)
qed

text \<open>
  C9. When a document is open inside a workspace folder (the folder's root \<open>w\<close> is an
  ancestor of, or is, the document's directory), \<^verbatim>\<open>initProjectDir\<close> walks from the
  document's directory towards \<open>w\<close> and stores as project root the first directory on
  that walk that holds one of \<^verbatim>\<open>project.clj\<close>, \<^verbatim>\<open>shadow-cljs.edn\<close>, \<^verbatim>\<open>deps.edn\<close>:
  the stored root \<open>r\<close> lies between \<open>w\<close> and the document's directory, no directory
  strictly below \<open>r\<close> on the walk holds a marker, and \<open>r\<close> holds a marker unless it
  is \<open>w\<close>; so without any marker within the bounds the stored root is \<open>w\<close>. The
  workspace folder is stored as well, and nothing else changes.
\<close>

theorem initProjectDir_first_marked_dir:
  assumes "activeDocument env = Some doc"
    and "getWorkspaceFolder env doc = Some w"
    and "prefix w (butlast doc)"
  shows "\<exists>r. initProjectDir env s
               = (Inr (), s\<lparr>projectWsFolder := Some w, projectDir := Some r\<rparr>)
           \<and> prefix w r \<and> prefix r (butlast doc)
           \<and> (hasProjectFile env r \<or> r = w)
           \<and> (\<forall>d. prefix r d \<and> prefix d (butlast doc) \<and> d \<noteq> r \<longrightarrow> \<not> hasProjectFile env d)
           \<and> ((\<forall>d. prefix w d \<and> prefix d (butlast doc) \<longrightarrow> \<not> hasProjectFile env d) \<longrightarrow> r = w)"
proof -
  let ?r = "findProjectRoot env w (butlast doc) None"
  have run: "initProjectDir env s = (Inr (), s\<lparr>projectWsFolder := Some w, projectDir := Some ?r\<rparr>)"
    using assms(1,2) by (simp add: initProjectDir_def update_def)
  have walk: "prefix w ?r \<and> prefix ?r (butlast doc) \<and> (hasProjectFile env ?r \<or> ?r = w)
      \<and> (\<forall>d. prefix ?r d \<and> prefix d (butlast doc) \<and> d \<noteq> ?r \<longrightarrow> \<not> hasProjectFile env d)"
    using findProjectRoot_spec[OF assms(3), of None env] by simp
  then have none: "(\<forall>d. prefix w d \<and> prefix d (butlast doc) \<longrightarrow> \<not> hasProjectFile env d) \<longrightarrow> ?r = w"
    by blast
  from run walk none show ?thesis by blast
qed

text \<open>The scenario of the specification: document \<^verbatim>\<open>/repo/sub/core.clj\<close>, \<^verbatim>\<open>deps.edn\<close>
  present at \<^verbatim>\<open>/repo\<close>, workspace root \<^verbatim>\<open>/repo\<close>; the stored project root is
  \<^verbatim>\<open>/repo\<close>.\<close>

theorem initProjectDir_first_marked_dir_witness:
  "initProjectDir
     (quietEnv\<lparr>activeDocument := Some [''repo'', ''sub'', ''core.clj''],
               getWorkspaceFolder := (\<lambda>doc. Some [''repo'']),
               existsSync := (\<lambda>p. p = [''repo'', ''deps.edn''])\<rparr>) idleState
   = (Inr (), idleState\<lparr>projectWsFolder := Some [''repo''], projectDir := Some [''repo'']\<rparr>)"
proof -
  let ?env = "quietEnv\<lparr>activeDocument := Some [''repo'', ''sub'', ''core.clj''],
               getWorkspaceFolder := (\<lambda>doc. Some [''repo'']),
               existsSync := (\<lambda>p. p = [''repo'', ''deps.edn''])\<rparr>"
  have a: "activeDocument ?env = Some [''repo'', ''sub'', ''core.clj'']" by simp
  have b: "getWorkspaceFolder ?env [''repo'', ''sub'', ''core.clj''] = Some [''repo'']" by simp
  have c: "prefix [''repo''] (butlast [''repo'', ''sub'', ''core.clj''])" by simp
  from initProjectDir_first_marked_dir[OF a b c, of idleState]
  obtain r where run: "initProjectDir ?env idleState
        = (Inr (), idleState\<lparr>projectWsFolder := Some [''repo''], projectDir := Some r\<rparr>)"
    and lo: "prefix [''repo''] r" and hi: "prefix r (butlast [''repo'', ''sub'', ''core.clj''])"
    and marked: "hasProjectFile ?env r \<or> r = [''repo'']"
    by blast
  from hi have "r = [] \<or> r = [''repo''] \<or> r = [''repo'', ''sub'']"
    by (auto simp: prefix_Cons)
  moreover have "\<not> hasProjectFile ?env [''repo'', ''sub'']"
    by (simp add: hasProjectFile_def projectFileNames_def)
  ultimately have "r = [''repo'']" using lo marked by auto
  with run show ?thesis by simp
qed

text \<open>
  C8. \<^verbatim>\<open>toggleCLJCSession\<close>: with the connected flag set, if \<^verbatim>\<open>cljc\<close> holds the same
  session as \<^verbatim>\<open>cljs\<close> it is set to the \<^verbatim>\<open>clj\<close> session, and if it holds the same
  session as \<^verbatim>\<open>clj\<close> it is set to the \<^verbatim>\<open>cljs\<close> session; with the flag unset the state
  is left as it is. The \<^verbatim>\<open>clj\<close> and \<^verbatim>\<open>cljs\<close> slots never change, so if \<^verbatim>\<open>cljc\<close>
  aliases one of the two, it aliases one of the two after any number of toggles.
\<close>

theorem toggleCLJCSession_swaps_alias:
  "(connected s \<and> cljc s = cljs s \<longrightarrow> cljc (toggleCLJCSession s) = clj s)
   \<and> (connected s \<and> cljc s = clj s \<longrightarrow> cljc (toggleCLJCSession s) = cljs s)
   \<and> (\<not> connected s \<longrightarrow> toggleCLJCSession s = s)
   \<and> clj (toggleCLJCSession s) = clj s \<and> cljs (toggleCLJCSession s) = cljs s
   \<and> (cljc s = clj s \<or> cljc s = cljs s \<longrightarrow>
        cljc ((toggleCLJCSession ^^ n) s) = clj ((toggleCLJCSession ^^ n) s)
        \<or> cljc ((toggleCLJCSession ^^ n) s) = cljs ((toggleCLJCSession ^^ n) s))"
  using toggle_once[of s] toggle_many[of s n] by auto

text \<open>Toggling from \<^verbatim>\<open>clj\<close> to \<^verbatim>\<open>cljs\<close>, from \<^verbatim>\<open>cljs\<close> to \<^verbatim>\<open>clj\<close>, while
  disconnected, and twice in a row.\<close>

theorem toggleCLJCSession_swaps_alias_witness:
  "cljc (toggleCLJCSession (idleState\<lparr>connected := True, clj := Some (Session 1),
            cljs := Some (Session 2), cljc := Some (Session 1)\<rparr>)) = Some (Session 2)
   \<and> cljc (toggleCLJCSession (idleState\<lparr>connected := True, clj := Some (Session 1),
            cljs := Some (Session 2), cljc := Some (Session 2)\<rparr>)) = Some (Session 1)
   \<and> toggleCLJCSession (idleState\<lparr>clj := Some (Session 1), cljs := Some (Session 2),
            cljc := Some (Session 1)\<rparr>)
       = idleState\<lparr>clj := Some (Session 1), cljs := Some (Session 2), cljc := Some (Session 1)\<rparr>
   \<and> cljc ((toggleCLJCSession ^^ 2) (idleState\<lparr>connected := True, clj := Some (Session 1),
            cljs := Some (Session 2), cljc := Some (Session 1)\<rparr>)) = Some (Session 1)"
proof -
  let ?a = "idleState\<lparr>connected := True, clj := Some (Session 1),
            cljs := Some (Session 2), cljc := Some (Session 1)\<rparr>"
  let ?b = "idleState\<lparr>connected := True, clj := Some (Session 1),
            cljs := Some (Session 2), cljc := Some (Session 2)\<rparr>"
  let ?c = "idleState\<lparr>clj := Some (Session 1), cljs := Some (Session 2),
            cljc := Some (Session 1)\<rparr>"
  from toggleCLJCSession_swaps_alias[of ?a 0]
  have 1: "cljc (toggleCLJCSession ?a) = Some (Session 2)" by (simp add: idleState_def)
  from toggleCLJCSession_swaps_alias[of ?b 0]
  have 2: "cljc (toggleCLJCSession ?b) = Some (Session 1)" by (simp add: idleState_def)
  from toggleCLJCSession_swaps_alias[of ?c 0]
  have 3: "toggleCLJCSession ?c = ?c" by (simp add: idleState_def)
  have 4: "cljc ((toggleCLJCSession ^^ 2) ?a) = Some (Session 1)"
    by (simp add: numeral_2_eq_2 toggleCLJCSession_def getSession_def emit_def idleState_def)
  from 1 2 3 4 show ?thesis by (intro conjI)
qed

text \<open>
  C1 (as amended). Let \<^verbatim>\<open>util.stripAnsi\<close> leave no escape byte in its result. Then
  \<^verbatim>\<open>evalConnectCode\<close> returns the truthiness of the success predicate applied to the
  evaluation's value and to the stripped stdout chunks and the stripped stderr chunks,
  in arrival order, and no line of either list contains an escape byte; the connection
  log receives the stripped chunks too. An output processor, however, is handed each
  stdout chunk as it arrived, not stripped: a processor that echoes its input echoes the
  raw chunk.
\<close>

theorem evalConnectCode_strips_lines_not_processor_input:
  assumes "session_eval env sess code (tick s) = Inr script"
    and "\<forall>x. ESC \<notin> set (stripAnsi env x)"
  shows "fst (evalConnectCode env (Some sess) code name checkSuccess ps s)
           = map_sum id truthy
               (checkSuccess (valueOf script)
                  (map (stripAnsi env) (stdoutTexts (chunks script)))
                  (map (stripAnsi env) (stderrTexts (chunks script))))
       \<and> (\<forall>l \<in> set (map (stripAnsi env) (stdoutTexts (chunks script)))
                 \<union> set (map (stripAnsi env) (stderrTexts (chunks script))). ESC \<notin> set l)
       \<and> connLogs (effects (snd (evalConnectCode env (Some sess) code name checkSuccess
                                   (Some [probe tag]) s)))
           = connLogs (effects s) @ map (stripAnsi env) (map chunkText (chunks script))
       \<and> outputLines (effects (snd (evalConnectCode env (Some sess) code name checkSuccess
                                      (Some [probe tag]) s)))
           = outputLines (effects s) @ map (\<lambda>x. tag @ x) (stdoutTexts (chunks script))"
proof -
  have p: "concat (map (\<lambda>x. map (\<lambda>tag. tag @ x) [tag]) xs) = map (\<lambda>x. tag @ x) xs" for xs
    by (induction xs) auto
  from evalConnectCode_fst[OF assms(1), of name checkSuccess ps]
    evalConnectCode_probes[OF assms(1), of name checkSuccess "[tag]"] assms(2) p
  show ?thesis by auto
qed

text \<open>A chunk \<^verbatim>\<open>ESC[31mREADY ESC[0m\<close> on stdout and on stderr: the predicate sees
  \<^verbatim>\<open>READY\<close> twice, the echoing processor sees the coloured chunk.\<close>

theorem evalConnectCode_strips_lines_not_processor_input_witness:
  "(\<forall>x. ESC \<notin> set (stripAnsi (evalEnv [Stdout redReady, Stderr redReady] (Inr ''nil'')) x))
   \<and> fst (evalConnectCode (evalEnv [Stdout redReady, Stderr redReady] (Inr ''nil''))
            (Some (Session 1)) None ''custom''
            (\<lambda>v out err. Inr (JBool (out = [''READY''] \<and> err = [''READY''])))
            (Some [probe ''echo: '']) idleState) = Inr True
   \<and> connLogs (effects (snd (evalConnectCode (evalEnv [Stdout redReady, Stderr redReady] (Inr ''nil''))
            (Some (Session 1)) None ''custom''
            (\<lambda>v out err. Inr (JBool (out = [''READY''] \<and> err = [''READY''])))
            (Some [probe ''echo: '']) idleState))) = [''READY'', ''READY'']
   \<and> outputLines (effects (snd (evalConnectCode (evalEnv [Stdout redReady, Stderr redReady] (Inr ''nil''))
            (Some (Session 1)) None ''custom''
            (\<lambda>v out err. Inr (JBool (out = [''READY''] \<and> err = [''READY''])))
            (Some [probe ''echo: '']) idleState))) = [''echo: '' @ redReady]"
proof -
  let ?env = "evalEnv [Stdout redReady, Stderr redReady] (Inr ''nil'')"
  have run: "session_eval ?env (Session 1) None (tick idleState)
      = Inr \<lparr>chunks = [Stdout redReady, Stderr redReady], outcome = Inr ''nil''\<rparr>" by simp
  have clean: "\<forall>x. ESC \<notin> set (stripAnsi ?env x)" by (simp add: stripAnsiModel_no_ESC)
  from evalConnectCode_strips_lines_not_processor_input[OF run clean, of "''custom''"
      "\<lambda>v out err. Inr (JBool (out = [''READY''] \<and> err = [''READY'']))" "Some [probe ''echo: '']" "''echo: ''"]
    clean
  show ?thesis by (simp add: stripAnsiModel_redReady)
qed

text \<open>The claim as stated fails: the text handed to the processor contains escape
  bytes although \<^verbatim>\<open>stripAnsi\<close> removes them all.\<close>

theorem processor_receives_escape_bytes_counterexample:
  "ESC \<in> set redReady
   \<and> (\<forall>x. ESC \<notin> set (stripAnsi (evalEnv [Stdout redReady] (Inr ''nil'')) x))
   \<and> outputLines (effects (snd (evalConnectCode (evalEnv [Stdout redReady] (Inr ''nil''))
            (Some (Session 1)) None ''custom'' figwheel_connected
            (Some [probe []]) idleState))) = [redReady]"
proof -
  let ?env = "evalEnv [Stdout redReady] (Inr ''nil'')"
  have run: "session_eval ?env (Session 1) None (tick idleState)
      = Inr \<lparr>chunks = [Stdout redReady], outcome = Inr ''nil''\<rparr>" by simp
  have "ESC \<in> set redReady" by (simp add: redReady_def)
  moreover have "\<forall>x. ESC \<notin> set (stripAnsi ?env x)" by (simp add: stripAnsiModel_no_ESC)
  moreover from evalConnectCode_probes[OF run, of "''custom''" figwheel_connected "[[]]"]
  have "outputLines (effects (snd (evalConnectCode ?env (Some (Session 1)) None ''custom''
          figwheel_connected (Some [probe []]) idleState))) = [redReady]" by simp
  ultimately show ?thesis by blast
qed

text \<open>
  C6 (as amended). During an \<^verbatim>\<open>evalConnectCode\<close> evaluation every registered output
  processor is run on every stdout chunk, chunk by chunk in arrival order and, for each
  chunk, processor by processor in registration order; stderr chunks are not handed to
  the processors. Echoing processors show it: what they write is exactly the stdout
  chunks, each once per processor. For arbitrary processors: the state after the chunks
  is obtained by running, for each stdout chunk, the processors on it and then logging
  the stripped chunk, and for each stderr chunk by logging the stripped chunk only.
\<close>

theorem outputProcessors_run_on_stdout_only:
  assumes "session_eval env sess code (tick s) = Inr script"
  shows "outputLines (effects (snd (evalConnectCode env (Some sess) code name checkSuccess
                                  (Some (map probe tags)) s)))
           = outputLines (effects s)
             @ concat (map (\<lambda>x. map (\<lambda>tag. tag @ x) tags) (stdoutTexts (chunks script)))
       \<and> (\<forall>ps out err s0.
             snd (snd (fold (handleChunk env (Some ps)) (chunks script) (out, err, s0)))
               = fold (\<lambda>c st. emit (ConnLog (stripAnsi env (chunkText c)))
                        (case c of Stdout x \<Rightarrow> fold (\<lambda>p. p x) ps st | Stderr x \<Rightarrow> st))
                   (chunks script) s0)"
  using evalConnectCode_probes[OF assms, of name checkSuccess tags] fold_handleChunk_state
  by blast

text \<open>Chunks \<^verbatim>\<open>a\<close> (stdout), \<^verbatim>\<open>b\<close> (stderr), \<^verbatim>\<open>c\<close> (stdout) and two processors.\<close>

theorem outputProcessors_run_on_stdout_only_witness:
  "outputLines (effects (snd (evalConnectCode
       (evalEnv [Stdout ''a'', Stderr ''b'', Stdout ''c''] (Inr ''nil'')) (Some (Session 1)) None
       ''custom'' figwheel_connected (Some (map probe [''p1:'', ''p2:''])) idleState)))
   = [''p1:a'', ''p2:a'', ''p1:c'', ''p2:c'']"
proof -
  have run: "session_eval (evalEnv [Stdout ''a'', Stderr ''b'', Stdout ''c''] (Inr ''nil''))
      (Session 1) None (tick idleState)
      = Inr \<lparr>chunks = [Stdout ''a'', Stderr ''b'', Stdout ''c''], outcome = Inr ''nil''\<rparr>" by simp
  from outputProcessors_run_on_stdout_only[OF run, of "''custom''" figwheel_connected "[''p1:'', ''p2:'']"]
  show ?thesis by simp
qed

text \<open>The claim as stated fails: an evaluation whose only chunk arrives on stderr runs
  the registered processor on nothing, while the chunk does reach the connection log.\<close>

theorem stderr_chunk_reaches_no_processor_counterexample:
  "chunks \<lparr>chunks = [Stderr ''Build already running''], outcome = Inr ''nil''\<rparr>
     = [Stderr ''Build already running'']
   \<and> outputLines (effects (snd (evalConnectCode
       (evalEnv [Stderr ''Build already running''] (Inr ''nil'')) (Some (Session 1)) None
       ''Figwheel Main'' figwheelMain_started (Some [probe []]) idleState))) = []
   \<and> connLogs (effects (snd (evalConnectCode
       (evalEnv [Stderr ''Build already running''] (Inr ''nil'')) (Some (Session 1)) None
       ''Figwheel Main'' figwheelMain_started (Some [probe []]) idleState)))
       = [stripAnsiModel ''Build already running'']"
proof -
  have run: "session_eval (evalEnv [Stderr ''Build already running''] (Inr ''nil''))
      (Session 1) None (tick idleState)
      = Inr \<lparr>chunks = [Stderr ''Build already running''], outcome = Inr ''nil''\<rparr>" by simp
  from evalConnectCode_probes[OF run, of "''Figwheel Main''" figwheelMain_started "[[]]"]
  show ?thesis by simp
qed

text \<open>
  C5. When the evaluation's value is rejected, \<^verbatim>\<open>evalConnectCode\<close> logs the reason to
  the console and still calls the success predicate, with \<^verbatim>\<open>undefined\<close> for the value
  and the lines accumulated so far; for a predicate that returns, \<^verbatim>\<open>evalConnectCode\<close>
  returns the truthiness of its result. The shadow-cljs \<^verbatim>\<open>connected\<close> predicate does
  not return on that input: it calls \<^verbatim>\<open>search\<close> on \<^verbatim>\<open>undefined\<close>, and
  \<^verbatim>\<open>evalConnectCode\<close> throws the TypeError instead of returning.
\<close>

theorem shadow_connected_throws_after_rejected_evaluation:
  assumes "session_eval env sess code (tick s) = Inr script" and "outcome script = Inl reason"
  shows "fst (evalConnectCode env (Some sess) code name checkSuccess ps s)
           = map_sum id truthy
               (checkSuccess None
                  (map (stripAnsi env) (stdoutTexts (chunks script)))
                  (map (stripAnsi env) (stderrTexts (chunks script))))
       \<and> ConsoleError ''Error evaluating connect form: '' reason
           \<in> set (effects (snd (evalConnectCode env (Some sess) code name checkSuccess ps s)))
       \<and> fst (evalConnectCode env (Some sess) code name shadow_connected ps s)
           = Inl (TypeError ''Cannot read property 'search' of undefined'')"
  using evalConnectCode_fst[OF assms(1), of name checkSuccess ps]
    evalConnectCode_fst[OF assms(1), of name shadow_connected ps]
    evalConnectCode_rejected_logged[OF assms, of name checkSuccess ps] assms(2)
  by (simp add: valueOf_def shadow_connected_def)

text \<open>A rejected evaluation of the shadow-cljs select form; the Figwheel predicate, on
  the same evaluation, returns \<^verbatim>\<open>false\<close>.\<close>

theorem shadow_connected_throws_after_rejected_evaluation_witness:
  "fst (evalConnectCode (evalEnv [Stderr ''Execution error''] (Inl (Thrown ''EvalError'')))
          (Some (Session 2)) (Some ''(shadow.cljs.devtools.api/nrepl-select :app)'')
          ''shadow-cljs'' shadow_connected None idleState)
     = Inl (TypeError ''Cannot read property 'search' of undefined'')
   \<and> fst (evalConnectCode (evalEnv [Stderr ''Execution error''] (Inl (Thrown ''EvalError'')))
          (Some (Session 2)) (Some ''(shadow.cljs.devtools.api/nrepl-select :app)'')
          ''Figwheel'' figwheel_connected None idleState)
     = Inr False"
proof -
  let ?env = "evalEnv [Stderr ''Execution error''] (Inl (Thrown ''EvalError''))"
  let ?script = "\<lparr>chunks = [Stderr ''Execution error''], outcome = Inl (Thrown ''EvalError'')\<rparr>"
  have run: "session_eval ?env (Session 2) (Some ''(shadow.cljs.devtools.api/nrepl-select :app)'')
      (tick idleState) = Inr ?script" by simp
  have rej: "outcome ?script = Inl (Thrown ''EvalError'')" by simp
  from shadow_connected_throws_after_rejected_evaluation[OF run rej, of "''shadow-cljs''" shadow_connected None]
  have a: "fst (evalConnectCode ?env (Some (Session 2))
          (Some ''(shadow.cljs.devtools.api/nrepl-select :app)'')
          ''shadow-cljs'' shadow_connected None idleState)
     = Inl (TypeError ''Cannot read property 'search' of undefined'')" by blast
  from shadow_connected_throws_after_rejected_evaluation[OF run rej, of "''Figwheel''" figwheel_connected None]
  have "fst (evalConnectCode ?env (Some (Session 2))
          (Some ''(shadow.cljs.devtools.api/nrepl-select :app)'')
          ''Figwheel'' figwheel_connected None idleState)
     = map_sum id truthy (figwheel_connected None
          (map (stripAnsi ?env) (stdoutTexts (chunks ?script)))
          (map (stripAnsi ?env) (stderrTexts (chunks ?script))))" by blast
  then have b: "fst (evalConnectCode ?env (Some (Session 2))
          (Some ''(shadow.cljs.devtools.api/nrepl-select :app)'')
          ''Figwheel'' figwheel_connected None idleState) = Inr False"
    by (simp add: figwheel_connected_def)
  from a b show ?thesis by (rule conjI)
qed

text \<open>
  C4. Let the Clojure bring-up of \<^verbatim>\<open>connectToHost\<close> have succeeded, in state \<open>sr\<close>
  with base session \<open>base\<close>: then the connected flag is set and \<^verbatim>\<open>clj\<close> and
  \<^verbatim>\<open>cljc\<close> hold \<open>base\<close>. For every REPL type with a start routine: if the start
  routine, called on the first clone, resolves to \<^verbatim>\<open>false\<close>, then
  \<^verbatim>\<open>makeCljsSessionClone\<close> returns \<^verbatim>\<open>[null, null]\<close> with \<^verbatim>\<open>cljsBuild\<close> cleared, and
  \<^verbatim>\<open>connectToHost\<close> returns \<^verbatim>\<open>true\<close> in the state the start routine left, changed
  only by log lines and the cleared \<^verbatim>\<open>cljsBuild\<close>; so if the start routine itself left
  the connected flag and the \<^verbatim>\<open>clj\<close> and \<^verbatim>\<open>cljc\<close> slots alone, as every start routine
  of the registry does, the flag is still set and both slots still hold \<open>base\<close>.
  Whatever \<^verbatim>\<open>makeCljsSessionClone\<close> throws is caught by the inner \<^verbatim>\<open>try\<close>:
  \<^verbatim>\<open>connectToHost\<close> logs it and returns \<^verbatim>\<open>true\<close>, and, the REPL types being those of
  the registry, the flag is still set and both slots still hold \<open>base\<close>.

  The inner \<^verbatim>\<open>try\<close> ends before \<^verbatim>\<open>setUpCljsRepl\<close> is called, though. When
  \<^verbatim>\<open>makeCljsSessionClone\<close> has returned a session and opening or reconnecting the
  ClojureScript REPL window then fails, the error reaches the outer \<^verbatim>\<open>catch\<close>:
  \<^verbatim>\<open>connectToHost\<close> writes "Failed connecting." and returns \<^verbatim>\<open>false\<close> with the
  connected flag cleared, while \<^verbatim>\<open>clj\<close> and \<^verbatim>\<open>cljc\<close> still hold \<open>base\<close> and
  \<^verbatim>\<open>cljs\<close> holds the new session. (For the Clojure window the same failure of
  \<^verbatim>\<open>reconnectReplWindow\<close> is caught and logged, see \<open>clojureBringUp\<close>.)
\<close>

theorem cljs_bootstrap_failures_and_the_clojure_connection:
  assumes ready: "clojureBringUp env host p (beginConnect s) = (Inr (), sr)"
    and nm: "cljsTypeName \<noteq> []"
    and base: "cljSession sr = Some base"
  shows "connected sr \<and> clj sr = Some base \<and> cljc sr = Some base
     \<and> (\<forall>c1 repl start s2.
          session_clone env base (tick sr) = Inr (Some c1)
          \<and> find (\<lambda>x. repl_name x = cljsTypeName) replTypes = Some repl
          \<and> repl_start repl = Some start
          \<and> start (Some c1) cljsTypeName (startedOf repl) (beforeStart cljsTypeName sr) = (Inr False, s2)
          \<longrightarrow> makeCljsSessionClone env (Some base) cljsTypeName replTypes sr
                = (Inr (None, None),
                   (emits [Analytics ''REPL'' ''FailedStartingCLJS'' (Some cljsTypeName),
                           OutputLine ''Failed starting cljs repl''] s2)\<lparr>cljsBuild := None\<rparr>)
            \<and> connectToHost env host p cljsTypeName replTypes s
                = (Inr True,
                   emits [OutputLine ''cljc files will use the clj REPL.'', StatusUpdate]
                     ((emits [Analytics ''REPL'' ''FailedStartingCLJS'' (Some cljsTypeName),
                              OutputLine ''Failed starting cljs repl''] s2)\<lparr>cljsBuild := None\<rparr>))
            \<and> (connected s2 = connected sr \<and> clj s2 = clj sr \<and> cljc s2 = cljc sr
                 \<or> replTypes = getCLJSReplTypes env
                 \<longrightarrow> connected (snd (connectToHost env host p cljsTypeName replTypes s))
                   \<and> clj (snd (connectToHost env host p cljsTypeName replTypes s)) = Some base
                   \<and> cljc (snd (connectToHost env host p cljsTypeName replTypes s)) = Some base
                   \<and> cljsBuild (snd (connectToHost env host p cljsTypeName replTypes s)) = None))
     \<and> (\<forall>e s3.
          makeCljsSessionClone env (Some base) cljsTypeName replTypes sr = (Inl e, s3)
          \<longrightarrow> connectToHost env host p cljsTypeName replTypes s
                = (Inr True,
                   emits [OutputLine ''cljc files will use the clj REPL.'', StatusUpdate]
                     (emit (OutputLine (''Error while connecting cljs REPL: '' @ show_exn e)) s3))
            \<and> (replTypes = getCLJSReplTypes env
                 \<longrightarrow> connected (snd (connectToHost env host p cljsTypeName replTypes s))
                   \<and> clj (snd (connectToHost env host p cljsTypeName replTypes s)) = Some base
                   \<and> cljc (snd (connectToHost env host p cljsTypeName replTypes s)) = Some base))
     \<and> (\<forall>sess b s3 e.
          makeCljsSessionClone env (Some base) cljsTypeName replTypes sr = (Inr (Some sess, b), s3)
          \<and> (openReplWindow env ''cljs'' (tick s3) = Some e
               \<or> openReplWindow env ''cljs'' (tick s3) = None
                 \<and> reconnectReplWindow env ''cljs'' (Suc (tick s3)) = Some e)
          \<longrightarrow> fst (connectToHost env host p cljsTypeName replTypes s) = Inr False
            \<and> \<not> connected (snd (connectToHost env host p cljsTypeName replTypes s))
            \<and> \<not> connecting (snd (connectToHost env host p cljsTypeName replTypes s))
            \<and> cljs (snd (connectToHost env host p cljsTypeName replTypes s)) = Some sess
            \<and> outputLines (effects (snd (connectToHost env host p cljsTypeName replTypes s)))
                = outputLines (effects s3) @ [''Connected session: cljs'', ''Failed connecting.'']
            \<and> (replTypes = getCLJSReplTypes env
                 \<longrightarrow> clj (snd (connectToHost env host p cljsTypeName replTypes s)) = Some base
                   \<and> cljc (snd (connectToHost env host p cljsTypeName replTypes s)) = Some base))"
proof (intro conjI allI impI)
  from clojureBringUp_ready[OF ready] base
  show r1: "connected sr" and r2: "clj sr = Some base" and r3: "cljc sr = Some base" by simp_all
next
  fix e s3
  assume thrown: "makeCljsSessionClone env (Some base) cljsTypeName replTypes sr = (Inl e, s3)"
  from cljsBringUp_caught[OF nm, of env sr replTypes e s3] thrown base
  have "cljsBringUp env cljsTypeName replTypes sr
    = (Inr (), emits [OutputLine ''cljc files will use the clj REPL.'', StatusUpdate]
                 (emit (OutputLine (''Error while connecting cljs REPL: '' @ show_exn e)) s3))"
    by simp
  with ready show co: "connectToHost env host p cljsTypeName replTypes s
                = (Inr True,
                   emits [OutputLine ''cljc files will use the clj REPL.'', StatusUpdate]
                     (emit (OutputLine (''Error while connecting cljs REPL: '' @ show_exn e)) s3))"
    by (simp add: connectToHost_cases)
  assume "replTypes = getCLJSReplTypes env"
  with thrown have "clojureSide s3 = clojureSide sr"
    by (auto dest: makeCljsSessionClone_clojureSide)
  moreover from clojureBringUp_ready[OF ready] base
  have "connected sr" and "clj sr = Some base" and "cljc sr = Some base" by simp_all
  ultimately have "connected s3" and "clj s3 = Some base" and "cljc s3 = Some base"
    by (simp_all add: clojureSide_def)
  with co
  show "connected (snd (connectToHost env host p cljsTypeName replTypes s))"
    and "clj (snd (connectToHost env host p cljsTypeName replTypes s)) = Some base"
    and "cljc (snd (connectToHost env host p cljsTypeName replTypes s)) = Some base"
    by (simp_all add: emit_def emits_def)
next
  fix sess b s3 e
  assume h: "makeCljsSessionClone env (Some base) cljsTypeName replTypes sr = (Inr (Some sess, b), s3)
          \<and> (openReplWindow env ''cljs'' (tick s3) = Some e
               \<or> openReplWindow env ''cljs'' (tick s3) = None
                 \<and> reconnectReplWindow env ''cljs'' (Suc (tick s3)) = Some e)"
  then have mk: "makeCljsSessionClone env (cljSession sr) cljsTypeName replTypes sr
                   = (Inr (Some sess, b), s3)"
    and win: "openReplWindow env ''cljs'' (tick s3) = Some e
               \<or> openReplWindow env ''cljs'' (tick s3) = None
                 \<and> reconnectReplWindow env ''cljs'' (Suc (tick s3)) = Some e"
    using base by simp_all
  from cljsBringUp_window_fails[OF nm mk win]
  obtain s4 where up: "cljsBringUp env cljsTypeName replTypes sr = (Inl e, s4)"
    and side: "clojureSide s4 = clojureSide s3" and slot: "cljs s4 = Some sess"
    and lines: "outputLines (effects s4) = outputLines (effects s3) @ [''Connected session: cljs'']"
    by blast
  from ready up have co: "connectToHost env host p cljsTypeName replTypes s
      = (Inr False,
         emits [OutputLine ''Failed connecting.'', Analytics ''REPL'' ''FailedConnectingCLJ'' None]
           (s4\<lparr>connected := False, connecting := False\<rparr>))"
    by (simp add: connectToHost_cases)
  from co show "fst (connectToHost env host p cljsTypeName replTypes s) = Inr False" by simp
  from co show "\<not> connected (snd (connectToHost env host p cljsTypeName replTypes s))"
    by (simp add: emits_def)
  from co show "\<not> connecting (snd (connectToHost env host p cljsTypeName replTypes s))"
    by (simp add: emits_def)
  from co slot show "cljs (snd (connectToHost env host p cljsTypeName replTypes s)) = Some sess"
    by (simp add: emits_def)
  from co lines
  show "outputLines (effects (snd (connectToHost env host p cljsTypeName replTypes s)))
          = outputLines (effects s3) @ [''Connected session: cljs'', ''Failed connecting.'']"
    by (simp add: emits_def)
  assume "replTypes = getCLJSReplTypes env"
  with h base have "clojureSide s3 = clojureSide sr"
    by (auto dest: makeCljsSessionClone_clojureSide)
  moreover from clojureBringUp_ready[OF ready] base
  have "clj sr = Some base" and "cljc sr = Some base" by simp_all
  ultimately have "clj s4 = Some base" and "cljc s4 = Some base"
    using side by (simp_all add: clojureSide_def)
  with co
  show "clj (snd (connectToHost env host p cljsTypeName replTypes s)) = Some base"
    and "cljc (snd (connectToHost env host p cljsTypeName replTypes s)) = Some base"
    by (simp_all add: emits_def)
next
  fix c1 repl start s2
  assume h: "session_clone env base (tick sr) = Inr (Some c1)
          \<and> find (\<lambda>x. repl_name x = cljsTypeName) replTypes = Some repl
          \<and> repl_start repl = Some start
          \<and> start (Some c1) cljsTypeName (startedOf repl) (beforeStart cljsTypeName sr) = (Inr False, s2)"
  then have clone1: "session_clone env base (tick sr) = Inr (Some c1)"
    and found: "find (\<lambda>x. repl_name x = cljsTypeName) replTypes = Some repl"
    and hasStart: "repl_start repl = Some start"
    and fails: "start (Some c1) cljsTypeName (startedOf repl) (beforeStart cljsTypeName sr) = (Inr False, s2)"
    by simp_all
  let ?s3 = "(emits [Analytics ''REPL'' ''FailedStartingCLJS'' (Some cljsTypeName),
                           OutputLine ''Failed starting cljs repl''] s2)\<lparr>cljsBuild := None\<rparr>"
  show mk: "makeCljsSessionClone env (Some base) cljsTypeName replTypes sr = (Inr (None, None), ?s3)"
    by (rule makeCljsSessionClone_start_failed[OF clone1 found hasStart fails])
  from cljsBringUp_abandoned[OF nm, of env sr replTypes None ?s3] mk base
  have "cljsBringUp env cljsTypeName replTypes sr
    = (Inr (), emits [OutputLine ''cljc files will use the clj REPL.'', StatusUpdate] ?s3)"
    by simp
  with ready show co: "connectToHost env host p cljsTypeName replTypes s
      = (Inr True, emits [OutputLine ''cljc files will use the clj REPL.'', StatusUpdate] ?s3)"
    by (simp add: connectToHost_cases)
  assume "connected s2 = connected sr \<and> clj s2 = clj sr \<and> cljc s2 = cljc sr
                 \<or> replTypes = getCLJSReplTypes env"
  then have frame: "connected s2 = connected sr \<and> clj s2 = clj sr \<and> cljc s2 = cljc sr"
  proof
    assume "replTypes = getCLJSReplTypes env"
    with found hasStart have "start = figwheelMain_start env"
      by (auto dest: registered_start_is_figwheelMain)
    with fails figwheelMain_start_frame[of env "Some c1" cljsTypeName "startedOf repl"
        "beforeStart cljsTypeName sr" "Inr False" s2]
    show ?thesis by (simp add: beforeStart_def emit_def emits_def)
  qed simp
  from clojureBringUp_ready[OF ready] base
  have "connected sr" and "clj sr = Some base" and "cljc sr = Some base" by simp_all
  with frame co
  show "connected (snd (connectToHost env host p cljsTypeName replTypes s))"
    and "clj (snd (connectToHost env host p cljsTypeName replTypes s)) = Some base"
    and "cljc (snd (connectToHost env host p cljsTypeName replTypes s)) = Some base"
    and "cljsBuild (snd (connectToHost env host p cljsTypeName replTypes s)) = None"
    by (simp_all add: emits_def)
qed

text \<open>A Figwheel Main project whose start form prints no ready marker, and a project
  directory without project files, where the start routine throws: the connection stands
  on the Clojure session alone. A project whose start and attach forms succeed while the
  ClojureScript REPL window cannot be reconnected: the connection is given up as failed,
  with all three slots bound.\<close>

theorem cljs_bootstrap_failures_and_the_clojure_connection_witness:
  "fst (connectToHost failingStartEnv ''localhost'' (Num 7888) ''Figwheel Main''
          (getCLJSReplTypes failingStartEnv) idleState) = Inr True
   \<and> connected (snd (connectToHost failingStartEnv ''localhost'' (Num 7888) ''Figwheel Main''
          (getCLJSReplTypes failingStartEnv) idleState))
   \<and> clj (snd (connectToHost failingStartEnv ''localhost'' (Num 7888) ''Figwheel Main''
          (getCLJSReplTypes failingStartEnv) idleState)) = Some (Session 1)
   \<and> cljc (snd (connectToHost failingStartEnv ''localhost'' (Num 7888) ''Figwheel Main''
          (getCLJSReplTypes failingStartEnv) idleState)) = Some (Session 1)
   \<and> cljsBuild (snd (connectToHost failingStartEnv ''localhost'' (Num 7888) ''Figwheel Main''
          (getCLJSReplTypes failingStartEnv) idleState)) = None
   \<and> fst (connectToHost noProjectFilesEnv ''localhost'' (Num 7888) ''Figwheel Main''
          (getCLJSReplTypes noProjectFilesEnv) idleState) = Inr True
   \<and> connected (snd (connectToHost noProjectFilesEnv ''localhost'' (Num 7888) ''Figwheel Main''
          (getCLJSReplTypes noProjectFilesEnv) idleState))
   \<and> clj (snd (connectToHost noProjectFilesEnv ''localhost'' (Num 7888) ''Figwheel Main''
          (getCLJSReplTypes noProjectFilesEnv) idleState)) = Some (Session 1)
   \<and> cljc (snd (connectToHost noProjectFilesEnv ''localhost'' (Num 7888) ''Figwheel Main''
          (getCLJSReplTypes noProjectFilesEnv) idleState)) = Some (Session 1)
   \<and> fst (connectToHost cljsWindowFailsEnv ''localhost'' (Num 7888) ''Figwheel Main''
          (getCLJSReplTypes cljsWindowFailsEnv) idleState) = Inr False
   \<and> \<not> connected (snd (connectToHost cljsWindowFailsEnv ''localhost'' (Num 7888) ''Figwheel Main''
          (getCLJSReplTypes cljsWindowFailsEnv) idleState))
   \<and> clj (snd (connectToHost cljsWindowFailsEnv ''localhost'' (Num 7888) ''Figwheel Main''
          (getCLJSReplTypes cljsWindowFailsEnv) idleState)) = Some (Session 1)
   \<and> cljc (snd (connectToHost cljsWindowFailsEnv ''localhost'' (Num 7888) ''Figwheel Main''
          (getCLJSReplTypes cljsWindowFailsEnv) idleState)) = Some (Session 1)
   \<and> cljs (snd (connectToHost cljsWindowFailsEnv ''localhost'' (Num 7888) ''Figwheel Main''
          (getCLJSReplTypes cljsWindowFailsEnv) idleState)) = Some (Session 16)"
proof -
  have nm: "''Figwheel Main'' \<noteq> []" by simp
  have first: "fst (connectToHost failingStartEnv ''localhost'' (Num 7888) ''Figwheel Main''
          (getCLJSReplTypes failingStartEnv) idleState) = Inr True
   \<and> connected (snd (connectToHost failingStartEnv ''localhost'' (Num 7888) ''Figwheel Main''
          (getCLJSReplTypes failingStartEnv) idleState))
   \<and> clj (snd (connectToHost failingStartEnv ''localhost'' (Num 7888) ''Figwheel Main''
          (getCLJSReplTypes failingStartEnv) idleState)) = Some (Session 1)
   \<and> cljc (snd (connectToHost failingStartEnv ''localhost'' (Num 7888) ''Figwheel Main''
          (getCLJSReplTypes failingStartEnv) idleState)) = Some (Session 1)
   \<and> cljsBuild (snd (connectToHost failingStartEnv ''localhost'' (Num 7888) ''Figwheel Main''
          (getCLJSReplTypes failingStartEnv) idleState)) = None"
  proof -
    let ?env = failingStartEnv
    let ?run = "clojureBringUp ?env ''localhost'' (Num 7888) (beginConnect idleState)"
    let ?sr = "snd ?run"
    let ?fm = "figwheelMainType ?env"
    let ?start = "figwheelMain_start ?env (Some (Session (10 + tick ?sr))) ''Figwheel Main''
        (startedOf ?fm) (beforeStart ''Figwheel Main'' ?sr)"
    have ready: "?run = (Inr (), ?sr)" using failingStartEnv_ready by (simp add: prod_eq_iff)
    have base: "cljSession ?sr = Some (Session 1)" using failingStartEnv_ready by simp
    have clone1: "session_clone ?env (Session 1) (tick ?sr) = Inr (Some (Session (10 + tick ?sr)))"
      by (simp add: failingStartEnv_def quietEnv_def)
    have hasStart: "repl_start ?fm = Some (figwheelMain_start ?env)"
      by (simp add: figwheelMainType_def)
    have fails: "?start = (Inr False, snd ?start)"
      using failingStartEnv_start_fails[of "Session (10 + tick ?sr)" "beforeStart ''Figwheel Main'' ?sr"]
      by (simp add: prod_eq_iff startedOf_def figwheelMainType_def)
    note inst = cljs_bootstrap_failures_and_the_clojure_connection[OF ready nm base,
        of "getCLJSReplTypes ?env"]
    from inst have "\<forall>c1 repl start s2.
          session_clone ?env (Session 1) (tick ?sr) = Inr (Some c1)
          \<and> find (\<lambda>x. repl_name x = ''Figwheel Main'') (getCLJSReplTypes ?env) = Some repl
          \<and> repl_start repl = Some start
          \<and> start (Some c1) ''Figwheel Main'' (startedOf repl) (beforeStart ''Figwheel Main'' ?sr)
              = (Inr False, s2)
          \<longrightarrow> connectToHost ?env ''localhost'' (Num 7888) ''Figwheel Main'' (getCLJSReplTypes ?env) idleState
                = (Inr True,
                   emits [OutputLine ''cljc files will use the clj REPL.'', StatusUpdate]
                     ((emits [Analytics ''REPL'' ''FailedStartingCLJS'' (Some ''Figwheel Main''),
                              OutputLine ''Failed starting cljs repl''] s2)\<lparr>cljsBuild := None\<rparr>))
            \<and> (connected s2 = connected ?sr \<and> clj s2 = clj ?sr \<and> cljc s2 = cljc ?sr
                 \<or> getCLJSReplTypes ?env = getCLJSReplTypes ?env
                 \<longrightarrow> connected (snd (connectToHost ?env ''localhost'' (Num 7888) ''Figwheel Main'' (getCLJSReplTypes ?env) idleState))
                   \<and> clj (snd (connectToHost ?env ''localhost'' (Num 7888) ''Figwheel Main'' (getCLJSReplTypes ?env) idleState)) = Some (Session 1)
                   \<and> cljc (snd (connectToHost ?env ''localhost'' (Num 7888) ''Figwheel Main'' (getCLJSReplTypes ?env) idleState)) = Some (Session 1)
                   \<and> cljsBuild (snd (connectToHost ?env ''localhost'' (Num 7888) ''Figwheel Main'' (getCLJSReplTypes ?env) idleState)) = None)"
      by blast
    note r = this[rule_format, of "Session (10 + tick ?sr)" ?fm "figwheelMain_start ?env" "snd ?start",
        OF conjI[OF clone1 conjI[OF find_figwheelMain conjI[OF hasStart fails]]]]
    from r have e: "connectToHost ?env ''localhost'' (Num 7888) ''Figwheel Main''
        (getCLJSReplTypes ?env) idleState
      = (Inr True,
         emits [OutputLine ''cljc files will use the clj REPL.'', StatusUpdate]
           ((emits [Analytics ''REPL'' ''FailedStartingCLJS'' (Some ''Figwheel Main''),
                    OutputLine ''Failed starting cljs repl''] (snd ?start))\<lparr>cljsBuild := None\<rparr>))"
      by (rule conjunct1)
    have f: "fst (connectToHost ?env ''localhost'' (Num 7888) ''Figwheel Main''
        (getCLJSReplTypes ?env) idleState) = Inr True"
      by (simp add: e)
    note k = mp[OF conjunct2[OF r] disjI2[OF refl]]
    from f k show ?thesis by blast
  qed
  have second: "fst (connectToHost noProjectFilesEnv ''localhost'' (Num 7888) ''Figwheel Main''
          (getCLJSReplTypes noProjectFilesEnv) idleState) = Inr True
   \<and> connected (snd (connectToHost noProjectFilesEnv ''localhost'' (Num 7888) ''Figwheel Main''
          (getCLJSReplTypes noProjectFilesEnv) idleState))
   \<and> clj (snd (connectToHost noProjectFilesEnv ''localhost'' (Num 7888) ''Figwheel Main''
          (getCLJSReplTypes noProjectFilesEnv) idleState)) = Some (Session 1)
   \<and> cljc (snd (connectToHost noProjectFilesEnv ''localhost'' (Num 7888) ''Figwheel Main''
          (getCLJSReplTypes noProjectFilesEnv) idleState)) = Some (Session 1)"
  proof -
    let ?env = noProjectFilesEnv
    let ?run = "clojureBringUp ?env ''localhost'' (Num 7888) (beginConnect idleState)"
    let ?sr = "snd ?run"
    let ?fm = "figwheelMainType ?env"
    let ?start = "figwheelMain_start ?env (Some (Session (10 + tick ?sr))) ''Figwheel Main''
        (startedOf ?fm) (beforeStart ''Figwheel Main'' ?sr)"
    have ready: "?run = (Inr (), ?sr)" using noProjectFilesEnv_ready by (simp add: prod_eq_iff)
    have base: "cljSession ?sr = Some (Session 1)" using noProjectFilesEnv_ready by simp
    have clone1: "session_clone ?env (Session 1) (tick ?sr) = Inr (Some (Session (10 + tick ?sr)))"
      by (simp add: noProjectFilesEnv_def quietEnv_def)
    have hasStart: "repl_start ?fm = Some (figwheelMain_start ?env)"
      by (simp add: figwheelMainType_def)
    have throws: "?start = (Inl (Thrown ''Aborted''), snd ?start)"
      using noProjectFilesEnv_start_throws[of "Some (Session (10 + tick ?sr))" "startedOf ?fm"
          "beforeStart ''Figwheel Main'' ?sr"]
      by (simp add: prod_eq_iff)
    have mk: "makeCljsSessionClone ?env (Some (Session 1)) ''Figwheel Main'' (getCLJSReplTypes ?env) ?sr
        = (Inl (Thrown ''Aborted''), snd ?start)"
      by (rule makeCljsSessionClone_start_throws[OF clone1 find_figwheelMain hasStart throws])
    note inst = cljs_bootstrap_failures_and_the_clojure_connection[OF ready nm base,
        of "getCLJSReplTypes ?env"]
    from inst have "\<forall>e s3.
          makeCljsSessionClone ?env (Some (Session 1)) ''Figwheel Main'' (getCLJSReplTypes ?env) ?sr
            = (Inl e, s3)
          \<longrightarrow> connectToHost ?env ''localhost'' (Num 7888) ''Figwheel Main'' (getCLJSReplTypes ?env) idleState
                = (Inr True,
                   emits [OutputLine ''cljc files will use the clj REPL.'', StatusUpdate]
                     (emit (OutputLine (''Error while connecting cljs REPL: '' @ show_exn e)) s3))
            \<and> (getCLJSReplTypes ?env = getCLJSReplTypes ?env
                 \<longrightarrow> connected (snd (connectToHost ?env ''localhost'' (Num 7888) ''Figwheel Main'' (getCLJSReplTypes ?env) idleState))
                   \<and> clj (snd (connectToHost ?env ''localhost'' (Num 7888) ''Figwheel Main'' (getCLJSReplTypes ?env) idleState)) = Some (Session 1)
                   \<and> cljc (snd (connectToHost ?env ''localhost'' (Num 7888) ''Figwheel Main'' (getCLJSReplTypes ?env) idleState)) = Some (Session 1))"
      by blast
    note r = this[rule_format, of "Thrown ''Aborted''" "snd ?start", OF mk]
    from r have e: "connectToHost ?env ''localhost'' (Num 7888) ''Figwheel Main''
        (getCLJSReplTypes ?env) idleState
      = (Inr True,
         emits [OutputLine ''cljc files will use the clj REPL.'', StatusUpdate]
           (emit (OutputLine (''Error while connecting cljs REPL: '' @ show_exn (Thrown ''Aborted'')))
              (snd ?start)))"
      by (rule conjunct1)
    have f: "fst (connectToHost ?env ''localhost'' (Num 7888) ''Figwheel Main''
        (getCLJSReplTypes ?env) idleState) = Inr True"
      by (simp add: e)
    note k = mp[OF conjunct2[OF r] refl]
    from f k show ?thesis by blast
  qed
  have third: "fst (connectToHost cljsWindowFailsEnv ''localhost'' (Num 7888) ''Figwheel Main''
          (getCLJSReplTypes cljsWindowFailsEnv) idleState) = Inr False
   \<and> \<not> connected (snd (connectToHost cljsWindowFailsEnv ''localhost'' (Num 7888) ''Figwheel Main''
          (getCLJSReplTypes cljsWindowFailsEnv) idleState))
   \<and> clj (snd (connectToHost cljsWindowFailsEnv ''localhost'' (Num 7888) ''Figwheel Main''
          (getCLJSReplTypes cljsWindowFailsEnv) idleState)) = Some (Session 1)
   \<and> cljc (snd (connectToHost cljsWindowFailsEnv ''localhost'' (Num 7888) ''Figwheel Main''
          (getCLJSReplTypes cljsWindowFailsEnv) idleState)) = Some (Session 1)
   \<and> cljs (snd (connectToHost cljsWindowFailsEnv ''localhost'' (Num 7888) ''Figwheel Main''
          (getCLJSReplTypes cljsWindowFailsEnv) idleState)) = Some (Session 16)"
  proof -
    let ?env = cljsWindowFailsEnv
    let ?run = "clojureBringUp ?env ''localhost'' (Num 7888) (beginConnect idleState)"
    let ?sr = "snd ?run"
    let ?fm = "figwheelMainType ?env"
    let ?st = "figwheelMain_start ?env (Some (Session 13)) ''Figwheel Main''
        figwheelMain_started (beforeStart ''Figwheel Main'' ?sr)"
    let ?sc = "(emits [Analytics ''REPL'' ''StartedCLJS'' (Some ''Figwheel Main''),
                     OutputLine ''Started cljs builds''] (snd ?st))\<lparr>tick := Suc (tick (snd ?st))\<rparr>"
    let ?co = "figwheelMain_connect ?env (Some (Session 16)) ''Figwheel Main'' figwheelMain_connected
       (emits [OutputLine ''Connecting CLJS repl: Figwheel Main...'',
               OutputLine ''  Compiling and stuff. This can take a minute or two.'',
               OutputLine ''  See Calva Connection Log for detailed progress updates.''] ?sc)"
    let ?s3 = "(emit (Analytics ''REPL'' ''ConnectedCLJS'' (Some ''Figwheel Main'')) (snd ?co))
                     \<lparr>cljs := Some (Session 16), cljsSession := Some (Session 16)\<rparr>"
    have ready: "?run = (Inr (), ?sr)" using cljsWindowFailsEnv_ready by (simp add: prod_eq_iff)
    have base: "cljSession ?sr = Some (Session 1)" using cljsWindowFailsEnv_ready by simp
    have t: "tick ?sr = 3"
      using clojureBringUp_ready[OF ready] by (simp add: tick_beginConnect_idleState)
    have cl: "session_clone ?env sess n = Inr (Some (Session (10 + n)))" for sess n
      by (simp add: cljsWindowFailsEnv_def quietEnv_def)
    have clone1: "session_clone ?env (Session 1) (tick ?sr) = Inr (Some (Session 13))"
      by (simp add: cl t)
    have hasStart: "repl_start ?fm = Some (figwheelMain_start ?env)"
      by (simp add: figwheelMainType_def)
    have ok: "figwheelMain_start ?env (Some (Session 13)) ''Figwheel Main''
        (startedOf ?fm) (beforeStart ''Figwheel Main'' ?sr) = (Inr True, snd ?st)"
      using cljsWindowFailsEnv_start[of "Session 13" "beforeStart ''Figwheel Main'' ?sr"]
      by (simp add: prod_eq_iff startedOf_def figwheelMainType_def)
    have t2: "tick (snd ?st) = 6"
      using cljsWindowFailsEnv_start[of "Session 13" "beforeStart ''Figwheel Main'' ?sr"] t
      by (simp add: beforeStart_def emit_def emits_def)
    have clone2: "session_clone ?env (Session 1) (tick (snd ?st)) = Inr (Some (Session 16))"
      by (simp add: cl t2)
    have b: "makeCljsSessionClone ?env (Some (Session 1)) ''Figwheel Main'' (getCLJSReplTypes ?env) ?sr
        = connectStep ?fm (Some (Session 16)) ?sc"
      by (rule makeCljsSessionClone_started[OF clone1 find_figwheelMain hasStart ok clone2])
    have c: "connectStep ?fm (Some (Session 16)) ?sc
      = (case ?co of
           (Inl e, sd) \<Rightarrow> (Inl e, sd)
         | (Inr ok, sd) \<Rightarrow>
             if ok
             then (Inr (Some (Session 16), None),
                   (emit (Analytics ''REPL'' ''ConnectedCLJS'' (Some ''Figwheel Main'')) sd)
                     \<lparr>cljs := Some (Session 16), cljsSession := Some (Session 16)\<rparr>)
             else (Inr (None, None),
                   (emits [Analytics ''REPL'' ''FailedConnectingCLJS'' (Some ''Figwheel Main''),
                           OutputLine (failedConnectingMessage (cljsBuild sd))] sd)
                     \<lparr>cljsBuild := None\<rparr>))"
      by (simp add: connectStep_cases figwheelMainType_def connectOf_def
          split: prod.splits sum.splits)
    have d: "?co = (Inr True, snd ?co)"
      using cljsWindowFailsEnv_connect by (simp add: prod_eq_iff)
    have mk: "makeCljsSessionClone ?env (Some (Session 1)) ''Figwheel Main'' (getCLJSReplTypes ?env) ?sr
        = (Inr (Some (Session 16), None), ?s3)"
      unfolding b c by (subst d) simp
    have win: "openReplWindow ?env ''cljs'' (tick ?s3) = None
        \<and> reconnectReplWindow ?env ''cljs'' (Suc (tick ?s3)) = Some (Thrown ''no REPL window'')"
      by (simp add: cljsWindowFailsEnv_def quietEnv_def)
    note inst = cljs_bootstrap_failures_and_the_clojure_connection[OF ready nm base,
        of "getCLJSReplTypes ?env"]
    from inst have "\<forall>sess b s3 e.
          makeCljsSessionClone ?env (Some (Session 1)) ''Figwheel Main'' (getCLJSReplTypes ?env) ?sr
            = (Inr (Some sess, b), s3)
          \<and> (openReplWindow ?env ''cljs'' (tick s3) = Some e
               \<or> openReplWindow ?env ''cljs'' (tick s3) = None
                 \<and> reconnectReplWindow ?env ''cljs'' (Suc (tick s3)) = Some e)
          \<longrightarrow> fst (connectToHost ?env ''localhost'' (Num 7888) ''Figwheel Main'' (getCLJSReplTypes ?env) idleState) = Inr False
            \<and> \<not> connected (snd (connectToHost ?env ''localhost'' (Num 7888) ''Figwheel Main'' (getCLJSReplTypes ?env) idleState))
            \<and> \<not> connecting (snd (connectToHost ?env ''localhost'' (Num 7888) ''Figwheel Main'' (getCLJSReplTypes ?env) idleState))
            \<and> cljs (snd (connectToHost ?env ''localhost'' (Num 7888) ''Figwheel Main'' (getCLJSReplTypes ?env) idleState)) = Some sess
            \<and> outputLines (effects (snd (connectToHost ?env ''localhost'' (Num 7888) ''Figwheel Main'' (getCLJSReplTypes ?env) idleState)))
                = outputLines (effects s3) @ [''Connected session: cljs'', ''Failed connecting.'']
            \<and> (getCLJSReplTypes ?env = getCLJSReplTypes ?env
                 \<longrightarrow> clj (snd (connectToHost ?env ''localhost'' (Num 7888) ''Figwheel Main'' (getCLJSReplTypes ?env) idleState)) = Some (Session 1)
                   \<and> cljc (snd (connectToHost ?env ''localhost'' (Num 7888) ''Figwheel Main'' (getCLJSReplTypes ?env) idleState)) = Some (Session 1))"
      by blast
    note r = this[rule_format, of "Session 16" None ?s3 "Thrown ''no REPL window''",
        OF conjI[OF mk disjI2[OF win]]]
    from r have r1: "fst (connectToHost ?env ''localhost'' (Num 7888) ''Figwheel Main''
        (getCLJSReplTypes ?env) idleState) = Inr False"
      and r2: "\<not> connected (snd (connectToHost ?env ''localhost'' (Num 7888) ''Figwheel Main''
        (getCLJSReplTypes ?env) idleState))"
      and r3: "cljs (snd (connectToHost ?env ''localhost'' (Num 7888) ''Figwheel Main''
        (getCLJSReplTypes ?env) idleState)) = Some (Session 16)"
      and r4: "getCLJSReplTypes ?env = getCLJSReplTypes ?env
         \<longrightarrow> clj (snd (connectToHost ?env ''localhost'' (Num 7888) ''Figwheel Main''
                (getCLJSReplTypes ?env) idleState)) = Some (Session 1)
           \<and> cljc (snd (connectToHost ?env ''localhost'' (Num 7888) ''Figwheel Main''
                (getCLJSReplTypes ?env) idleState)) = Some (Session 1)"
      by blast+
    note k = mp[OF r4 refl]
    from r1 r2 r3 k show ?thesis by blast
  qed
  from first second third show ?thesis by blast
qed

text \<open>
  C10. Whenever the success predicate handed to \<^verbatim>\<open>evalConnectCode\<close> returns a truthy
  value, \<^verbatim>\<open>evalConnectCode\<close> returns \<^verbatim>\<open>true\<close> and has set the \<^verbatim>\<open>cljs\<close> slot (and the
  module's \<^verbatim>\<open>cljsSession\<close>) to the session it evaluated on. This also happens inside a
  start routine: when the Figwheel Main start routine, called by \<^verbatim>\<open>makeCljsSessionClone\<close>
  on the first clone, resolves to \<^verbatim>\<open>true\<close>, the \<^verbatim>\<open>cljs\<close> slot holds that first clone;
  \<^verbatim>\<open>makeCljsSessionClone\<close> then clones the base session again and runs the connect
  step on the fresh clone, entered with the \<^verbatim>\<open>cljs\<close> slot still at the first clone; a
  successful connect step replaces it with the fresh clone.
\<close>

theorem successful_start_leaves_cljs_at_first_clone:
  "(session_eval env sess code (tick st) = Inr script
    \<and> checkSuccess (valueOf script) (map (stripAnsi env) (stdoutTexts (chunks script)))
         (map (stripAnsi env) (stderrTexts (chunks script))) = Inr r
    \<and> truthy r
    \<longrightarrow> (\<exists>st'. evalConnectCode env (Some sess) code name checkSuccess ps st = (Inr True, st')
              \<and> cljs st' = Some sess \<and> cljsSession st' = Some sess))
   \<and> (session_clone env base (tick s) = Inr (Some firstClone)
      \<and> figwheelMain_start env (Some firstClone) ''Figwheel Main'' figwheelMain_started
           (beforeStart ''Figwheel Main'' s) = (Inr True, afterStart)
      \<and> session_clone env base (tick afterStart) = Inr freshClone
      \<longrightarrow> cljs afterStart = Some firstClone
        \<and> makeCljsSessionClone env (Some base) ''Figwheel Main'' (getCLJSReplTypes env) s
            = connectStep (figwheelMainType env) freshClone
                ((emits [Analytics ''REPL'' ''StartedCLJS'' (Some ''Figwheel Main''),
                         OutputLine ''Started cljs builds''] afterStart)\<lparr>tick := Suc (tick afterStart)\<rparr>)
        \<and> cljs ((emits [Analytics ''REPL'' ''StartedCLJS'' (Some ''Figwheel Main''),
                         OutputLine ''Started cljs builds''] afterStart)\<lparr>tick := Suc (tick afterStart)\<rparr>) = Some firstClone
        \<and> (\<forall>sc. connectStep (figwheelMainType env) freshClone sc
              = (case figwheelMain_connect env freshClone ''Figwheel Main'' figwheelMain_connected
                       (emits [OutputLine ''Connecting CLJS repl: Figwheel Main...'',
                               OutputLine ''  Compiling and stuff. This can take a minute or two.'',
                               OutputLine ''  See Calva Connection Log for detailed progress updates.''] sc) of
                   (Inl e, sd) \<Rightarrow> (Inl e, sd)
                 | (Inr ok, sd) \<Rightarrow>
                     if ok
                     then (Inr (freshClone, None),
                           (emit (Analytics ''REPL'' ''ConnectedCLJS'' (Some ''Figwheel Main'')) sd)
                             \<lparr>cljs := freshClone, cljsSession := freshClone\<rparr>)
                     else (Inr (None, None),
                           (emits [Analytics ''REPL'' ''FailedConnectingCLJS'' (Some ''Figwheel Main''),
                                   OutputLine (failedConnectingMessage (cljsBuild sd))] sd)
                             \<lparr>cljsBuild := None\<rparr>))))"
proof (intro conjI impI allI)
  assume "session_eval env sess code (tick st) = Inr script
    \<and> checkSuccess (valueOf script) (map (stripAnsi env) (stdoutTexts (chunks script)))
         (map (stripAnsi env) (stderrTexts (chunks script))) = Inr r
    \<and> truthy r"
  then show "\<exists>st'. evalConnectCode env (Some sess) code name checkSuccess ps st = (Inr True, st')
              \<and> cljs st' = Some sess \<and> cljsSession st' = Some sess"
    using evalConnectCode_truthy by blast
next
  assume h: "session_clone env base (tick s) = Inr (Some firstClone)
      \<and> figwheelMain_start env (Some firstClone) ''Figwheel Main'' figwheelMain_started
           (beforeStart ''Figwheel Main'' s) = (Inr True, afterStart)
      \<and> session_clone env base (tick afterStart) = Inr freshClone"
  then have clone1: "session_clone env base (tick s) = Inr (Some firstClone)"
    and ok: "figwheelMain_start env (Some firstClone) ''Figwheel Main'' figwheelMain_started
           (beforeStart ''Figwheel Main'' s) = (Inr True, afterStart)"
    and clone2: "session_clone env base (tick afterStart) = Inr freshClone" by simp_all
  from figwheelMain_start_true[OF ok] show c: "cljs afterStart = Some firstClone" .
  then show "cljs ((emits [Analytics ''REPL'' ''StartedCLJS'' (Some ''Figwheel Main''),
                         OutputLine ''Started cljs builds''] afterStart)\<lparr>tick := Suc (tick afterStart)\<rparr>) = Some firstClone"
    by (simp add: emits_def)
  have hasStart: "repl_start (figwheelMainType env) = Some (figwheelMain_start env)"
    by (simp add: figwheelMainType_def)
  have st: "startedOf (figwheelMainType env) = figwheelMain_started"
    by (simp add: startedOf_def figwheelMainType_def)
  have ok': "figwheelMain_start env (Some firstClone) ''Figwheel Main'' (startedOf (figwheelMainType env))
           (beforeStart ''Figwheel Main'' s) = (Inr True, afterStart)" using ok st by simp
  from makeCljsSessionClone_started[OF clone1 find_figwheelMain hasStart ok' clone2]
  show "makeCljsSessionClone env (Some base) ''Figwheel Main'' (getCLJSReplTypes env) s
            = connectStep (figwheelMainType env) freshClone
                ((emits [Analytics ''REPL'' ''StartedCLJS'' (Some ''Figwheel Main''),
                         OutputLine ''Started cljs builds''] afterStart)\<lparr>tick := Suc (tick afterStart)\<rparr>)"
    by simp
next
  fix sc
  show "connectStep (figwheelMainType env) freshClone sc
              = (case figwheelMain_connect env freshClone ''Figwheel Main'' figwheelMain_connected
                       (emits [OutputLine ''Connecting CLJS repl: Figwheel Main...'',
                               OutputLine ''  Compiling and stuff. This can take a minute or two.'',
                               OutputLine ''  See Calva Connection Log for detailed progress updates.''] sc) of
                   (Inl e, sd) \<Rightarrow> (Inl e, sd)
                 | (Inr ok, sd) \<Rightarrow>
                     if ok
                     then (Inr (freshClone, None),
                           (emit (Analytics ''REPL'' ''ConnectedCLJS'' (Some ''Figwheel Main'')) sd)
                             \<lparr>cljs := freshClone, cljsSession := freshClone\<rparr>)
                     else (Inr (None, None),
                           (emits [Analytics ''REPL'' ''FailedConnectingCLJS'' (Some ''Figwheel Main''),
                                   OutputLine (failedConnectingMessage (cljsBuild sd))] sd)
                             \<lparr>cljsBuild := None\<rparr>))"
    by (simp add: connectStep_cases figwheelMainType_def connectOf_def split: prod.splits sum.splits)
qed

text \<open>Base session 1, first clone 10, fresh clone 13: after the start the slot holds
  session 10, after \<^verbatim>\<open>makeCljsSessionClone\<close> it holds session 13.\<close>

theorem successful_start_leaves_cljs_at_first_clone_witness:
  "cljs (snd (figwheelMain_start figwheelMainEnv (Some (Session 10)) ''Figwheel Main''
          figwheelMain_started (beforeStart ''Figwheel Main'' idleState))) = Some (Session 10)
   \<and> fst (makeCljsSessionClone figwheelMainEnv (Some (Session 1)) ''Figwheel Main''
          (getCLJSReplTypes figwheelMainEnv) idleState) = Inr (Some (Session 13), None)
   \<and> cljs (snd (makeCljsSessionClone figwheelMainEnv (Some (Session 1)) ''Figwheel Main''
          (getCLJSReplTypes figwheelMainEnv) idleState)) = Some (Session 13)"
proof -
  let ?env = figwheelMainEnv
  let ?st = "figwheelMain_start ?env (Some (Session 10)) ''Figwheel Main''
          figwheelMain_started (beforeStart ''Figwheel Main'' idleState)"
  let ?sc = "(emits [Analytics ''REPL'' ''StartedCLJS'' (Some ''Figwheel Main''),
                     OutputLine ''Started cljs builds''] (snd ?st))\<lparr>tick := Suc (tick (snd ?st))\<rparr>"
  let ?co = "figwheelMain_connect ?env (Some (Session 13)) ''Figwheel Main'' figwheelMain_connected
       (emits [OutputLine ''Connecting CLJS repl: Figwheel Main...'',
               OutputLine ''  Compiling and stuff. This can take a minute or two.'',
               OutputLine ''  See Calva Connection Log for detailed progress updates.''] ?sc)"
  have t: "tick (snd ?st) = 3"
    using figwheelMainEnv_start[of "beforeStart ''Figwheel Main'' idleState"]
    by (simp add: beforeStart_def emit_def emits_def)
  have cl: "session_clone ?env sess n = Inr (Some (Session (10 + n)))" for sess n
    by (simp add: figwheelMainEnv_def quietEnv_def)
  have clone1: "session_clone ?env (Session 1) (tick idleState) = Inr (Some (Session 10))"
    by (simp add: cl)
  have ok: "?st = (Inr True, snd ?st)"
    using figwheelMainEnv_start[of "beforeStart ''Figwheel Main'' idleState"]
    by (simp add: prod_eq_iff)
  have clone2: "session_clone ?env (Session 1) (tick (snd ?st)) = Inr (Some (Session 13))"
    by (simp add: t cl)
  note inst = successful_start_leaves_cljs_at_first_clone[where env = ?env and base = "Session 1"
      and s = idleState and firstClone = "Session 10" and afterStart = "snd ?st"
      and freshClone = "Some (Session 13)"]
  from inst clone1 ok clone2 have a: "cljs (snd ?st) = Some (Session 10)" by blast
  from inst clone1 ok clone2
  have b: "makeCljsSessionClone ?env (Some (Session 1)) ''Figwheel Main'' (getCLJSReplTypes ?env)
      idleState = connectStep (figwheelMainType ?env) (Some (Session 13)) ?sc" by blast
  from inst clone1 ok clone2
  have c: "connectStep (figwheelMainType ?env) (Some (Session 13)) ?sc
      = (case ?co of
           (Inl e, sd) \<Rightarrow> (Inl e, sd)
         | (Inr ok, sd) \<Rightarrow>
             if ok
             then (Inr (Some (Session 13), None),
                   (emit (Analytics ''REPL'' ''ConnectedCLJS'' (Some ''Figwheel Main'')) sd)
                     \<lparr>cljs := Some (Session 13), cljsSession := Some (Session 13)\<rparr>)
             else (Inr (None, None),
                   (emits [Analytics ''REPL'' ''FailedConnectingCLJS'' (Some ''Figwheel Main''),
                           OutputLine (failedConnectingMessage (cljsBuild sd))] sd)
                     \<lparr>cljsBuild := None\<rparr>))" by blast
  have d: "?co = (Inr True, snd ?co)"
    using figwheelMainEnv_connect by (simp add: prod_eq_iff)
  have "makeCljsSessionClone ?env (Some (Session 1)) ''Figwheel Main'' (getCLJSReplTypes ?env)
      idleState = (Inr (Some (Session 13), None),
                   (emit (Analytics ''REPL'' ''ConnectedCLJS'' (Some ''Figwheel Main'')) (snd ?co))
                     \<lparr>cljs := Some (Session 13), cljsSession := Some (Session 13)\<rparr>)"
    unfolding b c by (subst d) simp
  with a show ?thesis by simp
qed

text \<open>
  C2. In \<^verbatim>\<open>promptForNreplUrlAndConnect\<close> the entered text is split at colons and
  \<^verbatim>\<open>parseFloat\<close> reads the second part; the test that follows is
  \<^verbatim>\<open>parsedPort && parsedPort > 0 && parsedPort < 65536\<close>. It holds exactly when the
  number read is strictly between 0 and 65536. When it fails, \<^verbatim>\<open>connectToHost\<close> is not
  run: the "Bad url" line is written, the connecting flag is reset, and the client, the
  connected flag and everything else are left as they were, so no existing connection is
  closed. When it holds, the number is stored together with the host name and
  \<^verbatim>\<open>connectToHost\<close> is run with it. The test does not ask for an integer: a
  fractional number in the range passes it like a port number does.
\<close>

theorem promptForNreplUrlAndConnect_port_check:
  assumes "showInputBox env (''localhost:'' @ (case port0 of None \<Rightarrow> [] | Some p \<Rightarrow> p)) (tick s)
             = Some url"
    and "splitUrl url = (host, portText)"
  shows "(portAccepted (parseFloat env portText)
            \<longleftrightarrow> (\<exists>x. parseFloat env portText = Num x \<and> 0 < x \<and> x < 65536))
     \<and> (portAccepted (parseFloat env portText) \<longrightarrow>
          promptForNreplUrlAndConnect env port0 cljsTypeName replTypes s
            = (Inr True,
               snd (connectToHost env host (parseFloat env portText) cljsTypeName replTypes
                      (s\<lparr>tick := Suc (tick s), hostname := Some host,
                         port := Some (parseFloat env portText)\<rparr>))))
     \<and> (\<not> portAccepted (parseFloat env portText) \<longrightarrow>
          promptForNreplUrlAndConnect env port0 cljsTypeName replTypes s
            = (Inr True,
               emits [OutputLine (''Bad url: '' @ url), StatusUpdate]
                 (s\<lparr>tick := Suc (tick s), connecting := False\<rparr>))
          \<and> \<not> connecting (snd (promptForNreplUrlAndConnect env port0 cljsTypeName replTypes s))
          \<and> nClient (snd (promptForNreplUrlAndConnect env port0 cljsTypeName replTypes s))
              = nClient s
          \<and> connected (snd (promptForNreplUrlAndConnect env port0 cljsTypeName replTypes s))
              = connected s)"
  using prompt_accepted[OF assms, of cljsTypeName replTypes]
    prompt_rejected[OF assms, of cljsTypeName replTypes] portAccepted_iff[of "parseFloat env portText"]
  by (simp add: emits_def)

text \<open>The answers \<^verbatim>\<open>localhost:port\<close> (rejected) and \<^verbatim>\<open>localhost:7888\<close> (accepted)
  while a connection is live. And the answer \<^verbatim>\<open>localhost:80.5\<close>, which names no port:
  it is accepted too, 80.5 is stored as the port, and the live connection is closed
  silently before the new one is refused.\<close>

theorem promptForNreplUrlAndConnect_port_check_witness:
  "\<not> portAccepted (parseFloat (promptEnv ''localhost:port'') (Some ''port''))
   \<and> promptForNreplUrlAndConnect (promptEnv ''localhost:port'') None [] [] connectedState
       = (Inr True,
          emits [OutputLine ''Bad url: localhost:port'', StatusUpdate]
            (connectedState\<lparr>tick := Suc (tick connectedState), connecting := False\<rparr>))
   \<and> nClient (snd (promptForNreplUrlAndConnect (promptEnv ''localhost:port'') None [] []
                     connectedState)) = nClient connectedState
   \<and> portAccepted (parseFloat (promptEnv ''localhost:7888'') (Some ''7888''))
   \<and> promptForNreplUrlAndConnect (promptEnv ''localhost:7888'') None [] [] connectedState
       = (Inr True,
          snd (connectToHost (promptEnv ''localhost:7888'') ''localhost'' (Num 7888) [] []
                 (connectedState\<lparr>tick := Suc (tick connectedState),
                                  hostname := Some ''localhost'', port := Some (Num 7888)\<rparr>)))
   \<and> parseFloat (promptEnv ''localhost:80.5'') (Some ''80.5'') = Num (161 / 2)
   \<and> (\<nexists>k::int. (161 / 2 :: rat) = of_int k)
   \<and> nClient connectedState
       = Some \<lparr>conn_id = 3, conn_session = Session 1, silent = False, live = True\<rparr>
   \<and> nClient (snd (promptForNreplUrlAndConnect (promptEnv ''localhost:80.5'') None [] []
                     connectedState))
       = Some \<lparr>conn_id = 3, conn_session = Session 1, silent = True, live = False\<rparr>
   \<and> port (snd (promptForNreplUrlAndConnect (promptEnv ''localhost:80.5'') None [] []
                  connectedState)) = Some (Num (161 / 2))
   \<and> outputLines (effects (snd (promptForNreplUrlAndConnect (promptEnv ''localhost:80.5'') None
                                  [] [] connectedState)))
       = [''Hooking up nREPL sessions...'', ''Failed connecting.'']"
proof -
  have i1: "showInputBox (promptEnv ''localhost:port'')
      (''localhost:'' @ (case None of None \<Rightarrow> [] | Some p \<Rightarrow> p)) (tick connectedState)
      = Some ''localhost:port''" by simp
  have i2: "showInputBox (promptEnv ''localhost:7888'')
      (''localhost:'' @ (case None of None \<Rightarrow> [] | Some p \<Rightarrow> p)) (tick connectedState)
      = Some ''localhost:7888''" by simp
  have bad: "\<not> portAccepted (parseFloat (promptEnv ''localhost:port'') (Some ''port''))"
    by (simp add: jsParseFloat_port portAccepted_def)
  have good: "portAccepted (parseFloat (promptEnv ''localhost:7888'') (Some ''7888''))"
    by (simp add: jsParseFloat_7888 portAccepted_def)
  have pf7: "parseFloat (promptEnv ''localhost:7888'') (Some ''7888'') = Num 7888"
    by (simp add: jsParseFloat_7888)
  note w1 = promptForNreplUrlAndConnect_port_check[OF i1 splitUrl_examples(2), of "[]" "[]"]
  note w2 = promptForNreplUrlAndConnect_port_check[OF i2 splitUrl_examples(3), of "[]" "[]"]
  from w1 bad have r1:
    "promptForNreplUrlAndConnect (promptEnv ''localhost:port'') None [] [] connectedState
       = (Inr True,
          emits [OutputLine (''Bad url: '' @ ''localhost:port''), StatusUpdate]
            (connectedState\<lparr>tick := Suc (tick connectedState), connecting := False\<rparr>))"
    and r2: "nClient (snd (promptForNreplUrlAndConnect (promptEnv ''localhost:port'') None [] []
                     connectedState)) = nClient connectedState"
    by blast+
  from w2 good have r3:
    "promptForNreplUrlAndConnect (promptEnv ''localhost:7888'') None [] [] connectedState
       = (Inr True,
          snd (connectToHost (promptEnv ''localhost:7888'') ''localhost''
                 (parseFloat (promptEnv ''localhost:7888'') (Some ''7888'')) [] []
                 (connectedState\<lparr>tick := Suc (tick connectedState),
                                  hostname := Some ''localhost'',
                                  port := Some (parseFloat (promptEnv ''localhost:7888'') (Some ''7888''))\<rparr>)))"
    by blast
  from bad r1 r2 good r3 have whole: 
    "\<not> portAccepted (parseFloat (promptEnv ''localhost:port'') (Some ''port''))
   \<and> promptForNreplUrlAndConnect (promptEnv ''localhost:port'') None [] [] connectedState
       = (Inr True,
          emits [OutputLine ''Bad url: localhost:port'', StatusUpdate]
            (connectedState\<lparr>tick := Suc (tick connectedState), connecting := False\<rparr>))
   \<and> nClient (snd (promptForNreplUrlAndConnect (promptEnv ''localhost:port'') None [] []
                     connectedState)) = nClient connectedState
   \<and> portAccepted (parseFloat (promptEnv ''localhost:7888'') (Some ''7888''))
   \<and> promptForNreplUrlAndConnect (promptEnv ''localhost:7888'') None [] [] connectedState
       = (Inr True,
          snd (connectToHost (promptEnv ''localhost:7888'') ''localhost'' (Num 7888) [] []
                 (connectedState\<lparr>tick := Suc (tick connectedState),
                                  hostname := Some ''localhost'', port := Some (Num 7888)\<rparr>)))"
    unfolding pf7 by simp
  let ?env = "promptEnv ''localhost:80.5''"
  let ?s1 = "connectedState\<lparr>tick := Suc (tick connectedState), hostname := Some ''localhost'',
                            port := Some (parseFloat ?env (Some ''80.5''))\<rparr>"
  have i3: "showInputBox ?env (''localhost:'' @ (case None of None \<Rightarrow> [] | Some p \<Rightarrow> p))
      (tick connectedState) = Some ''localhost:80.5''" by simp
  have pf: "parseFloat ?env (Some ''80.5'') = Num (161 / 2)" by (simp add: jsParseFloat_80_5)
  have ok: "portAccepted (parseFloat ?env (Some ''80.5''))"
    by (simp add: jsParseFloat_80_5 portAccepted_def)
  note w3 = promptForNreplUrlAndConnect_port_check[OF i3 splitUrl_examples(1), of "[]" "[]"]
  from w3 ok have run: "promptForNreplUrlAndConnect ?env None [] [] connectedState
      = (Inr True, snd (connectToHost ?env ''localhost'' (parseFloat ?env (Some ''80.5'')) [] [] ?s1))"
    by blast
  have c: "nClient ?s1 = Some \<lparr>conn_id = 3, conn_session = Session 1, silent = False, live = True\<rparr>"
    by (simp add: connectedState_def idleState_def)
  have r: "nrepl_create ?env ''localhost'' (parseFloat ?env (Some ''80.5'')) (tick ?s1)
      = Inl (Thrown ''ECONNREFUSED'')" by simp
  note f = refused_connectToHost[OF r c, of "[]" "[]"]
  have ol: "outputLines (effects ?s1) = []" by (simp add: connectedState_def)
  have p: "port (beginConnect ?s1) = Some (Num (161 / 2))"
    by (simp add: beginConnect_def closeClient_def onCloseHandler_def emit_def Let_def
        jsParseFloat_80_5 connectedState_def idleState_def)
  have n: "nClient connectedState
       = Some \<lparr>conn_id = 3, conn_session = Session 1, silent = False, live = True\<rparr>"
    by (simp add: connectedState_def idleState_def)
  from f have f1: "snd (connectToHost ?env ''localhost'' (parseFloat ?env (Some ''80.5'')) [] [] ?s1)
      = emits [OutputLine ''Failed connecting.'', Analytics ''REPL'' ''FailedConnectingCLJ'' None]
          ((emit (OutputLine ''Hooking up nREPL sessions...'') (beginConnect ?s1))
             \<lparr>tick := Suc (tick ?s1), connected := False, connecting := False\<rparr>)"
    and f2: "nClient (beginConnect ?s1)
      = Some \<lparr>conn_id = 3, conn_session = Session 1, silent = True, live = False\<rparr>"
    and f3: "outputLines (effects (beginConnect ?s1)) = outputLines (effects ?s1)"
    by simp_all
  have a1: "nClient (snd (promptForNreplUrlAndConnect ?env None [] [] connectedState))
       = Some \<lparr>conn_id = 3, conn_session = Session 1, silent = True, live = False\<rparr>"
    unfolding run f1 using f2 by (simp add: emit_def emits_def)
  have a2: "port (snd (promptForNreplUrlAndConnect ?env None [] [] connectedState))
       = Some (Num (161 / 2))"
    unfolding run f1 using p by (simp add: emit_def emits_def)
  have a3: "outputLines (effects (snd (promptForNreplUrlAndConnect ?env None [] [] connectedState)))
       = [''Hooking up nREPL sessions...'', ''Failed connecting.'']"
    unfolding run f1 using f3 ol by (simp add: emit_def emits_def)
  from whole pf not_integer_80_5 n a1 a2 a3 show ?thesis by blast
qed

text \<open>
  C3 (as amended). The explicit \<^verbatim>\<open>disconnect\<close> clears the \<^verbatim>\<open>clj\<close>, \<^verbatim>\<open>cljs\<close> and
  \<^verbatim>\<open>cljc\<close> slots and the connected flag (before it closes the client, so also when
  there is no client to close). A close of the live connection that fires the registered
  close handler, unexpected or not, clears the connected and the connecting flag and
  leaves the three session slots as they were.
\<close>

theorem disconnect_clears_roles_close_handler_clears_flags:
  "clj (snd (disconnect (resolve ()) s)) = None
   \<and> cljs (snd (disconnect (resolve ()) s)) = None
   \<and> cljc (snd (disconnect (resolve ()) s)) = None
   \<and> \<not> connected (snd (disconnect (resolve ()) s))
   \<and> (nClient s \<noteq> None \<longrightarrow> fst (disconnect (resolve ()) s) = Inr ())
   \<and> (nClient s = Some c \<and> live c \<longrightarrow>
        \<not> connected (closeClient s) \<and> \<not> connecting (closeClient s)
        \<and> clj (closeClient s) = clj s \<and> cljs (closeClient s) = cljs s
        \<and> cljc (closeClient s) = cljc s)"
proof -
  have d: "clj (snd (disconnect (resolve ()) s)) = None
   \<and> cljs (snd (disconnect (resolve ()) s)) = None
   \<and> cljc (snd (disconnect (resolve ()) s)) = None
   \<and> \<not> connected (snd (disconnect (resolve ()) s))
   \<and> (nClient s \<noteq> None \<longrightarrow> fst (disconnect (resolve ()) s) = Inr ())"
    by (cases "nClient s")
       (auto simp: disconnect_def andThen_def update_def resolve_def emit_def closeClient_def
          onCloseHandler_def)
  have h: "nClient s = Some c \<and> live c \<longrightarrow>
        \<not> connected (closeClient s) \<and> \<not> connecting (closeClient s)
        \<and> clj (closeClient s) = clj s \<and> cljs (closeClient s) = cljs s
        \<and> cljc (closeClient s) = cljc s"
    by (auto simp: closeClient_live emit_def)
  from d h show ?thesis by blast
qed

text \<open>Disconnecting, and losing the connection, in a connected state.\<close>

theorem disconnect_clears_roles_close_handler_clears_flags_witness:
  "fst (disconnect (resolve ()) connectedState) = Inr ()
   \<and> clj (snd (disconnect (resolve ()) connectedState)) = None
   \<and> cljs (snd (disconnect (resolve ()) connectedState)) = None
   \<and> cljc (snd (disconnect (resolve ()) connectedState)) = None
   \<and> \<not> connected (snd (disconnect (resolve ()) connectedState))
   \<and> \<not> connected (closeClient connectedState)
   \<and> \<not> connecting (closeClient connectedState)"
proof -
  have n: "nClient connectedState
       = Some \<lparr>conn_id = 3, conn_session = Session 1, silent = False, live = True\<rparr>"
    by (simp add: connectedState_def idleState_def)
  from disconnect_clears_roles_close_handler_clears_flags[of connectedState
      "\<lparr>conn_id = 3, conn_session = Session 1, silent = False, live = True\<rparr>"] n
  show ?thesis by simp
qed

text \<open>The claim as stated fails: after a connect to a server at \<^verbatim>\<open>localhost:7888\<close>
  without ClojureScript, an unexpected close of the connection leaves \<^verbatim>\<open>clj\<close> and
  \<^verbatim>\<open>cljc\<close> bound to the base session.\<close>

theorem unexpected_close_keeps_roles_counterexample:
  "connected (snd (connectToHost failingStartEnv ''localhost'' (Num 7888) [] [] idleState))
   \<and> \<not> connected (closeClient
         (snd (connectToHost failingStartEnv ''localhost'' (Num 7888) [] [] idleState)))
   \<and> clj (closeClient
         (snd (connectToHost failingStartEnv ''localhost'' (Num 7888) [] [] idleState)))
       = Some (Session 1)
   \<and> cljc (closeClient
         (snd (connectToHost failingStartEnv ''localhost'' (Num 7888) [] [] idleState)))
       = Some (Session 1)
   \<and> last (outputLines (effects (closeClient
         (snd (connectToHost failingStartEnv ''localhost'' (Num 7888) [] [] idleState)))))
       = ''nREPL Connection was closed''"
proof -
  let ?s = "snd (connectToHost failingStartEnv ''localhost'' (Num 7888) [] [] idleState)"
  note c = connectToHost_clj_only
  then have n: "nClient ?s = Some \<lparr>conn_id = 7, conn_session = Session 1, silent = False, live = True\<rparr>"
    by simp
  have l: "live \<lparr>conn_id = 7, conn_session = Session 1, silent = False, live = True\<rparr>" by simp
  from closeClient_live[OF n l] c show ?thesis by (simp add: emit_def)
qed

end
